theory Spec2Isabelle
  imports Complex_Main
begin

section \<open>Values, exceptions and the provider's utterances\<close>

text \<open>
  The development embeds \<^verbatim>\<open>process_conversation\<close> of \<^verbatim>\<open>src/modules/speaker_id.py\<close>.
  Python exceptions are values. \<^verbatim>\<open>except Exception\<close> catches every exception class
  derived from \<^verbatim>\<open>Exception\<close> and lets the others (such as \<^verbatim>\<open>KeyboardInterrupt\<close> and
  \<^verbatim>\<open>SystemExit\<close>) pass, so the two kinds are kept apart. Confidences and thresholds are
  floats that the function only compares and passes on; they are real numbers here. The
  \<^verbatim>\<open>print\<close> statements are left out.
\<close>

datatype py_exn =
    KeyError string
  | UnboundLocalError string
  | RaisedException string
  | RaisedBaseException string

fun is_Exception :: "py_exn \<Rightarrow> bool" where
  "is_Exception (RaisedBaseException _) = False"
| "is_Exception _ = True"

text \<open>Opaque data that is only passed through (word timings, database ids, dict values).\<close>

datatype json =
    JNull
  | JInt int
  | JFloat real
  | JStr string
  | JList "json list"
  | JDict "(string \<times> json) list"

type_synonym pydict = "(string \<times> json) list"

text \<open>
  An utterance of the diarization provider is a dict; a field is \<open>None\<close> when its key is
  absent. A key that is present holds a value of the provider's documented type
  (milliseconds as integers, the confidence as a float, the tag and the text as strings).
\<close>

record utterance =
  u_words :: "json option"
  u_start :: "int option"
  u_end :: "int option"
  u_text :: "string option"
  u_speaker :: "string option"
  u_confidence :: "real option"

section \<open>Collaborators and the instrumented state\<close>

text \<open>
  Each call that leaves the function is recorded in a trace, in call order, before its
  outcome is known. The trace is ghost state: no collaborator reads or writes it.
\<close>

datatype event =
    ConvertToWav string
  | FromWav string
  | Transcribe string
  | AddConversation
  | TestVoiceSegment nat
  | AddSpeaker nat string
  | AutoUpdateEmbedding nat string real
  | AddUtterance nat
  | IdentifyUnknown
  | OsRemove string

record 'w pstate =
  world :: 'w
  trace :: "event list"

text \<open>
  The functions and constants that \<^verbatim>\<open>process_conversation\<close> uses and that are not in
  the source file are parameters. \<open>'w\<close> is the world outside the function (file system,
  database, vector index, clock, random source), \<open>'a\<close> an audio segment and \<open>'e\<close> an
  embedding vector. A collaborator returns its outcome, a raised exception or a value,
  together with the world it leaves behind.
\<close>

record ('w, 'a, 'e) collab =
  convert_to_wav :: "string \<Rightarrow> 'w \<Rightarrow> (py_exn + string) \<times> 'w"
  from_wav :: "string \<Rightarrow> 'w \<Rightarrow> (py_exn + 'a) \<times> 'w"
  transcribe :: "string \<Rightarrow> 'w \<Rightarrow> (py_exn + utterance list option) \<times> 'w"
  add_conversation :: "pydict \<Rightarrow> 'w \<Rightarrow> (py_exn + json) \<times> 'w"
  test_voice_segment ::
    "'a \<Rightarrow> string \<Rightarrow> nat \<Rightarrow> real \<Rightarrow> 'w \<Rightarrow>
       (py_exn + string option \<times> real \<times> string option \<times> 'e option) \<times> 'w"
  add_speaker :: "string \<Rightarrow> 'w \<Rightarrow> (py_exn + json) \<times> 'w"
  auto_update_embedding ::
    "'e \<Rightarrow> string \<Rightarrow> string \<Rightarrow> real \<Rightarrow> real \<Rightarrow> 'w \<Rightarrow> (py_exn + unit) \<times> 'w"
  add_utterance :: "pydict \<Rightarrow> 'w \<Rightarrow> (py_exn + unit) \<times> 'w"
  identify_unknown_speakers_by_combining ::
    "pydict list \<Rightarrow> pydict \<Rightarrow> 'a \<Rightarrow> real \<Rightarrow> real \<Rightarrow> 'w \<Rightarrow> (py_exn + pydict list) \<times> 'w"
  format_time :: "int \<Rightarrow> string"
  audio_slice :: "'a \<Rightarrow> int \<Rightarrow> int \<Rightarrow> 'a"
  audio_len :: "'a \<Rightarrow> nat"
  path_exists :: "string \<Rightarrow> 'w \<Rightarrow> bool"
  os_remove :: "string \<Rightarrow> 'w \<Rightarrow> (py_exn + unit) \<times> 'w"
  now_strftime :: "'w \<Rightarrow> string"
  now_isoformat :: "'w \<Rightarrow> string"
  uuid4_hex :: "'w \<Rightarrow> string \<times> 'w"
  S3_BASE_PATH :: string
  S3_UTTERANCES_PATH :: string

definition call ::
  "event \<Rightarrow> ('w \<Rightarrow> (py_exn + 'r) \<times> 'w) \<Rightarrow> 'w pstate \<Rightarrow> (py_exn + 'r) \<times> 'w pstate" where
  "call ev f s =
     (case f (world s) of (r, w') \<Rightarrow> (r, \<lparr>world = w', trace = trace s @ [ev]\<rparr>))"

section \<open>Pure helpers\<close>

text \<open>\<^verbatim>\<open>not speaker_name\<close> holds for \<open>None\<close> and for the empty string.\<close>

definition truthy :: "string option \<Rightarrow> bool" where
  "truthy s = (case s of None \<Rightarrow> False | Some x \<Rightarrow> x \<noteq> [])"

text \<open>\<^verbatim>\<open>os.path.basename\<close>: what follows the last slash.\<close>

definition basename :: "string \<Rightarrow> string" where
  "basename p = rev (takeWhile (\<lambda>ch. ch \<noteq> CHR ''/'') (rev p))"

text \<open>The format \<^verbatim>\<open>{i:03d}\<close>: decimal digits, padded with zeros to three places.\<close>

definition digit_char :: "nat \<Rightarrow> char" where
  "digit_char d = ''0123456789'' ! (d mod 10)"

fun str_nat :: "nat \<Rightarrow> string" where
  "str_nat n =
     (if n < 10 then [digit_char n] else str_nat (n div 10) @ [digit_char (n mod 10)])"

declare str_nat.simps [simp del]

definition fmt_03d :: "nat \<Rightarrow> string" where
  "fmt_03d n = replicate (3 - length (str_nat n)) CHR ''0'' @ str_nat n"

text \<open>Lines 82 and 94: the path of the utterance's audio clip.\<close>

definition clip_path :: "('w, 'a, 'e) collab \<Rightarrow> string \<Rightarrow> nat \<Rightarrow> string" where
  "clip_path c conversation_id i =
     S3_BASE_PATH c @ ''/'' @ conversation_id @ ''/'' @ S3_UTTERANCES_PATH c
       @ ''/utterance_'' @ fmt_03d i @ ''.wav''"

definition json_opt_str :: "string option \<Rightarrow> json" where
  "json_opt_str s = (case s of None \<Rightarrow> JNull | Some x \<Rightarrow> JStr x)"

section \<open>The loop body\<close>

text \<open>Lines 56 to 58: the fallback to the provider's label and confidence.\<close>

definition provider_label :: "utterance \<Rightarrow> py_exn + string \<times> real" where
  "provider_label u =
     (case u_speaker u of
        None \<Rightarrow> Inl (KeyError ''speaker'')
      | Some tag \<Rightarrow>
          Inr (''Speaker_'' @ tag, (case u_confidence u of None \<Rightarrow> 0.0 | Some cf \<Rightarrow> cf)))"

definition fallback_label ::
  "utterance \<Rightarrow> string option \<Rightarrow> real \<Rightarrow> py_exn + string \<times> real" where
  "fallback_label u speaker_name confidence =
     (if \<not> truthy speaker_name then provider_label u
      else Inr (the speaker_name, confidence))"

text \<open>Lines 64 to 76: the record appended to \<^verbatim>\<open>utterance_metadata\<close>.\<close>

definition utterance_data ::
  "('w, 'a, 'e) collab \<Rightarrow> nat \<Rightarrow> int \<Rightarrow> int \<Rightarrow> string \<Rightarrow> real \<Rightarrow> string \<Rightarrow>
     string option \<Rightarrow> json \<Rightarrow> json \<Rightarrow> pydict" where
  "utterance_data c i start_ms end_ms text confidence speaker_name embedding_id words
      db_conversation_id =
     [(''id'', JInt (int i)),
      (''start_ms'', JInt start_ms),
      (''end_ms'', JInt end_ms),
      (''start_time'', JStr (format_time c start_ms)),
      (''end_time'', JStr (format_time c end_ms)),
      (''text'', JStr text),
      (''confidence'', JFloat confidence),
      (''speaker'', JStr speaker_name),
      (''embedding_id'', json_opt_str embedding_id),
      (''words'', words),
      (''conversation_id'', db_conversation_id)]"

text \<open>Lines 95 to 109: the record handed to \<^verbatim>\<open>add_utterance\<close>.\<close>

definition utterance_info ::
  "('w, 'a, 'e) collab \<Rightarrow> string \<Rightarrow> int \<Rightarrow> int \<Rightarrow> string \<Rightarrow> real \<Rightarrow> string option \<Rightarrow>
     string \<Rightarrow> json \<Rightarrow> string \<Rightarrow> json \<Rightarrow> json \<Rightarrow> pydict" where
  "utterance_info c hex start_ms end_ms text confidence embedding_id s3_path speaker_id
      speaker_name db_conversation_id words =
     [(''utterance_id'', JStr (''utterance_'' @ take 8 hex)),
      (''start_time'', JStr (format_time c start_ms)),
      (''end_time'', JStr (format_time c end_ms)),
      (''start_ms'', JInt start_ms),
      (''end_ms'', JInt end_ms),
      (''text'', JStr text),
      (''confidence'', JFloat confidence),
      (''embedding_id'', json_opt_str embedding_id),
      (''audio_file'', JStr s3_path),
      (''speaker_id'', speaker_id),
      (''speaker'', JStr speaker_name),
      (''conversation_id'', db_conversation_id),
      (''words'', words)]"

text \<open>Lines 80 to 91: the gate of the automatic enrollment.\<close>

definition auto_update ::
  "('w, 'a, 'e) collab \<Rightarrow> string \<Rightarrow> real \<Rightarrow> nat \<Rightarrow> 'e option \<Rightarrow> string \<Rightarrow> real \<Rightarrow>
     'w pstate \<Rightarrow> (py_exn + unit) \<times> 'w pstate" where
  "auto_update c conversation_id auto_update_threshold i embedding speaker_name confidence s =
     (case embedding of
        None \<Rightarrow> (Inr (), s)
      | Some emb \<Rightarrow>
          if confidence > auto_update_threshold
          then call (AutoUpdateEmbedding i speaker_name confidence)
                 (auto_update_embedding c emb speaker_name (clip_path c conversation_id i)
                    confidence auto_update_threshold) s
          else (Inr (), s))"

text \<open>Lines 94 to 109: the clip path and the database row.\<close>

definition store_utterance ::
  "('w, 'a, 'e) collab \<Rightarrow> string \<Rightarrow> json \<Rightarrow> nat \<Rightarrow> int \<Rightarrow> int \<Rightarrow> string \<Rightarrow> real \<Rightarrow>
     string option \<Rightarrow> json \<Rightarrow> string \<Rightarrow> json \<Rightarrow> 'w pstate \<Rightarrow> (py_exn + string) \<times> 'w pstate" where
  "store_utterance c conversation_id db_conversation_id i start_ms end_ms text confidence
      embedding_id speaker_id speaker_name words s =
     (let s3_path = clip_path c conversation_id i in
      case uuid4_hex c (world s) of (hex, w1) \<Rightarrow>
        (case call (AddUtterance i)
                (add_utterance c
                   (utterance_info c hex start_ms end_ms text confidence embedding_id s3_path
                      speaker_id speaker_name db_conversation_id words))
                (s\<lparr>world := w1\<rparr>) of
           (Inl e, s2) \<Rightarrow> (Inl e, s2)
         | (Inr _, s2) \<Rightarrow> (Inr s3_path, s2)))"

text \<open>
  Lines 64 to 109, once the speaker is resolved and stored. The loop carries the list
  \<^verbatim>\<open>utterance_metadata\<close> and the variable \<^verbatim>\<open>s3_path\<close>, which is \<open>None\<close> while unbound.
\<close>

definition record_utterance ::
  "('w, 'a, 'e) collab \<Rightarrow> string \<Rightarrow> json \<Rightarrow> real \<Rightarrow> nat \<Rightarrow> utterance \<Rightarrow> int \<Rightarrow> int \<Rightarrow> json \<Rightarrow>
     string \<Rightarrow> real \<Rightarrow> string option \<Rightarrow> 'e option \<Rightarrow> json \<Rightarrow> pydict list \<Rightarrow> 'w pstate \<Rightarrow>
     (py_exn + pydict list \<times> string option) \<times> 'w pstate" where
  "record_utterance c conversation_id db_conversation_id auto_update_threshold i u start_ms
      end_ms words speaker_name confidence embedding_id embedding speaker_id
      utterance_metadata s =
     (case u_text u of
        None \<Rightarrow> (Inl (KeyError ''text''), s)
      | Some text \<Rightarrow>
          (case auto_update c conversation_id auto_update_threshold i embedding speaker_name
                  confidence s of
             (Inl e, s1) \<Rightarrow> (Inl e, s1)
           | (Inr _, s1) \<Rightarrow>
               (case store_utterance c conversation_id db_conversation_id i start_ms end_ms
                       text confidence embedding_id speaker_id speaker_name words s1 of
                  (Inl e, s2) \<Rightarrow> (Inl e, s2)
                | (Inr s3_path, s2) \<Rightarrow>
                    (Inr (utterance_metadata
                            @ [utterance_data c i start_ms end_ms text confidence speaker_name
                                 embedding_id words db_conversation_id],
                          Some s3_path), s2))))"

text \<open>Lines 48 to 109: an utterance that passed both filters.\<close>

definition process_segment ::
  "('w, 'a, 'e) collab \<Rightarrow> string \<Rightarrow> json \<Rightarrow> 'a \<Rightarrow> real \<Rightarrow> real \<Rightarrow> nat \<Rightarrow> utterance \<Rightarrow>
     int \<Rightarrow> int \<Rightarrow> json \<Rightarrow> pydict list \<Rightarrow> 'w pstate \<Rightarrow>
     (py_exn + pydict list \<times> string option) \<times> 'w pstate" where
  "process_segment c conversation_id db_conversation_id full_audio match_threshold
      auto_update_threshold i u start_ms end_ms words utterance_metadata s =
     (case call (TestVoiceSegment i)
             (test_voice_segment c (audio_slice c full_audio start_ms end_ms) conversation_id i
                match_threshold) s of
        (Inl e, s1) \<Rightarrow> (Inl e, s1)
      | (Inr (speaker_name, confidence, embedding_id, embedding), s1) \<Rightarrow>
          (case fallback_label u speaker_name confidence of
             Inl e \<Rightarrow> (Inl e, s1)
           | Inr (speaker_name', confidence') \<Rightarrow>
               (case call (AddSpeaker i speaker_name') (add_speaker c speaker_name') s1 of
                  (Inl e, s2) \<Rightarrow> (Inl e, s2)
                | (Inr speaker_id, s2) \<Rightarrow>
                    record_utterance c conversation_id db_conversation_id
                      auto_update_threshold i u start_ms end_ms words speaker_name' confidence'
                      embedding_id embedding speaker_id utterance_metadata s2)))"

text \<open>Lines 35 to 109: one iteration; \<^verbatim>\<open>continue\<close> returns the loop variables unchanged.\<close>

definition process_utterance ::
  "('w, 'a, 'e) collab \<Rightarrow> string \<Rightarrow> json \<Rightarrow> 'a \<Rightarrow> real \<Rightarrow> real \<Rightarrow> nat \<Rightarrow> utterance \<Rightarrow>
     pydict list \<times> string option \<Rightarrow> 'w pstate \<Rightarrow>
     (py_exn + pydict list \<times> string option) \<times> 'w pstate" where
  "process_utterance c conversation_id db_conversation_id full_audio match_threshold
      auto_update_threshold i u vars s =
     (case u_words u of
        None \<Rightarrow> (Inr vars, s)
      | Some words \<Rightarrow>
          (case u_start u of
             None \<Rightarrow> (Inl (KeyError ''start''), s)
           | Some start_ms \<Rightarrow>
               (case u_end u of
                  None \<Rightarrow> (Inl (KeyError ''end''), s)
                | Some end_ms \<Rightarrow>
                    if end_ms - start_ms < 700 then (Inr vars, s)
                    else process_segment c conversation_id db_conversation_id full_audio
                           match_threshold auto_update_threshold i u start_ms end_ms words
                           (fst vars) s)))"

text \<open>Line 34: the loop over \<^verbatim>\<open>enumerate(utterances)\<close>, from index \<open>i\<close> on.\<close>

fun process_utterances ::
  "('w, 'a, 'e) collab \<Rightarrow> string \<Rightarrow> json \<Rightarrow> 'a \<Rightarrow> real \<Rightarrow> real \<Rightarrow> nat \<Rightarrow> utterance list \<Rightarrow>
     pydict list \<times> string option \<Rightarrow> 'w pstate \<Rightarrow>
     (py_exn + pydict list \<times> string option) \<times> 'w pstate" where
  "process_utterances c cid dbid full_audio mt aut i [] vars s = (Inr vars, s)"
| "process_utterances c cid dbid full_audio mt aut i (u # us) vars s =
     (case process_utterance c cid dbid full_audio mt aut i u vars s of
        (Inl e, s1) \<Rightarrow> (Inl e, s1)
      | (Inr vars1, s1) \<Rightarrow> process_utterances c cid dbid full_audio mt aut (Suc i) us vars1 s1)"

section \<open>The function\<close>

record result =
  r_conversation_id :: string
  r_original_file :: string
  r_s3_path :: string
  r_utterances :: "pydict list"
  r_timestamp :: string

text \<open>Lines 22 to 29: the conversation row.\<close>

definition conversation_info ::
  "('w, 'a, 'e) collab \<Rightarrow> string \<Rightarrow> string \<Rightarrow> 'a \<Rightarrow> string option \<Rightarrow> pydict" where
  "conversation_info c conversation_id file_path full_audio display_name =
     [(''conversation_id'', JStr conversation_id),
      (''original_audio'', JStr (basename file_path)),
      (''duration_seconds'', JFloat (real (audio_len c full_audio) / 1000)),
      (''display_name'', json_opt_str display_name)]"

text \<open>
  Lines 122 to 128: the returned dict. Reading \<^verbatim>\<open>s3_path\<close> while it is unbound raises
  \<^verbatim>\<open>UnboundLocalError\<close>.
\<close>

definition build_result ::
  "('w, 'a, 'e) collab \<Rightarrow> string \<Rightarrow> string \<Rightarrow> string option \<Rightarrow> pydict list \<Rightarrow> 'w \<Rightarrow>
     py_exn + result" where
  "build_result c conversation_id file_path s3_path utterance_metadata w =
     (case s3_path of
        None \<Rightarrow> Inl (UnboundLocalError ''s3_path'')
      | Some p \<Rightarrow>
          Inr \<lparr>r_conversation_id = conversation_id,
               r_original_file = basename file_path,
               r_s3_path = p,
               r_utterances = utterance_metadata,
               r_timestamp = now_isoformat c w\<rparr>)"

text \<open>Lines 22 to 128: the body of the \<^verbatim>\<open>try\<close> statement.\<close>

definition try_body ::
  "('w, 'a, 'e) collab \<Rightarrow> string \<Rightarrow> string \<Rightarrow> string option \<Rightarrow> real \<Rightarrow> real \<Rightarrow> 'a \<Rightarrow>
     utterance list \<Rightarrow> 'w pstate \<Rightarrow> (py_exn + result) \<times> 'w pstate" where
  "try_body c file_path conversation_id display_name match_threshold auto_update_threshold
      full_audio utterances s =
     (case call AddConversation
             (add_conversation c
                (conversation_info c conversation_id file_path full_audio display_name)) s of
        (Inl e, s1) \<Rightarrow> (Inl e, s1)
      | (Inr db_conversation_id, s1) \<Rightarrow>
          (case process_utterances c conversation_id db_conversation_id full_audio
                  match_threshold auto_update_threshold 0 utterances ([], None) s1 of
             (Inl e, s2) \<Rightarrow> (Inl e, s2)
           | (Inr (utterance_metadata, s3_path), s2) \<Rightarrow>
               (case call IdentifyUnknown
                       (identify_unknown_speakers_by_combining c utterance_metadata
                          [(''conversation_id'', JStr conversation_id)] full_audio
                          match_threshold auto_update_threshold) s2 of
                  (Inl e, s3) \<Rightarrow> (Inl e, s3)
                | (Inr utterance_metadata', s3) \<Rightarrow>
                    (build_result c conversation_id file_path s3_path utterance_metadata'
                       (world s3), s3))))"

text \<open>Lines 130 to 134: \<^verbatim>\<open>except Exception\<close> turns a caught exception into \<open>None\<close>.\<close>

definition except_Exception ::
  "(py_exn + result) \<times> 'w pstate \<Rightarrow> (py_exn + result option) \<times> 'w pstate" where
  "except_Exception r =
     (case r of
        (Inl e, s) \<Rightarrow> if is_Exception e then (Inr None, s) else (Inl e, s)
      | (Inr v, s) \<Rightarrow> (Inr (Some v), s))"

text \<open>
  Lines 135 to 139: the \<^verbatim>\<open>finally\<close> block. An exception raised in it replaces the
  pending outcome.
\<close>

definition cleanup ::
  "('w, 'a, 'e) collab \<Rightarrow> string \<Rightarrow> string \<Rightarrow> 'w pstate \<Rightarrow> (py_exn + unit) \<times> 'w pstate" where
  "cleanup c wav_file file_path s =
     (if wav_file \<noteq> file_path \<and> path_exists c wav_file (world s)
      then call (OsRemove wav_file) (os_remove c wav_file) s
      else (Inr (), s))"

definition run_finally ::
  "('w, 'a, 'e) collab \<Rightarrow> string \<Rightarrow> string \<Rightarrow> (py_exn + result option) \<times> 'w pstate \<Rightarrow>
     (py_exn + result option) \<times> 'w pstate" where
  "run_finally c wav_file file_path r =
     (case cleanup c wav_file file_path (snd r) of
        (Inl e, s') \<Rightarrow> (Inl e, s')
      | (Inr _, s') \<Rightarrow> (fst r, s'))"

text \<open>Lines 6 and 7: the default conversation id.\<close>

definition default_conversation_id ::
  "('w, 'a, 'e) collab \<Rightarrow> string option \<Rightarrow> 'w \<Rightarrow> string" where
  "default_conversation_id c conversation_id w =
     (case conversation_id of
        None \<Rightarrow> ''convo_'' @ now_strftime c w
      | Some cid \<Rightarrow> if cid = [] then ''convo_'' @ now_strftime c w else cid)"

text \<open>
  Lines 10 to 19, before the \<^verbatim>\<open>try\<close> statement: an exception here leaves the function.
  The transcript is a dict; \<^verbatim>\<open>.get('utterances', [])\<close> gives the empty list when the
  key is absent.
\<close>

definition prelude ::
  "('w, 'a, 'e) collab \<Rightarrow> string \<Rightarrow> 'w pstate \<Rightarrow>
     (py_exn + string \<times> 'a \<times> utterance list) \<times> 'w pstate" where
  "prelude c file_path s =
     (case call (ConvertToWav file_path) (convert_to_wav c file_path) s of
        (Inl e, s1) \<Rightarrow> (Inl e, s1)
      | (Inr wav_file, s1) \<Rightarrow>
          (case call (FromWav wav_file) (from_wav c wav_file) s1 of
             (Inl e, s2) \<Rightarrow> (Inl e, s2)
           | (Inr full_audio, s2) \<Rightarrow>
               (case call (Transcribe wav_file) (transcribe c wav_file) s2 of
                  (Inl e, s3) \<Rightarrow> (Inl e, s3)
                | (Inr transcript_data, s3) \<Rightarrow>
                    (Inr (wav_file, full_audio,
                          (case transcript_data of None \<Rightarrow> [] | Some us \<Rightarrow> us)), s3))))"

definition process_conversation ::
  "('w, 'a, 'e) collab \<Rightarrow> string \<Rightarrow> string option \<Rightarrow> string option \<Rightarrow> real \<Rightarrow> real \<Rightarrow> 'w \<Rightarrow>
     (py_exn + result option) \<times> 'w pstate" where
  "process_conversation c file_path conversation_id display_name match_threshold
      auto_update_threshold w =
     (let cid = default_conversation_id c conversation_id w in
      case prelude c file_path \<lparr>world = w, trace = []\<rparr> of
        (Inl e, s) \<Rightarrow> (Inl e, s)
      | (Inr (wav_file, full_audio, utterances), s) \<Rightarrow>
          run_finally c wav_file file_path
            (except_Exception
               (try_body c file_path cid display_name match_threshold auto_update_threshold
                  full_audio utterances s)))"

section \<open>Notions used in the statements\<close>

text \<open>
  The filters of lines 35 to 46. An utterance survives them when it has word-level data,
  a start and an end, and lasts at least 700 ms; it is filtered when it lacks the
  word-level data or is shorter than 700 ms.
\<close>

definition survives :: "utterance \<Rightarrow> bool" where
  "survives u =
     (case u_words u of
        None \<Rightarrow> False
      | Some _ \<Rightarrow>
          (case u_start u of
             None \<Rightarrow> False
           | Some a \<Rightarrow> (case u_end u of None \<Rightarrow> False | Some b \<Rightarrow> \<not> b - a < 700)))"

definition filtered :: "utterance \<Rightarrow> bool" where
  "filtered u =
     (case u_words u of
        None \<Rightarrow> True
      | Some _ \<Rightarrow>
          (case u_start u of
             None \<Rightarrow> False
           | Some a \<Rightarrow> (case u_end u of None \<Rightarrow> False | Some b \<Rightarrow> b - a < 700)))"

text \<open>
  An utterance with word-level data that lacks its start or its end, or that is long
  enough and lacks its text.
\<close>

definition malformed :: "utterance \<Rightarrow> bool" where
  "malformed u =
     (case u_words u of
        None \<Rightarrow> False
      | Some _ \<Rightarrow>
          (case u_start u of
             None \<Rightarrow> True
           | Some a \<Rightarrow>
               (case u_end u of
                  None \<Rightarrow> True
                | Some b \<Rightarrow> \<not> b - a < 700 \<and> u_text u = None)))"

text \<open>The utterance index of an event of the loop.\<close>

fun ev_index :: "event \<Rightarrow> nat option" where
  "ev_index (TestVoiceSegment i) = Some i"
| "ev_index (AddSpeaker i _) = Some i"
| "ev_index (AutoUpdateEmbedding i _ _) = Some i"
| "ev_index (AddUtterance i) = Some i"
| "ev_index _ = None"

text \<open>
  The program order of the calls: the stage of the function (before the loop, the loop,
  the consolidation pass, the cleanup) and the position within the stage.
\<close>

fun ev_stage :: "event \<Rightarrow> nat" where
  "ev_stage (ConvertToWav _) = 0"
| "ev_stage (FromWav _) = 0"
| "ev_stage (Transcribe _) = 0"
| "ev_stage AddConversation = 0"
| "ev_stage (TestVoiceSegment _) = 1"
| "ev_stage (AddSpeaker _ _) = 1"
| "ev_stage (AutoUpdateEmbedding _ _ _) = 1"
| "ev_stage (AddUtterance _) = 1"
| "ev_stage IdentifyUnknown = 2"
| "ev_stage (OsRemove _) = 3"

fun ev_pos :: "event \<Rightarrow> nat" where
  "ev_pos (ConvertToWav _) = 0"
| "ev_pos (FromWav _) = 1"
| "ev_pos (Transcribe _) = 2"
| "ev_pos AddConversation = 3"
| "ev_pos (TestVoiceSegment i) = 4 * i"
| "ev_pos (AddSpeaker i _) = 4 * i + 1"
| "ev_pos (AutoUpdateEmbedding i _ _) = 4 * i + 2"
| "ev_pos (AddUtterance i) = 4 * i + 3"
| "ev_pos IdentifyUnknown = 0"
| "ev_pos (OsRemove _) = 0"

definition below :: "event \<Rightarrow> nat \<Rightarrow> nat \<Rightarrow> bool" where
  "below e st p \<longleftrightarrow> ev_stage e < st \<or> (ev_stage e = st \<and> ev_pos e < p)"

definition before :: "event \<Rightarrow> event \<Rightarrow> bool" where
  "before a b \<longleftrightarrow> below a (ev_stage b) (ev_pos b)"

text \<open>The keys of a record of \<^verbatim>\<open>utterance_metadata\<close>, in the order of lines 64 to 76.\<close>

definition record_keys :: "string list" where
  "record_keys =
     [''id'', ''start_ms'', ''end_ms'', ''start_time'', ''end_time'', ''text'',
      ''confidence'', ''speaker'', ''embedding_id'', ''words'', ''conversation_id'']"

text \<open>
  The record that the loop builds for utterance \<open>i\<close>: its keys, and the values that are
  copied from the utterance (index, time span, text, word-level data) or from the database.
\<close>

definition record_of ::
  "('w, 'a, 'e) collab \<Rightarrow> json \<Rightarrow> nat \<Rightarrow> utterance \<Rightarrow> pydict \<Rightarrow> bool" where
  "record_of c dbid i u r \<longleftrightarrow>
     map fst r = record_keys \<and>
     map_of r ''id'' = Some (JInt (int i)) \<and>
     map_of r ''start_ms'' = map_option JInt (u_start u) \<and>
     map_of r ''end_ms'' = map_option JInt (u_end u) \<and>
     map_of r ''start_time'' = map_option (\<lambda>t. JStr (format_time c t)) (u_start u) \<and>
     map_of r ''end_time'' = map_option (\<lambda>t. JStr (format_time c t)) (u_end u) \<and>
     map_of r ''text'' = map_option JStr (u_text u) \<and>
     map_of r ''words'' = u_words u \<and>
     map_of r ''conversation_id'' = Some dbid"

text \<open>
  An event, and a record, of the loop over the utterances \<open>us\<close> that start at index
  \<open>i\<close>: it belongs to an utterance of the list that survives the filters.
\<close>

definition loop_event :: "nat \<Rightarrow> utterance list \<Rightarrow> event \<Rightarrow> bool" where
  "loop_event i us e \<longleftrightarrow> (\<exists>k<length us. ev_index e = Some (i + k) \<and> survives (us ! k))"

definition loop_record ::
  "('w, 'a, 'e) collab \<Rightarrow> json \<Rightarrow> nat \<Rightarrow> utterance list \<Rightarrow> pydict \<Rightarrow> bool" where
  "loop_record c dbid i us r \<longleftrightarrow>
     (\<exists>k<length us. survives (us ! k) \<and> record_of c dbid (i + k) (us ! k) r)"

text \<open>
  The utterances of a returned value, and whether a record holds the path of the audio
  clip of utterance \<open>i\<close> (the value that line 104 passes on as \<^verbatim>\<open>audio_file\<close>).
\<close>

definition returned_utterances :: "py_exn + result option \<Rightarrow> pydict list" where
  "returned_utterances out =
     (case out of Inl e \<Rightarrow> [] | Inr None \<Rightarrow> [] | Inr (Some res) \<Rightarrow> r_utterances res)"

definition has_clip_reference :: "('w, 'a, 'e) collab \<Rightarrow> string \<Rightarrow> nat \<Rightarrow> pydict \<Rightarrow> bool" where
  "has_clip_reference c conversation_id i r \<longleftrightarrow>
     JStr (clip_path c conversation_id i) \<in> snd ` set r"

text \<open>
  What is left of an iteration once the gate is passed: lines 94 to 109, and the loop
  variables that the next iteration finds, with the record of lines 64 to 77 appended to
  \<^verbatim>\<open>utterance_metadata\<close> and \<^verbatim>\<open>s3_path\<close> bound.
\<close>

definition after_gate ::
  "('w, 'a, 'e) collab \<Rightarrow> string \<Rightarrow> json \<Rightarrow> nat \<Rightarrow> int \<Rightarrow> int \<Rightarrow> string \<Rightarrow> real \<Rightarrow>
     string option \<Rightarrow> json \<Rightarrow> string \<Rightarrow> json \<Rightarrow> pydict list \<Rightarrow> 'w pstate \<Rightarrow>
     (py_exn + pydict list \<times> string option) \<times> 'w pstate" where
  "after_gate c conversation_id db_conversation_id i start_ms end_ms text confidence
      embedding_id speaker_id speaker_name words utterance_metadata s =
     (case store_utterance c conversation_id db_conversation_id i start_ms end_ms text
             confidence embedding_id speaker_id speaker_name words s of
        (Inl e, s2) \<Rightarrow> (Inl e, s2)
      | (Inr s3_path, s2) \<Rightarrow>
          (Inr (utterance_metadata
                  @ [utterance_data c i start_ms end_ms text confidence speaker_name
                       embedding_id words db_conversation_id],
                Some s3_path), s2))"

text \<open>
  Assumptions on the collaborators: which exceptions the calls inside the \<^verbatim>\<open>try\<close>
  statement raise, and that \<^verbatim>\<open>os.remove\<close> does not raise.
\<close>

definition raises_only_Exception :: "('w, 'a, 'e) collab \<Rightarrow> bool" where
  "raises_only_Exception c \<longleftrightarrow>
     (\<forall>info w e. fst (add_conversation c info w) = Inl e \<longrightarrow> is_Exception e) \<and>
     (\<forall>seg cid i mt w e. fst (test_voice_segment c seg cid i mt w) = Inl e \<longrightarrow> is_Exception e) \<and>
     (\<forall>name w e. fst (add_speaker c name w) = Inl e \<longrightarrow> is_Exception e) \<and>
     (\<forall>emb name src cf thr w e.
        fst (auto_update_embedding c emb name src cf thr w) = Inl e \<longrightarrow> is_Exception e) \<and>
     (\<forall>info w e. fst (add_utterance c info w) = Inl e \<longrightarrow> is_Exception e) \<and>
     (\<forall>meta ref audio mt aut w e.
        fst (identify_unknown_speakers_by_combining c meta ref audio mt aut w) = Inl e
          \<longrightarrow> is_Exception e)"

definition remove_succeeds :: "('w, 'a, 'e) collab \<Rightarrow> bool" where
  "remove_succeeds c \<longleftrightarrow> (\<forall>p w. fst (os_remove c p w) = Inr ())"

text \<open>What a successful \<^verbatim>\<open>os.remove\<close> achieves: the path no longer exists.\<close>

definition remove_deletes :: "('w, 'a, 'e) collab \<Rightarrow> bool" where
  "remove_deletes c \<longleftrightarrow>
     (\<forall>p w w'. os_remove c p w = (Inr (), w') \<longrightarrow> \<not> path_exists c p w')"

text \<open>Two records that differ at most in the resolved speaker and in the confidence.\<close>

definition same_but_identity :: "pydict \<Rightarrow> pydict \<Rightarrow> bool" where
  "same_but_identity r r' \<longleftrightarrow>
     map fst r' = map fst r \<and>
     (\<forall>k. k \<noteq> ''speaker'' \<and> k \<noteq> ''confidence'' \<longrightarrow> map_of r' k = map_of r k)"

text \<open>
  Modelled from the spec: \<^verbatim>\<open>identify_unknown_speakers_by_combining\<close> is not in the
  source file. Its contract (section 4.3) is that it returns the same ordered sequence of
  records, in which only the resolved speaker and the confidence may be overwritten.
\<close>

definition consolidation_contract :: "('w, 'a, 'e) collab \<Rightarrow> bool" where
  "consolidation_contract c \<longleftrightarrow>
     (\<forall>meta ref audio mt aut w meta' w'.
        identify_unknown_speakers_by_combining c meta ref audio mt aut w = (Inr meta', w')
          \<longrightarrow> list_all2 same_but_identity meta meta')"

section \<open>A concrete set of collaborators\<close>

text \<open>
  For evaluating the function on concrete inputs: the world is the list of files on disk,
  an audio segment is its length in milliseconds, an embedding is a number. The matcher
  answers utterance \<open>i\<close> with \<open>tvs i\<close>, the transcript holds the utterances \<open>us\<close>, no
  collaborator raises, and the consolidation pass returns its input.
\<close>

definition demo ::
  "(nat \<Rightarrow> string option \<times> real \<times> string option \<times> nat option) \<Rightarrow> utterance list \<Rightarrow>
     (string list, nat, nat) collab" where
  "demo tvs us =
     \<lparr>convert_to_wav =
        (\<lambda>p w. if take 4 (rev p) = rev ''.wav'' then (Inr p, w)
               else (Inr (p @ ''.wav''), (p @ ''.wav'') # w)),
      from_wav = (\<lambda>p w. (Inr 60000, w)),
      transcribe = (\<lambda>p w. (Inr (Some us), w)),
      add_conversation = (\<lambda>info w. (Inr (JStr ''db-1''), w)),
      test_voice_segment = (\<lambda>seg cid i mt w. (Inr (tvs i), w)),
      add_speaker = (\<lambda>name w. (Inr (JStr name), w)),
      auto_update_embedding = (\<lambda>emb name src cf thr w. (Inr (), w)),
      add_utterance = (\<lambda>info w. (Inr (), w)),
      identify_unknown_speakers_by_combining = (\<lambda>meta ref audio mt aut w. (Inr meta, w)),
      format_time = (\<lambda>ms. str_nat (nat ms)),
      audio_slice = (\<lambda>audio a b. nat (b - a)),
      audio_len = (\<lambda>audio. audio),
      path_exists = (\<lambda>p w. p \<in> set w),
      os_remove = (\<lambda>p w. (Inr (), removeAll p w)),
      now_strftime = (\<lambda>w. ''20240101_120000''),
      now_isoformat = (\<lambda>w. ''2024-01-01T12:00:00''),
      uuid4_hex = (\<lambda>w. (''0123456789abcdef0123456789abcdef'', w)),
      S3_BASE_PATH = ''s3://bucket'',
      S3_UTTERANCES_PATH = ''utterances''\<rparr>"

text \<open>
  A second set of collaborators, for the enrollment: the world is the vector index, the list
  of the entries that \<^verbatim>\<open>auto_update_embedding\<close> has added (embedding, speaker name, audio
  source, confidence, threshold), oldest first. There is no temporary file.
\<close>

definition index_demo ::
  "(nat \<Rightarrow> string option \<times> real \<times> string option \<times> nat option) \<Rightarrow> utterance list \<Rightarrow>
     ((nat \<times> string \<times> string \<times> real \<times> real) list, nat, nat) collab" where
  "index_demo tvs us =
     \<lparr>convert_to_wav = (\<lambda>p w. (Inr p, w)),
      from_wav = (\<lambda>p w. (Inr 60000, w)),
      transcribe = (\<lambda>p w. (Inr (Some us), w)),
      add_conversation = (\<lambda>info w. (Inr (JStr ''db-1''), w)),
      test_voice_segment = (\<lambda>seg cid i mt w. (Inr (tvs i), w)),
      add_speaker = (\<lambda>name w. (Inr (JStr name), w)),
      auto_update_embedding =
        (\<lambda>emb name src cf thr w. (Inr (), w @ [(emb, name, src, cf, thr)])),
      add_utterance = (\<lambda>info w. (Inr (), w)),
      identify_unknown_speakers_by_combining = (\<lambda>meta ref audio mt aut w. (Inr meta, w)),
      format_time = (\<lambda>ms. str_nat (nat ms)),
      audio_slice = (\<lambda>audio a b. nat (b - a)),
      audio_len = (\<lambda>audio. audio),
      path_exists = (\<lambda>p w. False),
      os_remove = (\<lambda>p w. (Inr (), w)),
      now_strftime = (\<lambda>w. ''20240101_120000''),
      now_isoformat = (\<lambda>w. ''2024-01-01T12:00:00''),
      uuid4_hex = (\<lambda>w. (''0123456789abcdef0123456789abcdef'', w)),
      S3_BASE_PATH = ''s3://bucket'',
      S3_UTTERANCES_PATH = ''utterances''\<rparr>"

text \<open>
  Three matchers: one finds no speaker but returns an embedding, one finds a speaker, one has
  no embedding and so no match.
\<close>

definition unmatched_with_embedding ::
  "nat \<Rightarrow> string option \<times> real \<times> string option \<times> nat option" where
  "unmatched_with_embedding i = (None, 0.3, None, Some 7)"

definition matched_alice ::
  "nat \<Rightarrow> string option \<times> real \<times> string option \<times> nat option" where
  "matched_alice i = (Some ''alice'', 0.95, Some ''emb_1'', Some 7)"

definition no_embedding :: "nat \<Rightarrow> string option \<times> real \<times> string option \<times> nat option" where
  "no_embedding i = (None, 0.0, None, None)"

text \<open>
  Collaborators that report a failure by raising: the matcher on its index query, the
  enrollment on its index write, \<^verbatim>\<open>os.remove\<close> on the temporary file.
\<close>

definition query_fails :: "utterance list \<Rightarrow> (string list, nat, nat) collab" where
  "query_fails us =
     (demo matched_alice us)
       \<lparr>test_voice_segment :=
          \<lambda>seg cid i mt w. (Inl (RaisedException ''index query failed''), w)\<rparr>"

definition upsert_fails :: "utterance list \<Rightarrow> (string list, nat, nat) collab" where
  "upsert_fails us =
     (demo matched_alice us)
       \<lparr>auto_update_embedding :=
          \<lambda>emb name src cf thr w. (Inl (RaisedException ''index upsert failed''), w)\<rparr>"

definition remove_fails :: "utterance list \<Rightarrow> (string list, nat, nat) collab" where
  "remove_fails us =
     (demo matched_alice us)
       \<lparr>os_remove := \<lambda>p w. (Inl (RaisedException ''permission denied''), w)\<rparr>"

text \<open>Utterances of the provider: a well-formed one, and two with a missing field.\<close>

definition utt ::
  "int \<Rightarrow> int \<Rightarrow> string \<Rightarrow> real \<Rightarrow> utterance" where
  "utt a b tag cf =
     \<lparr>u_words = Some (JList []), u_start = Some a, u_end = Some b, u_text = Some ''hello'',
      u_speaker = Some tag, u_confidence = Some cf\<rparr>"

definition no_words :: utterance where
  "no_words = (utt 0 900 ''A'' 0.8)\<lparr>u_words := None\<rparr>"

definition no_start :: utterance where
  "no_start = (utt 0 900 ''A'' 0.8)\<lparr>u_start := None\<rparr>"

section \<open>The trace and the program order\<close>

lemma call_eq: "call ev f s = (r, s') \<Longrightarrow> trace s' = trace s @ [ev] \<and> f (world s) = (r, world s')"
  by (auto simp: call_def split: prod.splits)





lemma ev_index_before:
  "ev_index x = Some i \<Longrightarrow> ev_index y = Some j \<Longrightarrow> i < j \<Longrightarrow> before x y"
  by (cases x; cases y) (auto simp: before_def below_def)





section \<open>The steps of one iteration\<close>

lemma call_Exception:
  assumes "call ev f s = (r, s')" and "\<And>e. fst (f (world s)) = Inl e \<Longrightarrow> is_Exception e"
  shows "\<forall>e. r = Inl e \<longrightarrow> is_Exception e"
  using assms by (auto simp: call_def split: prod.splits)

lemma roe_add_conversation:
  "raises_only_Exception c \<Longrightarrow> fst (add_conversation c info w) = Inl e \<Longrightarrow> is_Exception e"
  by (simp add: raises_only_Exception_def)

lemma roe_test_voice_segment:
  "raises_only_Exception c \<Longrightarrow> fst (test_voice_segment c seg cid i mt w) = Inl e \<Longrightarrow> is_Exception e"
  by (simp add: raises_only_Exception_def)

lemma roe_add_speaker:
  "raises_only_Exception c \<Longrightarrow> fst (add_speaker c name w) = Inl e \<Longrightarrow> is_Exception e"
  by (simp add: raises_only_Exception_def)

lemma roe_auto_update_embedding:
  "raises_only_Exception c \<Longrightarrow> fst (auto_update_embedding c emb name src cf thr w) = Inl e
     \<Longrightarrow> is_Exception e"
  by (simp add: raises_only_Exception_def)

lemma roe_add_utterance:
  "raises_only_Exception c \<Longrightarrow> fst (add_utterance c info w) = Inl e \<Longrightarrow> is_Exception e"
  by (simp add: raises_only_Exception_def)

lemma roe_identify:
  "raises_only_Exception c \<Longrightarrow>
   fst (identify_unknown_speakers_by_combining c meta ref audio mt aut w) = Inl e
     \<Longrightarrow> is_Exception e"
  by (simp add: raises_only_Exception_def)

lemma auto_update_trace:
  assumes "auto_update c cid aut i emb name conf s = (r, s')"
  shows "\<exists>evs. trace s' = trace s @ evs \<and>
           (evs = [] \<or> evs = [AutoUpdateEmbedding i name conf]) \<and>
           ((AutoUpdateEmbedding i name conf \<in> set evs) = (emb \<noteq> None \<and> aut < conf)) \<and>
           (raises_only_Exception c \<longrightarrow> (\<forall>e. r = Inl e \<longrightarrow> is_Exception e))"
proof (cases "emb \<noteq> None \<and> aut < conf")
  case True
  then obtain v where v: "emb = Some v" by auto
  with True assms have c: "call (AutoUpdateEmbedding i name conf)
      (auto_update_embedding c v name (clip_path c cid i) conf aut) s = (r, s')"
    by (simp add: auto_update_def)
  have "raises_only_Exception c \<longrightarrow> (\<forall>e. r = Inl e \<longrightarrow> is_Exception e)"
    by (intro impI call_Exception [OF c]) (rule roe_auto_update_embedding)
  with True call_eq [OF c] show ?thesis by auto
next
  case False
  with assms have "r = Inr ()" "s' = s"
    by (auto simp: auto_update_def split: option.splits if_splits)
  with False show ?thesis by auto
qed

lemma store_utterance_trace:
  assumes "store_utterance c cid dbid i a b text conf eid sid name words s = (r, s')"
  shows "trace s' = trace s @ [AddUtterance i] \<and> (\<forall>p. r = Inr p \<longrightarrow> p = clip_path c cid i) \<and>
         (raises_only_Exception c \<longrightarrow> (\<forall>e. r = Inl e \<longrightarrow> is_Exception e))"
proof -
  obtain hex w1 where h: "uuid4_hex c (world s) = (hex, w1)"
    by (cases "uuid4_hex c (world s)")
  obtain r2 s2 where c: "call (AddUtterance i)
      (add_utterance c (utterance_info c hex a b text conf eid (clip_path c cid i) sid name dbid words))
      (s\<lparr>world := w1\<rparr>) = (r2, s2)"
    by (cases "call (AddUtterance i)
      (add_utterance c (utterance_info c hex a b text conf eid (clip_path c cid i) sid name dbid words))
      (s\<lparr>world := w1\<rparr>)")
  have ex: "raises_only_Exception c \<longrightarrow> (\<forall>e. r2 = Inl e \<longrightarrow> is_Exception e)"
    by (intro impI call_Exception [OF c]) (rule roe_add_utterance)
  from assms h c have "s' = s2" "(\<forall>p. r = Inr p \<longrightarrow> p = clip_path c cid i)" "\<forall>e. r = Inl e \<longrightarrow> r2 = Inl e"
    by (auto simp: store_utterance_def Let_def split: sum.splits)
  with call_eq [OF c] ex show ?thesis by auto
qed

lemma record_utterance_trace:
  assumes "record_utterance c cid dbid aut i u a b words name conf eid emb sid meta s = (r, s')"
  shows "\<exists>evs1 evs2. trace s' = trace s @ evs1 @ evs2 \<and>
           (evs1 = [] \<or> evs1 = [AutoUpdateEmbedding i name conf]) \<and>
           (evs2 = [] \<or> evs2 = [AddUtterance i]) \<and>
           (u_text u \<noteq> None \<longrightarrow>
              (AutoUpdateEmbedding i name conf \<in> set evs1) = (emb \<noteq> None \<and> aut < conf)) \<and>
           (\<forall>v. r = Inr v \<longrightarrow>
              (\<exists>text. u_text u = Some text \<and>
                 v = (meta @ [utterance_data c i a b text conf name eid words dbid],
                      Some (clip_path c cid i)))) \<and>
           (raises_only_Exception c \<longrightarrow> (\<forall>e. r = Inl e \<longrightarrow> is_Exception e))"
proof (cases "u_text u")
  case None
  with assms have "r = Inl (KeyError ''text'')" "s' = s"
    by (auto simp: record_utterance_def)
  then show ?thesis using None by (intro exI [of _ "[]"]) auto
next
  case (Some tx)
  obtain r1 s1 where au: "auto_update c cid aut i emb name conf s = (r1, s1)"
    by (cases "auto_update c cid aut i emb name conf s")
  from auto_update_trace [OF au] obtain evs1 where
    e1: "trace s1 = trace s @ evs1" "evs1 = [] \<or> evs1 = [AutoUpdateEmbedding i name conf]"
      "(AutoUpdateEmbedding i name conf \<in> set evs1) = (emb \<noteq> None \<and> aut < conf)"
      "raises_only_Exception c \<longrightarrow> (\<forall>e. r1 = Inl e \<longrightarrow> is_Exception e)"
    by blast
  show ?thesis
  proof (cases r1)
    case (Inl e)
    with assms au Some have "s' = s1" "r = Inl e"
      by (auto simp: record_utterance_def)
    with e1 Inl Some show ?thesis
      by (intro exI [of _ evs1] exI [of _ "[]"]) auto
  next
    case (Inr x)
    obtain r2 s2 where st:
      "store_utterance c cid dbid i a b tx conf eid sid name words s1 = (r2, s2)"
      by (cases "store_utterance c cid dbid i a b tx conf eid sid name words s1")
    from store_utterance_trace [OF st] have
      e2: "trace s2 = trace s1 @ [AddUtterance i]" "\<forall>p. r2 = Inr p \<longrightarrow> p = clip_path c cid i"
        "raises_only_Exception c \<longrightarrow> (\<forall>e. r2 = Inl e \<longrightarrow> is_Exception e)"
      by auto
    from assms au Inr st Some have "s' = s2"
      and "\<forall>v. r = Inr v \<longrightarrow>
             v = (meta @ [utterance_data c i a b tx conf name eid words dbid],
                  Some (clip_path c cid i))"
      and "\<forall>e. r = Inl e \<longrightarrow> r2 = Inl e"
      using e2(2) by (auto simp: record_utterance_def split: sum.splits)
    with e1 e2 Some show ?thesis
      by (intro exI [of _ evs1] exI [of _ "[AddUtterance i]"]) auto
  qed
qed

lemma fallback_label_Exception: "fallback_label u sn cf = Inl e \<Longrightarrow> is_Exception e"
  by (auto simp: fallback_label_def provider_label_def split: if_splits option.splits)

lemma utterance_data_record_of:
  assumes "u_words u = Some words" "u_start u = Some a" "u_end u = Some b" "u_text u = Some text"
  shows "record_of c dbid i u (utterance_data c i a b text conf name eid words dbid)"
  using assms by (simp add: record_of_def utterance_data_def record_keys_def)

lemma utterance_data_identity:
  "map_of (utterance_data c i a b text conf name eid words dbid) ''speaker'' = Some (JStr name) \<and>
   map_of (utterance_data c i a b text conf name eid words dbid) ''confidence'' = Some (JFloat conf) \<and>
   map_of (utterance_data c i a b text conf name eid words dbid) ''embedding_id'' = Some (json_opt_str eid)"
  by (simp add: utterance_data_def)

text \<open>The calls of one surviving utterance.\<close>

lemma process_segment_reached:
  assumes tvs: "test_voice_segment c (audio_slice c audio a b) cid i mt (world s)
                  = (Inr (sn, cf, eid, emb), w1)"
    and lab: "fallback_label u sn cf = Inr (name, conf)"
    and spk: "fst (add_speaker c name w1) = Inr sid"
    and utx: "u_text u = Some text"
    and run: "process_segment c cid dbid audio mt aut i u a b words meta s = (r, s')"
  shows "\<exists>evs1 evs2. trace s' = trace s @ [TestVoiceSegment i, AddSpeaker i name] @ evs1 @ evs2 \<and>
           (evs1 = [] \<or> evs1 = [AutoUpdateEmbedding i name conf]) \<and>
           (evs2 = [] \<or> evs2 = [AddUtterance i]) \<and>
           ((AutoUpdateEmbedding i name conf \<in> set evs1) = (emb \<noteq> None \<and> aut < conf)) \<and>
           (\<forall>v. r = Inr v \<longrightarrow>
              v = (meta @ [utterance_data c i a b text conf name eid words dbid],
                   Some (clip_path c cid i)))"
proof -
  obtain w2 where w2: "add_speaker c name w1 = (Inr sid, w2)"
    using spk by (cases "add_speaker c name w1") auto
  let ?s2 = "\<lparr>world = w2, trace = trace s @ [TestVoiceSegment i, AddSpeaker i name]\<rparr>"
  from run tvs lab w2 have
    "record_utterance c cid dbid aut i u a b words name conf eid emb sid meta ?s2 = (r, s')"
    by (simp add: process_segment_def call_def)
  from record_utterance_trace [OF this] utx show ?thesis
    by (auto simp del: append_Cons)
qed

lemma process_segment_trace:
  assumes run: "process_segment c cid dbid audio mt aut i u a b words meta s = (r, s')"
  shows "\<exists>evs. trace s' = trace s @ TestVoiceSegment i # evs \<and>
           (\<forall>e\<in>set evs. ev_index e = Some i) \<and>
           sorted_wrt before (TestVoiceSegment i # evs) \<and>
           (\<forall>v. r = Inr v \<longrightarrow>
              (\<exists>name conf eid tx. u_text u = Some tx \<and>
                 v = (meta @ [utterance_data c i a b tx conf name eid words dbid],
                      Some (clip_path c cid i)))) \<and>
           (raises_only_Exception c \<longrightarrow> (\<forall>e. r = Inl e \<longrightarrow> is_Exception e))"
proof -
  obtain r1 s1 where c1: "call (TestVoiceSegment i)
      (test_voice_segment c (audio_slice c audio a b) cid i mt) s = (r1, s1)"
    by (cases "call (TestVoiceSegment i)
      (test_voice_segment c (audio_slice c audio a b) cid i mt) s")
  note t1 = call_eq [OF c1]
  have x1: "raises_only_Exception c \<longrightarrow> (\<forall>e. r1 = Inl e \<longrightarrow> is_Exception e)"
    by (intro impI call_Exception [OF c1]) (rule roe_test_voice_segment)
  show ?thesis
  proof (cases r1)
    case (Inl e)
    with run c1 have "r = Inl e" "s' = s1" by (auto simp: process_segment_def)
    with t1 x1 Inl show ?thesis by (intro exI [of _ "[]"]) auto
  next
    case (Inr res)
    obtain sn cf eid emb where res: "res = (sn, cf, eid, emb)" by (cases res)
    show ?thesis
    proof (cases "fallback_label u sn cf")
      case (Inl e)
      with run c1 Inr res have "r = Inl e" "s' = s1" by (auto simp: process_segment_def)
      with t1 fallback_label_Exception [OF Inl] show ?thesis
        by (intro exI [of _ "[]"]) auto
    next
      case lab: (Inr nc)
      obtain name conf where nc: "nc = (name, conf)" by (cases nc)
      obtain r2 s2 where c2: "call (AddSpeaker i name) (add_speaker c name) s1 = (r2, s2)"
        by (cases "call (AddSpeaker i name) (add_speaker c name) s1")
      note t2 = call_eq [OF c2]
      have x2: "raises_only_Exception c \<longrightarrow> (\<forall>e. r2 = Inl e \<longrightarrow> is_Exception e)"
        by (intro impI call_Exception [OF c2]) (rule roe_add_speaker)
      show ?thesis
      proof (cases r2)
        case (Inl e)
        with run c1 Inr res lab nc c2 have "r = Inl e" "s' = s2"
          by (auto simp: process_segment_def)
        with t1 t2 x2 Inl show ?thesis
          by (intro exI [of _ "[AddSpeaker i name]"]) (auto simp: before_def below_def)
      next
        case sid: (Inr sid)
        with run c1 Inr res lab nc c2 have
          "record_utterance c cid dbid aut i u a b words name conf eid emb sid meta s2 = (r, s')"
          by (auto simp: process_segment_def)
        from record_utterance_trace [OF this] obtain evs1 evs2 where
          ru: "trace s' = trace s2 @ evs1 @ evs2"
            "evs1 = [] \<or> evs1 = [AutoUpdateEmbedding i name conf]"
            "evs2 = [] \<or> evs2 = [AddUtterance i]"
            "\<forall>v. r = Inr v \<longrightarrow>
              (\<exists>tx. u_text u = Some tx \<and>
                 v = (meta @ [utterance_data c i a b tx conf name eid words dbid],
                      Some (clip_path c cid i)))"
            "raises_only_Exception c \<longrightarrow> (\<forall>e. r = Inl e \<longrightarrow> is_Exception e)"
          by blast
        have tr: "trace s' = trace s @ TestVoiceSegment i # (AddSpeaker i name # evs1 @ evs2)"
          using ru(1) t1 t2 by simp
        have ix: "\<forall>e\<in>set (AddSpeaker i name # evs1 @ evs2). ev_index e = Some i"
          using ru(2,3) by auto
        have so: "sorted_wrt before (TestVoiceSegment i # (AddSpeaker i name # evs1 @ evs2))"
          using ru(2,3) by (auto simp: before_def below_def)
        from tr ix so ru(4,5) show ?thesis by blast
      qed
    qed
  qed
qed

section \<open>One iteration\<close>

lemma process_utterance_filtered:
  "filtered u \<Longrightarrow> process_utterance c cid dbid audio mt aut i u vars s = (Inr vars, s)"
  by (auto simp: filtered_def process_utterance_def split: option.splits)

lemma process_utterance_survives:
  "survives u \<Longrightarrow>
     \<exists>a b words. u_words u = Some words \<and> u_start u = Some a \<and> u_end u = Some b \<and>
       \<not> b - a < 700 \<and>
       process_utterance c cid dbid audio mt aut i u vars s
         = process_segment c cid dbid audio mt aut i u a b words (fst vars) s"
  by (auto simp: survives_def process_utterance_def split: option.splits)

lemma process_utterance_KeyError:
  "\<not> filtered u \<Longrightarrow> \<not> survives u \<Longrightarrow>
     \<exists>k. process_utterance c cid dbid audio mt aut i u vars s = (Inl (KeyError k), s)"
  by (auto simp: filtered_def survives_def process_utterance_def split: option.splits)

lemma short_not_survives:
  "u_start u = Some a \<Longrightarrow> u_end u = Some b \<Longrightarrow> b - a < 700 \<Longrightarrow> \<not> survives u"
  by (simp add: survives_def split: option.splits)

lemma process_utterance_trace:
  assumes run: "process_utterance c cid dbid audio mt aut i u (meta, p) s = (r, s')"
  shows "\<exists>evs. trace s' = trace s @ evs \<and>
           (\<forall>e\<in>set evs. ev_index e = Some i \<and> survives u) \<and>
           sorted_wrt before evs \<and>
           (survives u \<longrightarrow> TestVoiceSegment i \<in> set evs) \<and>
           (\<forall>v. r = Inr v \<longrightarrow>
              (if survives u
               then \<exists>rec. v = (meta @ [rec], Some (clip_path c cid i)) \<and> record_of c dbid i u rec
               else v = (meta, p) \<and> s' = s)) \<and>
           (raises_only_Exception c \<longrightarrow> (\<forall>e. r = Inl e \<longrightarrow> is_Exception e))"
proof (cases "survives u")
  case True
  from process_utterance_survives [OF True, of c cid dbid audio mt aut i "(meta, p)" s]
  obtain a b words where
    f: "u_words u = Some words" "u_start u = Some a" "u_end u = Some b"
    and eq: "process_utterance c cid dbid audio mt aut i u (meta, p) s
               = process_segment c cid dbid audio mt aut i u a b words (fst (meta, p)) s"
    by blast
  from eq run have ps: "process_segment c cid dbid audio mt aut i u a b words meta s = (r, s')"
    by simp
  from process_segment_trace [OF ps] obtain evs where
    e: "trace s' = trace s @ TestVoiceSegment i # evs"
      "\<forall>e\<in>set evs. ev_index e = Some i"
      "sorted_wrt before (TestVoiceSegment i # evs)"
      "\<forall>v. r = Inr v \<longrightarrow>
              (\<exists>name conf eid tx. u_text u = Some tx \<and>
                 v = (meta @ [utterance_data c i a b tx conf name eid words dbid],
                      Some (clip_path c cid i)))"
      "raises_only_Exception c \<longrightarrow> (\<forall>e. r = Inl e \<longrightarrow> is_Exception e)"
    by blast
  have rec: "\<forall>v. r = Inr v \<longrightarrow>
      (\<exists>rec. v = (meta @ [rec], Some (clip_path c cid i)) \<and> record_of c dbid i u rec)"
  proof (intro allI impI)
    fix v assume "r = Inr v"
    with e(4) obtain name conf eid tx where tx: "u_text u = Some tx"
      and v: "v = (meta @ [utterance_data c i a b tx conf name eid words dbid],
                   Some (clip_path c cid i))"
      by blast
    from utterance_data_record_of [OF f tx] v
    show "\<exists>rec. v = (meta @ [rec], Some (clip_path c cid i)) \<and> record_of c dbid i u rec"
      by blast
  qed
  have ix: "\<forall>e\<in>set (TestVoiceSegment i # evs). ev_index e = Some i \<and> survives u"
    using e(2) True by simp
  have tv: "survives u \<longrightarrow> TestVoiceSegment i \<in> set (TestVoiceSegment i # evs)"
    by simp
  have rc: "\<forall>v. r = Inr v \<longrightarrow>
              (if survives u
               then \<exists>rec. v = (meta @ [rec], Some (clip_path c cid i)) \<and> record_of c dbid i u rec
               else v = (meta, p) \<and> s' = s)"
    using rec True by simp
  from e(1) ix e(3) tv rc e(5) show ?thesis by blast
next
  case False
  have "\<exists>r0. r = r0 \<and> s' = s \<and> (\<forall>v. r0 = Inr v \<longrightarrow> v = (meta, p)) \<and>
          (\<forall>e. r0 = Inl e \<longrightarrow> is_Exception e)"
  proof (cases "filtered u")
    case True
    with run show ?thesis
      by (auto simp: process_utterance_filtered)
  next
    case nf: False
    from process_utterance_KeyError [OF nf False, of c cid dbid audio mt aut i "(meta, p)" s]
    obtain k where "process_utterance c cid dbid audio mt aut i u (meta, p) s = (Inl (KeyError k), s)"
      by blast
    with run show ?thesis by auto
  qed
  then have st: "trace s' = trace s @ []"
    and rc: "\<forall>v. r = Inr v \<longrightarrow>
              (if survives u
               then \<exists>rec. v = (meta @ [rec], Some (clip_path c cid i)) \<and> record_of c dbid i u rec
               else v = (meta, p) \<and> s' = s)"
    and ex: "raises_only_Exception c \<longrightarrow> (\<forall>e. r = Inl e \<longrightarrow> is_Exception e)"
    using False by simp_all
  have ix: "\<forall>e\<in>set []. ev_index e = Some i \<and> survives u" by simp
  have so: "sorted_wrt before []" by simp
  have tv: "survives u \<longrightarrow> TestVoiceSegment i \<in> set []" using False by simp
  from st ix so tv rc ex show ?thesis by blast
qed

lemma process_utterance_gate:
  assumes wd: "u_words u = Some words" and st: "u_start u = Some a" and en: "u_end u = Some b"
    and long: "\<not> b - a < 700"
    and tvs: "test_voice_segment c (audio_slice c audio a b) cid i mt (world s)
                = (Inr (sn, cf, eid, emb), w1)"
    and lab: "fallback_label u sn cf = Inr (name, conf)"
    and spk: "fst (add_speaker c name w1) = Inr sid"
    and utx: "u_text u = Some tx"
    and run: "process_utterance c cid dbid audio mt aut i u (meta, p) s = (r, s')"
  shows "\<exists>evs1 evs2. trace s' = trace s @ [TestVoiceSegment i, AddSpeaker i name] @ evs1 @ evs2 \<and>
           (evs1 = [] \<or> evs1 = [AutoUpdateEmbedding i name conf]) \<and>
           (evs2 = [] \<or> evs2 = [AddUtterance i]) \<and>
           ((AutoUpdateEmbedding i name conf \<in> set evs1) = (emb \<noteq> None \<and> aut < conf))"
proof -
  from wd st en long run have
    ps: "process_segment c cid dbid audio mt aut i u a b words meta s = (r, s')"
    by (simp add: process_utterance_def)
  from process_segment_reached [OF tvs lab spk utx ps] show ?thesis by blast
qed

lemma gate_events:
  assumes "evs1 = [] \<or> evs1 = [AutoUpdateEmbedding i name conf]"
    and "evs2 = [] \<or> evs2 = [AddUtterance i]"
    and "(AutoUpdateEmbedding i name conf \<in> set evs1) = g"
  shows "(AutoUpdateEmbedding i name conf
            \<in> set ([TestVoiceSegment i, AddSpeaker i name] @ evs1 @ evs2)) = g"
    and "\<forall>j n x. AutoUpdateEmbedding j n x \<in> set ([TestVoiceSegment i, AddSpeaker i name] @ evs1 @ evs2)
           \<longrightarrow> j = i \<and> n = name \<and> x = conf"
  using assms by (elim disjE; simp)+

text \<open>The iteration of an utterance that reaches the gate, in terms of the world.\<close>

lemma process_utterance_reached:
  assumes wd: "u_words u = Some words" and st: "u_start u = Some a" and en: "u_end u = Some b"
    and long: "\<not> b - a < 700"
    and tvs: "test_voice_segment c (audio_slice c audio a b) cid i mt (world s)
                = (Inr (sn, cf, eid, emb), w1)"
    and lab: "fallback_label u sn cf = Inr (name, conf)"
    and spk: "add_speaker c name w1 = (Inr sid, w2)"
  shows "process_utterance c cid dbid audio mt aut i u (meta, p) s
           = record_utterance c cid dbid aut i u a b words name conf eid emb sid meta
               \<lparr>world = w2, trace = trace s @ [TestVoiceSegment i, AddSpeaker i name]\<rparr>"
  using assms by (simp add: process_utterance_def process_segment_def call_def)

lemma record_utterance_enrolls:
  assumes "u_text u = Some tx" and "aut < conf"
    and "auto_update_embedding c e name (clip_path c cid i) conf aut (world sg) = (ra, w3)"
  shows "record_utterance c cid dbid aut i u a b words name conf eid (Some e) sid meta sg
           = (case ra of
                Inl ex \<Rightarrow>
                  (Inl ex, \<lparr>world = w3, trace = trace sg @ [AutoUpdateEmbedding i name conf]\<rparr>)
              | Inr _ \<Rightarrow>
                  after_gate c cid dbid i a b tx conf eid sid name words meta
                    \<lparr>world = w3, trace = trace sg @ [AutoUpdateEmbedding i name conf]\<rparr>)"
  using assms
  by (simp add: record_utterance_def auto_update_def call_def after_gate_def split: sum.splits)

lemma record_utterance_no_enrollment:
  assumes "u_text u = Some tx" and "emb = None \<or> conf \<le> aut"
  shows "record_utterance c cid dbid aut i u a b words name conf eid emb sid meta sg
           = after_gate c cid dbid i a b tx conf eid sid name words meta sg"
  using assms
  by (auto simp: record_utterance_def auto_update_def after_gate_def
        split: option.splits sum.splits)

lemma after_gate_independent:
  "after_gate (c\<lparr>auto_update_embedding := f\<rparr>) cid dbid i a b tx conf eid sid name words meta sg
     = after_gate c cid dbid i a b tx conf eid sid name words meta sg"
  by (simp add: after_gate_def store_utterance_def utterance_info_def utterance_data_def
        clip_path_def Let_def cong: prod.case_cong sum.case_cong)

lemma after_gate_trace:
  assumes "after_gate c cid dbid i a b tx conf eid sid name words meta sg = (r, s')"
  shows "trace s' = trace sg @ [AddUtterance i]"
proof -
  obtain r2 s2 where st: "store_utterance c cid dbid i a b tx conf eid sid name words sg = (r2, s2)"
    by (cases "store_utterance c cid dbid i a b tx conf eid sid name words sg")
  from assms st have "s' = s2" by (auto simp: after_gate_def split: sum.splits)
  with store_utterance_trace [OF st] show ?thesis by simp
qed

lemma enrollment_outcome:
  assumes wd: "u_words u = Some words" and st: "u_start u = Some a" and en: "u_end u = Some b"
    and long: "\<not> b - a < 700"
    and tvs: "test_voice_segment c (audio_slice c audio a b) cid i mt (world s)
                = (Inr (sn, cf, eid, emb), w1)"
    and lab: "fallback_label u sn cf = Inr (name, conf)"
    and spk: "add_speaker c name w1 = (Inr sid, w2)"
    and utx: "u_text u = Some tx"
    and run: "process_utterance c cid dbid audio mt aut i u (meta, p) s = (r, s')"
  shows "emb \<noteq> None \<and> aut < conf \<longrightarrow>
            (\<exists>e ra w3.
               emb = Some e \<and>
               auto_update_embedding c e name (clip_path c cid i) conf aut w2 = (ra, w3) \<and>
               (r, s') =
                 (case ra of
                    Inl ex \<Rightarrow>
                      (Inl ex,
                       \<lparr>world = w3,
                          trace = trace s @ [TestVoiceSegment i, AddSpeaker i name,
                                             AutoUpdateEmbedding i name conf]\<rparr>)
                  | Inr _ \<Rightarrow>
                      after_gate c cid dbid i a b tx conf eid sid name words meta
                        \<lparr>world = w3,
                           trace = trace s @ [TestVoiceSegment i, AddSpeaker i name,
                                              AutoUpdateEmbedding i name conf]\<rparr>))"
    and "emb = None \<or> conf \<le> aut \<longrightarrow>
            (r, s') =
              after_gate c cid dbid i a b tx conf eid sid name words meta
                \<lparr>world = w2, trace = trace s @ [TestVoiceSegment i, AddSpeaker i name]\<rparr> \<and>
            (\<forall>f. process_utterance (c\<lparr>auto_update_embedding := f\<rparr>) cid dbid audio mt aut i u
                    (meta, p) s = (r, s'))"
proof -
  let ?s2 = "\<lparr>world = w2, trace = trace s @ [TestVoiceSegment i, AddSpeaker i name]\<rparr>"
  let ?t3 = "trace s @ [TestVoiceSegment i, AddSpeaker i name, AutoUpdateEmbedding i name conf]"
  note reached = process_utterance_reached [OF wd st en long tvs lab spk]
  from reached [of dbid aut meta p] run have
    ru: "record_utterance c cid dbid aut i u a b words name conf eid emb sid meta ?s2 = (r, s')"
    by simp
  show "emb \<noteq> None \<and> aut < conf \<longrightarrow>
      (\<exists>e ra w3.
         emb = Some e \<and>
         auto_update_embedding c e name (clip_path c cid i) conf aut w2 = (ra, w3) \<and>
         (r, s') =
           (case ra of
              Inl ex \<Rightarrow> (Inl ex, \<lparr>world = w3, trace = ?t3\<rparr>)
            | Inr _ \<Rightarrow>
                after_gate c cid dbid i a b tx conf eid sid name words meta
                  \<lparr>world = w3, trace = ?t3\<rparr>))"
  proof
    assume g: "emb \<noteq> None \<and> aut < conf"
    then obtain e where e: "emb = Some e" by auto
    obtain ra w3 where
      au: "auto_update_embedding c e name (clip_path c cid i) conf aut w2 = (ra, w3)"
      by (cases "auto_update_embedding c e name (clip_path c cid i) conf aut w2")
    from g have lt: "aut < conf" by simp
    have au': "auto_update_embedding c e name (clip_path c cid i) conf aut (world ?s2) = (ra, w3)"
      using au by simp
    from record_utterance_enrolls [OF utx lt au', of dbid a b words eid sid meta] ru e
    have "(r, s') =
           (case ra of
              Inl ex \<Rightarrow> (Inl ex, \<lparr>world = w3, trace = ?t3\<rparr>)
            | Inr _ \<Rightarrow>
                after_gate c cid dbid i a b tx conf eid sid name words meta
                  \<lparr>world = w3, trace = ?t3\<rparr>)"
      by (cases ra) simp_all
    with e au show "\<exists>e ra w3.
         emb = Some e \<and>
         auto_update_embedding c e name (clip_path c cid i) conf aut w2 = (ra, w3) \<and>
         (r, s') =
           (case ra of
              Inl ex \<Rightarrow> (Inl ex, \<lparr>world = w3, trace = ?t3\<rparr>)
            | Inr _ \<Rightarrow>
                after_gate c cid dbid i a b tx conf eid sid name words meta
                  \<lparr>world = w3, trace = ?t3\<rparr>)"
      by (intro exI conjI)
  qed
  show "emb = None \<or> conf \<le> aut \<longrightarrow>
      (r, s') = after_gate c cid dbid i a b tx conf eid sid name words meta ?s2 \<and>
      (\<forall>f. process_utterance (c\<lparr>auto_update_embedding := f\<rparr>) cid dbid audio mt aut i u
              (meta, p) s = (r, s'))"
  proof (intro impI conjI allI)
    assume g: "emb = None \<or> conf \<le> aut"
    from ru show ag: "(r, s') = after_gate c cid dbid i a b tx conf eid sid name words meta ?s2"
      by (simp add: record_utterance_no_enrollment [OF utx g])
    fix f
    let ?c = "c\<lparr>auto_update_embedding := f\<rparr>"
    have tvs': "test_voice_segment ?c (audio_slice ?c audio a b) cid i mt (world s)
                  = (Inr (sn, cf, eid, emb), w1)"
      using tvs by simp
    have spk': "add_speaker ?c name w1 = (Inr sid, w2)" using spk by simp
    from process_utterance_reached [OF wd st en long tvs' lab spk', of dbid aut meta p]
    have "process_utterance ?c cid dbid audio mt aut i u (meta, p) s
            = record_utterance ?c cid dbid aut i u a b words name conf eid emb sid meta ?s2"
      by simp
    also have "\<dots> = after_gate ?c cid dbid i a b tx conf eid sid name words meta ?s2"
      by (rule record_utterance_no_enrollment [OF utx g])
    also have "\<dots> = after_gate c cid dbid i a b tx conf eid sid name words meta ?s2"
      by (rule after_gate_independent)
    finally show "process_utterance ?c cid dbid audio mt aut i u (meta, p) s = (r, s')"
      using ag by simp
  qed
qed

lemma enrollment_events:
  assumes wd: "u_words u = Some words" and st: "u_start u = Some a" and en: "u_end u = Some b"
    and long: "\<not> b - a < 700"
    and tvs: "test_voice_segment c (audio_slice c audio a b) cid i mt (world s)
                = (Inr (sn, cf, eid, emb), w1)"
    and lab: "fallback_label u sn cf = Inr (name, conf)"
    and spk: "add_speaker c name w1 = (Inr sid, w2)"
    and utx: "u_text u = Some tx"
    and run: "process_utterance c cid dbid audio mt aut i u (meta, p) s = (r, s')"
  shows "\<exists>evs. trace s' = trace s @ evs \<and>
            ((AutoUpdateEmbedding i name conf \<in> set evs) = (emb \<noteq> None \<and> aut < conf)) \<and>
            (\<forall>j n x. AutoUpdateEmbedding j n x \<in> set evs \<longrightarrow> j = i \<and> n = name \<and> x = conf)"
proof -
  have sp: "fst (add_speaker c name w1) = Inr sid" using spk by simp
  from process_utterance_gate [OF wd st en long tvs lab sp utx run] obtain evs1 evs2 where
    g: "trace s' = trace s @ [TestVoiceSegment i, AddSpeaker i name] @ evs1 @ evs2"
      "evs1 = [] \<or> evs1 = [AutoUpdateEmbedding i name conf]"
      "evs2 = [] \<or> evs2 = [AddUtterance i]"
      "(AutoUpdateEmbedding i name conf \<in> set evs1) = (emb \<noteq> None \<and> aut < conf)"
    by blast
  let ?evs = "[TestVoiceSegment i, AddSpeaker i name] @ evs1 @ evs2"
  note ge = gate_events [OF g(2,3,4)]
  show ?thesis
    by (intro exI [of _ ?evs] conjI) (fact g(1) ge(1) ge(2))+
qed

lemma utterance_data_keys:
  "map fst (utterance_data c i a b tx conf name eid words dbid) = record_keys"
  by (simp add: utterance_data_def record_keys_def)

lemma no_embedding_iteration:
  assumes wd: "u_words u = Some words" and st: "u_start u = Some a" and en: "u_end u = Some b"
    and long: "\<not> b - a < 700"
    and tvs: "test_voice_segment c (audio_slice c audio a b) cid i mt (world s)
                = (Inr (sn, cf, eid, None), w1)"
    and lab: "fallback_label u sn cf = Inr (name, conf)"
    and spk: "add_speaker c name w1 = (Inr sid, w2)"
    and utx: "u_text u = Some tx"
  shows "process_utterance c cid dbid audio mt aut i u (meta, p) s
           = after_gate c cid dbid i a b tx conf eid sid name words meta
               \<lparr>world = w2, trace = trace s @ [TestVoiceSegment i, AddSpeaker i name]\<rparr>"
    and "trace (snd (process_utterance c cid dbid audio mt aut i u (meta, p) s))
           = trace s @ [TestVoiceSegment i, AddSpeaker i name, AddUtterance i]"
    and "\<forall>path s3.
           store_utterance c cid dbid i a b tx conf eid sid name words
               \<lparr>world = w2, trace = trace s @ [TestVoiceSegment i, AddSpeaker i name]\<rparr>
             = (Inr path, s3) \<longrightarrow>
           process_utterance c cid dbid audio mt aut i u (meta, p) s
             = (Inr (meta @ [utterance_data c i a b tx conf name eid words dbid], Some path), s3)"
proof -
  let ?s2 = "\<lparr>world = w2, trace = trace s @ [TestVoiceSegment i, AddSpeaker i name]\<rparr>"
  have g: "None = None \<or> conf \<le> aut" by simp
  from process_utterance_reached [OF wd st en long tvs lab spk, of dbid aut meta p]
  show eq: "process_utterance c cid dbid audio mt aut i u (meta, p) s
           = after_gate c cid dbid i a b tx conf eid sid name words meta ?s2"
    by (simp add: record_utterance_no_enrollment [OF utx g])
  obtain r s' where ag: "after_gate c cid dbid i a b tx conf eid sid name words meta ?s2 = (r, s')"
    by (cases "after_gate c cid dbid i a b tx conf eid sid name words meta ?s2")
  from after_gate_trace [OF ag] eq ag
  show "trace (snd (process_utterance c cid dbid audio mt aut i u (meta, p) s))
           = trace s @ [TestVoiceSegment i, AddSpeaker i name, AddUtterance i]"
    by simp
  show "\<forall>path s3.
           store_utterance c cid dbid i a b tx conf eid sid name words ?s2 = (Inr path, s3) \<longrightarrow>
           process_utterance c cid dbid audio mt aut i u (meta, p) s
             = (Inr (meta @ [utterance_data c i a b tx conf name eid words dbid], Some path), s3)"
    unfolding eq by (simp add: after_gate_def)
qed

lemma query_failure_iteration:
  assumes "u_words u = Some words" and "u_start u = Some a" and "u_end u = Some b"
    and "\<not> b - a < 700"
    and "test_voice_segment c (audio_slice c audio a b) cid i mt (world s) = (Inl ex, w1)"
  shows "process_utterance c cid dbid audio mt aut i u (meta, p) s
           = (Inl ex, \<lparr>world = w1, trace = trace s @ [TestVoiceSegment i]\<rparr>)"
  using assms by (simp add: process_utterance_def process_segment_def call_def)

lemma upsert_failure_iteration:
  assumes wd: "u_words u = Some words" and st: "u_start u = Some a" and en: "u_end u = Some b"
    and long: "\<not> b - a < 700"
    and tvs: "test_voice_segment c (audio_slice c audio a b) cid i mt (world s)
                = (Inr (sn, cf, eid, Some e), w1)"
    and lab: "fallback_label u sn cf = Inr (name, conf)"
    and spk: "add_speaker c name w1 = (Inr sid, w2)"
    and utx: "u_text u = Some tx"
    and lt: "aut < conf"
    and au: "auto_update_embedding c e name (clip_path c cid i) conf aut w2 = (Inl ex, w3)"
  shows "process_utterance c cid dbid audio mt aut i u (meta, p) s
           = (Inl ex,
              \<lparr>world = w3,
                 trace = trace s @ [TestVoiceSegment i, AddSpeaker i name,
                                    AutoUpdateEmbedding i name conf]\<rparr>)"
proof -
  let ?s2 = "\<lparr>world = w2, trace = trace s @ [TestVoiceSegment i, AddSpeaker i name]\<rparr>"
  have au': "auto_update_embedding c e name (clip_path c cid i) conf aut (world ?s2) = (Inl ex, w3)"
    using au by simp
  from process_utterance_reached [OF wd st en long tvs lab spk, of dbid aut meta p]
    record_utterance_enrolls [OF utx lt au', of dbid a b words eid sid meta]
  show ?thesis by simp
qed

lemma process_utterance_malformed:
  assumes "malformed u"
  shows "\<exists>e s'. process_utterance c cid dbid audio mt aut i u vars s = (Inl e, s')"
proof (cases "survives u")
  case True
  from process_utterance_survives [OF True, of c cid dbid audio mt aut i vars s]
  obtain a b words where
    eq: "process_utterance c cid dbid audio mt aut i u vars s
           = process_segment c cid dbid audio mt aut i u a b words (fst vars) s"
    by blast
  obtain r s' where ps: "process_segment c cid dbid audio mt aut i u a b words (fst vars) s = (r, s')"
    by (cases "process_segment c cid dbid audio mt aut i u a b words (fst vars) s")
  from True assms have "u_text u = None"
    by (auto simp: malformed_def survives_def split: option.splits)
  with process_segment_trace [OF ps] have "\<forall>v. r \<noteq> Inr v" by auto
  then obtain e where "r = Inl e" by (cases r) auto
  with eq ps show ?thesis by simp
next
  case False
  from assms have "\<not> filtered u"
    by (auto simp: malformed_def filtered_def split: option.splits)
  from process_utterance_KeyError [OF this False, of c cid dbid audio mt aut i vars s]
  show ?thesis by blast
qed

section \<open>The loop\<close>

lemma loop_event_here: "ev_index e = Some i \<Longrightarrow> survives u \<Longrightarrow> loop_event i (u # us) e"
  unfolding loop_event_def by (intro exI [of _ 0]) simp

lemma loop_event_later: "loop_event (Suc i) us e \<Longrightarrow> loop_event i (u # us) e"
proof -
  assume "loop_event (Suc i) us e"
  then obtain k where "k < length us" "ev_index e = Some (Suc i + k)" "survives (us ! k)"
    unfolding loop_event_def by blast
  then show ?thesis
    unfolding loop_event_def by (intro exI [of _ "Suc k"]) simp
qed

lemma loop_record_here: "record_of c dbid i u r \<Longrightarrow> survives u \<Longrightarrow> loop_record c dbid i (u # us) r"
  unfolding loop_record_def by (intro exI [of _ 0]) simp

lemma loop_record_later: "loop_record c dbid (Suc i) us r \<Longrightarrow> loop_record c dbid i (u # us) r"
proof -
  assume "loop_record c dbid (Suc i) us r"
  then obtain k where "k < length us" "survives (us ! k)" "record_of c dbid (Suc i + k) (us ! k) r"
    unfolding loop_record_def by blast
  then show ?thesis
    unfolding loop_record_def by (intro exI [of _ "Suc k"]) simp
qed

lemma loop_event_before:
  assumes "ev_index x = Some i" and "loop_event (Suc i) us y"
  shows "before x y"
proof -
  from assms(2) obtain k where "ev_index y = Some (Suc i + k)"
    unfolding loop_event_def by blast
  with assms(1) show ?thesis by (intro ev_index_before [of x i y "Suc i + k"]) simp_all
qed


lemma loop_event_index:
  "loop_event 0 us e \<Longrightarrow> ev_index e = Some i \<Longrightarrow> i < length us \<and> survives (us ! i)"
  unfolding loop_event_def by auto

lemma process_utterances_trace:
  assumes "process_utterances c cid dbid audio mt aut i us (meta, p) s = (r, s')"
  shows "\<exists>evs. trace s' = trace s @ evs \<and>
           (\<forall>e\<in>set evs. loop_event i us e) \<and>
           sorted_wrt before evs \<and>
           (\<forall>v. r = Inr v \<longrightarrow>
              (\<forall>k<length us. survives (us ! k) \<longrightarrow> TestVoiceSegment (i + k) \<in> set evs) \<and>
              (\<exists>new. fst v = meta @ new \<and> (\<forall>rec\<in>set new. loop_record c dbid i us rec))) \<and>
           (raises_only_Exception c \<longrightarrow> (\<forall>e. r = Inl e \<longrightarrow> is_Exception e))"
  using assms
proof (induction us arbitrary: i meta p s)
  case Nil
  then have "r = Inr (meta, p)" "s' = s" by simp_all
  then show ?case by (intro exI [of _ "[]"]) simp
next
  case (Cons u us)
  obtain r1 s1 where pu: "process_utterance c cid dbid audio mt aut i u (meta, p) s = (r1, s1)"
    by (cases "process_utterance c cid dbid audio mt aut i u (meta, p) s")
  from process_utterance_trace [OF pu] obtain evs1 where
    e1: "trace s1 = trace s @ evs1"
      "\<forall>e\<in>set evs1. ev_index e = Some i \<and> survives u"
      "sorted_wrt before evs1"
      "survives u \<longrightarrow> TestVoiceSegment i \<in> set evs1"
      "\<forall>v. r1 = Inr v \<longrightarrow>
              (if survives u
               then \<exists>rec. v = (meta @ [rec], Some (clip_path c cid i)) \<and> record_of c dbid i u rec
               else v = (meta, p) \<and> s1 = s)"
      "raises_only_Exception c \<longrightarrow> (\<forall>e. r1 = Inl e \<longrightarrow> is_Exception e)"
    by blast
  have le1: "\<forall>e\<in>set evs1. loop_event i (u # us) e"
    using e1(2) by (auto intro: loop_event_here)
  show ?case
  proof (cases r1)
    case (Inl e)
    with Cons.prems pu have "r = Inl e" "s' = s1" by simp_all
    with e1(1,3,6) le1 Inl show ?thesis by (intro exI [of _ evs1]) simp
  next
    case (Inr v1)
    obtain meta1 p1 where v1: "v1 = (meta1, p1)" by (cases v1)
    from Cons.prems pu Inr v1 have
      rec: "process_utterances c cid dbid audio mt aut (Suc i) us (meta1, p1) s1 = (r, s')"
      by simp
    from Cons.IH [OF rec] obtain evs2 where
      e2: "trace s' = trace s1 @ evs2"
        "\<forall>e\<in>set evs2. loop_event (Suc i) us e"
        "sorted_wrt before evs2"
        "\<forall>v. r = Inr v \<longrightarrow>
              (\<forall>k<length us. survives (us ! k) \<longrightarrow> TestVoiceSegment (Suc i + k) \<in> set evs2) \<and>
              (\<exists>new. fst v = meta1 @ new \<and> (\<forall>rec\<in>set new. loop_record c dbid (Suc i) us rec))"
        "raises_only_Exception c \<longrightarrow> (\<forall>e. r = Inl e \<longrightarrow> is_Exception e)"
      by blast
    from e1(5) Inr v1 obtain new1 where
      n1: "meta1 = meta @ new1" "\<forall>rec\<in>set new1. loop_record c dbid i (u # us) rec"
    proof (cases "survives u")
      case True
      with e1(5) Inr v1 obtain rec where "meta1 = meta @ [rec]" "record_of c dbid i u rec"
        by auto
      with True that [of "[rec]"] show ?thesis
        by (simp add: loop_record_here)
    next
      case False
      with e1(5) Inr v1 have "meta1 = meta @ []" by simp
      with that [of "[]"] show ?thesis by simp
    qed
    have tr: "trace s' = trace s @ (evs1 @ evs2)"
      using e1(1) e2(1) by simp
    have le: "\<forall>e\<in>set (evs1 @ evs2). loop_event i (u # us) e"
      using le1 e2(2) by (auto intro: loop_event_later)
    have so: "sorted_wrt before (evs1 @ evs2)"
      using e1(2,3) e2(2,3) by (auto simp: sorted_wrt_append intro: loop_event_before)
    have res: "\<forall>v. r = Inr v \<longrightarrow>
        (\<forall>k<length (u # us). survives ((u # us) ! k) \<longrightarrow>
           TestVoiceSegment (i + k) \<in> set (evs1 @ evs2)) \<and>
        (\<exists>new. fst v = meta @ new \<and> (\<forall>rec\<in>set new. loop_record c dbid i (u # us) rec))"
    proof (intro allI impI conjI)
      fix v k
      assume rv: "r = Inr v" and k: "k < length (u # us)" and sv: "survives ((u # us) ! k)"
      show "TestVoiceSegment (i + k) \<in> set (evs1 @ evs2)"
      proof (cases k)
        case 0
        with sv e1(4) show ?thesis by simp
      next
        case (Suc j)
        with k sv e2(4) rv have "TestVoiceSegment (Suc i + j) \<in> set evs2" by simp
        with Suc show ?thesis by simp
      qed
    next
      fix v
      assume rv: "r = Inr v"
      with e2(4) obtain new2 where
        n2: "fst v = meta1 @ new2" "\<forall>rec\<in>set new2. loop_record c dbid (Suc i) us rec"
        by blast
      have "fst v = meta @ (new1 @ new2)" using n1(1) n2(1) by simp
      moreover have "\<forall>rec\<in>set (new1 @ new2). loop_record c dbid i (u # us) rec"
        using n1(2) n2(2) by (auto intro: loop_record_later)
      ultimately show "\<exists>new. fst v = meta @ new \<and> (\<forall>rec\<in>set new. loop_record c dbid i (u # us) rec)"
        by blast
    qed
    from tr le so res e2(5) show ?thesis by blast
  qed
qed

lemma process_utterances_filtered:
  "\<forall>u\<in>set us. filtered u \<Longrightarrow>
     process_utterances c cid dbid audio mt aut i us vars s = (Inr vars, s)"
  by (induction us arbitrary: i) (simp_all add: process_utterance_filtered)

lemma process_utterances_malformed:
  assumes "\<exists>u\<in>set us. malformed u"
  shows "\<exists>e s'. process_utterances c cid dbid audio mt aut i us vars s = (Inl e, s')"
  using assms
proof (induction us arbitrary: i vars s)
  case Nil
  then show ?case by simp
next
  case (Cons u us)
  obtain r1 s1 where pu: "process_utterance c cid dbid audio mt aut i u vars s = (r1, s1)"
    by (cases "process_utterance c cid dbid audio mt aut i u vars s")
  show ?case
  proof (cases r1)
    case (Inl e)
    with pu show ?thesis by simp
  next
    case (Inr v1)
    with pu process_utterance_malformed [of u c cid dbid audio mt aut i vars s]
    have "\<not> malformed u" by auto
    with Cons.prems have "\<exists>u\<in>set us. malformed u" by simp
    from Cons.IH [OF this, of "Suc i" v1 s1] pu Inr show ?thesis by simp
  qed
qed

lemma process_utterances_append:
  "process_utterances c cid dbid audio mt aut i (xs @ ys) vars s =
     (case process_utterances c cid dbid audio mt aut i xs vars s of
        (Inl e, s1) \<Rightarrow> (Inl e, s1)
      | (Inr vars1, s1) \<Rightarrow>
          process_utterances c cid dbid audio mt aut (i + length xs) ys vars1 s1)"
  by (induction xs arbitrary: i vars s) (auto split: prod.splits sum.splits)

lemma process_utterances_raise:
  assumes "process_utterances c cid dbid audio mt aut i xs vars s = (Inr vars1, s1)"
    and "process_utterance c cid dbid audio mt aut (i + length xs) u vars1 s1 = (Inl ex, s2)"
  shows "process_utterances c cid dbid audio mt aut i (xs @ u # ys) vars s = (Inl ex, s2)"
  using assms by (simp add: process_utterances_append)

section \<open>The statements around the loop\<close>

lemma prelude_trace:
  assumes "prelude c fp s = (r, s')"
  shows "\<exists>evs. trace s' = trace s @ evs \<and> sorted_wrt before evs \<and>
           (\<forall>e\<in>set evs. ev_stage e = 0 \<and> ev_pos e < 3) \<and>
           (\<forall>wav audio us. r = Inr (wav, audio, us) \<longrightarrow>
              evs = [ConvertToWav fp, FromWav wav, Transcribe wav])"
proof -
  obtain r1 s1 where c1: "call (ConvertToWav fp) (convert_to_wav c fp) s = (r1, s1)"
    by (cases "call (ConvertToWav fp) (convert_to_wav c fp) s")
  note t1 = call_eq [OF c1]
  show ?thesis
  proof (cases r1)
    case (Inl e)
    with assms c1 have "r = Inl e" "s' = s1" by (simp_all add: prelude_def)
    with t1 show ?thesis by (intro exI [of _ "[ConvertToWav fp]"]) simp
  next
    case wav: (Inr wav)
    obtain r2 s2 where c2: "call (FromWav wav) (from_wav c wav) s1 = (r2, s2)"
      by (cases "call (FromWav wav) (from_wav c wav) s1")
    note t2 = call_eq [OF c2]
    show ?thesis
    proof (cases r2)
      case (Inl e)
      with assms c1 wav c2 have "r = Inl e" "s' = s2" by (simp_all add: prelude_def)
      with t1 t2 show ?thesis
        by (intro exI [of _ "[ConvertToWav fp, FromWav wav]"]) (simp add: before_def below_def)
    next
      case audio: (Inr audio)
      obtain r3 s3 where c3: "call (Transcribe wav) (transcribe c wav) s2 = (r3, s3)"
        by (cases "call (Transcribe wav) (transcribe c wav) s2")
      note t3 = call_eq [OF c3]
      from assms c1 wav c2 audio c3 have s': "s' = s3"
        and r: "\<forall>wav' audio' us. r = Inr (wav', audio', us) \<longrightarrow> wav' = wav"
        by (auto simp: prelude_def split: sum.splits)
      with t1 t2 t3 show ?thesis
        by (intro exI [of _ "[ConvertToWav fp, FromWav wav, Transcribe wav]"])
          (simp add: before_def below_def)
    qed
  qed
qed

lemma same_but_identity_record_of:
  assumes "record_of c dbid i u r" and "same_but_identity r r'"
  shows "record_of c dbid i u r'"
  using assms unfolding record_of_def same_but_identity_def by simp

lemma build_result_utterances:
  "build_result c cid fp p meta w = Inr res \<Longrightarrow> r_utterances res = meta \<and> p \<noteq> None"
  by (auto simp: build_result_def split: option.splits)

lemma build_result_Exception: "build_result c cid fp p meta w = Inl e \<Longrightarrow> is_Exception e"
  by (auto simp: build_result_def split: option.splits)

lemma build_result_unbound: "build_result c cid fp None meta w = Inl (UnboundLocalError ''s3_path'')"
  by (simp add: build_result_def)

lemma try_body_trace:
  assumes "try_body c fp cid dn mt aut audio us s = (r, s')"
  shows "\<exists>evs post. trace s' = trace s @ AddConversation # evs @ post \<and>
           (\<forall>e\<in>set evs. loop_event 0 us e) \<and> sorted_wrt before evs \<and>
           (post = [] \<or> post = [IdentifyUnknown]) \<and>
           (post = [IdentifyUnknown] \<longrightarrow>
              (\<forall>k<length us. survives (us ! k) \<longrightarrow> TestVoiceSegment k \<in> set evs)) \<and>
           (\<forall>res. r = Inr res \<longrightarrow> post = [IdentifyUnknown] \<and>
              (\<exists>dbid meta w0 w1.
                 (\<forall>rec\<in>set meta. loop_record c dbid 0 us rec) \<and>
                 identify_unknown_speakers_by_combining c meta
                   [(''conversation_id'', JStr cid)] audio mt aut w0
                   = (Inr (r_utterances res), w1))) \<and>
           (raises_only_Exception c \<longrightarrow> (\<forall>e. r = Inl e \<longrightarrow> is_Exception e))"
proof -
  obtain r1 s1 where c1: "call AddConversation
      (add_conversation c (conversation_info c cid fp audio dn)) s = (r1, s1)"
    by (cases "call AddConversation
      (add_conversation c (conversation_info c cid fp audio dn)) s")
  note t1 = call_eq [OF c1]
  have x1: "raises_only_Exception c \<longrightarrow> (\<forall>e. r1 = Inl e \<longrightarrow> is_Exception e)"
    by (intro impI call_Exception [OF c1]) (rule roe_add_conversation)
  show ?thesis
  proof (cases r1)
    case (Inl e)
    with assms c1 have "r = Inl e" "s' = s1" by (simp_all add: try_body_def)
    with t1 x1 Inl show ?thesis
      by (intro exI [of _ "[]"]) simp
  next
    case dbid: (Inr dbid)
    obtain r2 s2 where lp:
      "process_utterances c cid dbid audio mt aut 0 us ([], None) s1 = (r2, s2)"
      by (cases "process_utterances c cid dbid audio mt aut 0 us ([], None) s1")
    from process_utterances_trace [OF lp] obtain evs where
      e: "trace s2 = trace s1 @ evs"
        "\<forall>e\<in>set evs. loop_event 0 us e"
        "sorted_wrt before evs"
        "\<forall>v. r2 = Inr v \<longrightarrow>
              (\<forall>k<length us. survives (us ! k) \<longrightarrow> TestVoiceSegment (0 + k) \<in> set evs) \<and>
              (\<exists>new. fst v = [] @ new \<and> (\<forall>rec\<in>set new. loop_record c dbid 0 us rec))"
        "raises_only_Exception c \<longrightarrow> (\<forall>e. r2 = Inl e \<longrightarrow> is_Exception e)"
      by blast
    have tr2: "trace s2 = trace s @ AddConversation # evs @ []"
      using t1 e(1) by simp
    show ?thesis
    proof (cases r2)
      case (Inl e')
      with assms c1 dbid lp have "r = Inl e'" "s' = s2" by (simp_all add: try_body_def)
      with tr2 e(2,3,5) Inl show ?thesis
        by (intro exI [of _ evs] exI [of _ "[]"]) simp
    next
      case v: (Inr v)
      obtain meta p where mp: "v = (meta, p)" by (cases v)
      from e(4) v mp have
        all: "\<forall>k<length us. survives (us ! k) \<longrightarrow> TestVoiceSegment k \<in> set evs"
        and recs: "\<forall>rec\<in>set meta. loop_record c dbid 0 us rec"
        by auto
      obtain r3 s3 where c3: "call IdentifyUnknown
          (identify_unknown_speakers_by_combining c meta [(''conversation_id'', JStr cid)]
             audio mt aut) s2 = (r3, s3)"
        by (cases "call IdentifyUnknown
          (identify_unknown_speakers_by_combining c meta [(''conversation_id'', JStr cid)]
             audio mt aut) s2")
      note t3 = call_eq [OF c3]
      have x3: "raises_only_Exception c \<longrightarrow> (\<forall>e. r3 = Inl e \<longrightarrow> is_Exception e)"
        by (intro impI call_Exception [OF c3]) (rule roe_identify)
      have tr3: "trace s3 = trace s @ AddConversation # evs @ [IdentifyUnknown]"
        using t3 tr2 by simp
      have s': "s' = s3"
        using assms c1 dbid lp v mp c3 by (auto simp: try_body_def split: sum.splits)
      have res: "\<forall>res. r = Inr res \<longrightarrow>
              (\<exists>dbid meta w0 w1.
                 (\<forall>rec\<in>set meta. loop_record c dbid 0 us rec) \<and>
                 identify_unknown_speakers_by_combining c meta
                   [(''conversation_id'', JStr cid)] audio mt aut w0
                   = (Inr (r_utterances res), w1))"
      proof (intro allI impI)
        fix res assume rr: "r = Inr res"
        with assms c1 dbid lp v mp c3 obtain meta' where
          m': "r3 = Inr meta'" "build_result c cid fp p meta' (world s3) = Inr res"
          by (auto simp: try_body_def split: sum.splits)
        from build_result_utterances [OF m'(2)] m'(1) t3
        have "identify_unknown_speakers_by_combining c meta
                [(''conversation_id'', JStr cid)] audio mt aut (world s2)
                = (Inr (r_utterances res), world s3)"
          by simp
        with recs show "\<exists>dbid meta w0 w1.
                 (\<forall>rec\<in>set meta. loop_record c dbid 0 us rec) \<and>
                 identify_unknown_speakers_by_combining c meta
                   [(''conversation_id'', JStr cid)] audio mt aut w0
                   = (Inr (r_utterances res), w1)"
          by blast
      qed
      have ex: "raises_only_Exception c \<longrightarrow> (\<forall>e. r = Inl e \<longrightarrow> is_Exception e)"
      proof (intro impI allI)
        fix e assume roe: "raises_only_Exception c" and re: "r = Inl e"
        show "is_Exception e"
        proof (cases r3)
          case (Inl e3)
          with assms c1 dbid lp v mp c3 re have "e = e3" by (simp add: try_body_def)
          with x3 roe Inl show ?thesis by simp
        next
          case (Inr meta')
          with assms c1 dbid lp v mp c3 re have
            "build_result c cid fp p meta' (world s3) = Inl e"
            by (auto simp: try_body_def)
          then show ?thesis by (rule build_result_Exception)
        qed
      qed
      from tr3 s' e(2,3) all res ex show ?thesis
        by (intro exI [of _ evs] exI [of _ "[IdentifyUnknown]"]) simp
    qed
  qed
qed

lemma try_body_database_id:
  assumes "try_body c fp cid dn mt aut audio us s = (Inr res, s')"
  shows "\<exists>dbid w1 meta w2 w3.
           add_conversation c (conversation_info c cid fp audio dn) (world s) = (Inr dbid, w1) \<and>
           (\<forall>rec\<in>set meta. loop_record c dbid 0 us rec) \<and>
           identify_unknown_speakers_by_combining c meta
             [(''conversation_id'', JStr cid)] audio mt aut w2
             = (Inr (r_utterances res), w3)"
proof -
  obtain r1 s1 where c1: "call AddConversation
      (add_conversation c (conversation_info c cid fp audio dn)) s = (r1, s1)"
    by (cases "call AddConversation
      (add_conversation c (conversation_info c cid fp audio dn)) s")
  note t1 = call_eq [OF c1]
  obtain dbid where dbid: "r1 = Inr dbid"
    using assms c1 by (cases r1) (simp_all add: try_body_def)
  from t1 dbid have ac:
    "add_conversation c (conversation_info c cid fp audio dn) (world s) = (Inr dbid, world s1)"
    by simp
  obtain r2 s2 where lp:
    "process_utterances c cid dbid audio mt aut 0 us ([], None) s1 = (r2, s2)"
    by (cases "process_utterances c cid dbid audio mt aut 0 us ([], None) s1")
  obtain v where v: "r2 = Inr v"
    using assms c1 dbid lp by (cases r2) (simp_all add: try_body_def)
  obtain meta p where mp: "v = (meta, p)" by (cases v)
  from process_utterances_trace [OF lp] v mp have
    recs: "\<forall>rec\<in>set meta. loop_record c dbid 0 us rec"
    by auto
  obtain r3 s3 where c3: "call IdentifyUnknown
      (identify_unknown_speakers_by_combining c meta [(''conversation_id'', JStr cid)]
         audio mt aut) s2 = (r3, s3)"
    by (cases "call IdentifyUnknown
      (identify_unknown_speakers_by_combining c meta [(''conversation_id'', JStr cid)]
         audio mt aut) s2")
  note t3 = call_eq [OF c3]
  from assms c1 dbid lp v mp c3 obtain meta' where
    m': "r3 = Inr meta'" "build_result c cid fp p meta' (world s3) = Inr res"
    by (auto simp: try_body_def split: sum.splits)
  from build_result_utterances [OF m'(2)] m'(1) t3
  have idn: "identify_unknown_speakers_by_combining c meta
          [(''conversation_id'', JStr cid)] audio mt aut (world s2)
          = (Inr (r_utterances res), world s3)"
    by simp
  show ?thesis
    by (intro exI [of _ dbid] exI [of _ "world s1"] exI [of _ meta] exI [of _ "world s2"]
          exI [of _ "world s3"] conjI) (fact ac recs idn)+
qed

lemma try_body_raise:
  assumes "add_conversation c (conversation_info c cid fp audio dn) (world s) = (Inr dbid, wa)"
    and "process_utterances c cid dbid audio mt aut 0 us ([], None)
           \<lparr>world = wa, trace = trace s @ [AddConversation]\<rparr> = (Inl ex, sx)"
  shows "try_body c fp cid dn mt aut audio us s = (Inl ex, sx)"
  using assms by (simp add: try_body_def call_def)

lemma try_body_no_survivor:
  assumes "\<forall>u\<in>set us. filtered u"
  shows "fst (try_body c fp cid dn mt aut audio us s) \<noteq> Inr res"
proof -
  have lp: "\<And>dbid s1. process_utterances c cid dbid audio mt aut 0 us ([], None) s1
              = (Inr ([], None), s1)"
    using assms by (rule process_utterances_filtered)
  show ?thesis
    by (auto simp: try_body_def lp build_result_unbound split: prod.splits sum.splits)
qed

lemma try_body_malformed:
  assumes "\<exists>u\<in>set us. malformed u"
  shows "fst (try_body c fp cid dn mt aut audio us s) \<noteq> Inr res"
proof -
  have lp: "\<And>dbid s1. \<exists>e s2. process_utterances c cid dbid audio mt aut 0 us ([], None) s1
              = (Inl e, s2)"
    using assms by (rule process_utterances_malformed)
  show ?thesis
  proof (cases "call AddConversation
      (add_conversation c (conversation_info c cid fp audio dn)) s")
    case (Pair r1 s1)
    show ?thesis
    proof (cases r1)
      case (Inl e)
      with Pair show ?thesis by (simp add: try_body_def)
    next
      case (Inr dbid)
      from lp [of dbid s1] obtain e s2 where
        "process_utterances c cid dbid audio mt aut 0 us ([], None) s1 = (Inl e, s2)"
        by blast
      with Pair Inr show ?thesis by (simp add: try_body_def)
    qed
  qed
qed

lemma except_Exception_state: "except_Exception (r, s) = (r', s') \<Longrightarrow> s' = s"
  by (cases r) (auto simp: except_Exception_def split: if_splits)

lemma except_Exception_Some: "except_Exception (r, s) = (Inr (Some res), s') \<Longrightarrow> r = Inr res"
  by (cases r) (auto simp: except_Exception_def split: if_splits)

lemma except_Exception_Inr: "except_Exception (Inr res, s) = (Inr (Some res), s)"
  by (simp add: except_Exception_def)

lemma except_Exception_Inl:
  "is_Exception e \<Longrightarrow> except_Exception (Inl e, s) = (Inr None, s)"
  by (simp add: except_Exception_def)

lemma cleanup_trace:
  assumes "cleanup c wav fp s = (r, s')"
  shows "\<exists>fin. trace s' = trace s @ fin \<and>
           (fin = [] \<or> fin = [OsRemove wav]) \<and>
           ((fin = [OsRemove wav]) = (wav \<noteq> fp \<and> path_exists c wav (world s))) \<and>
           (fin = [] \<longrightarrow> s' = s \<and> r = Inr ()) \<and>
           (fin = [OsRemove wav] \<longrightarrow> os_remove c wav (world s) = (r, world s'))"
proof (cases "wav \<noteq> fp \<and> path_exists c wav (world s)")
  case True
  with assms have c: "call (OsRemove wav) (os_remove c wav) s = (r, s')"
    by (simp add: cleanup_def)
  from call_eq [OF c] True show ?thesis
    by (intro exI [of _ "[OsRemove wav]"]) simp
next
  case False
  with assms have "s' = s" "r = Inr ()" by (auto simp: cleanup_def)
  with False show ?thesis by (intro exI [of _ "[]"]) simp
qed

lemma run_finally_trace:
  assumes "run_finally c wav fp (r0, s) = (r, s')"
  shows "\<exists>fin. trace s' = trace s @ fin \<and>
           (fin = [] \<or> fin = [OsRemove wav]) \<and>
           ((fin = [OsRemove wav]) = (wav \<noteq> fp \<and> path_exists c wav (world s))) \<and>
           (fin = [] \<longrightarrow> s' = s \<and> r = r0) \<and>
           (\<forall>v. r = Inr v \<longrightarrow> r0 = Inr v \<and>
              (fin = [OsRemove wav] \<longrightarrow> os_remove c wav (world s) = (Inr (), world s'))) \<and>
           (remove_succeeds c \<longrightarrow> r = r0)"
proof -
  obtain r1 s1 where cl: "cleanup c wav fp s = (r1, s1)"
    by (cases "cleanup c wav fp s")
  from cleanup_trace [OF cl] obtain fin where
    f: "trace s1 = trace s @ fin" "fin = [] \<or> fin = [OsRemove wav]"
      "(fin = [OsRemove wav]) = (wav \<noteq> fp \<and> path_exists c wav (world s))"
      "fin = [] \<longrightarrow> s1 = s \<and> r1 = Inr ()"
      "fin = [OsRemove wav] \<longrightarrow> os_remove c wav (world s) = (r1, world s1)"
    by blast
  have s': "s' = s1" using assms cl by (auto simp: run_finally_def split: sum.splits)
  have ok: "r1 = Inr () \<longrightarrow> r = r0" using assms cl by (auto simp: run_finally_def)
  have bad: "\<forall>e. r1 = Inl e \<longrightarrow> r = Inl e" using assms cl by (auto simp: run_finally_def)
  have a: "fin = [] \<longrightarrow> s' = s \<and> r = r0" using f(4) s' ok by simp
  have b: "\<forall>v. r = Inr v \<longrightarrow> r0 = Inr v \<and>
              (fin = [OsRemove wav] \<longrightarrow> os_remove c wav (world s) = (Inr (), world s'))"
  proof (intro allI impI)
    fix v assume rv: "r = Inr v"
    with bad have "r1 = Inr ()" by (cases r1) auto
    with ok rv f(5) s' show "r0 = Inr v \<and>
              (fin = [OsRemove wav] \<longrightarrow> os_remove c wav (world s) = (Inr (), world s'))"
      by simp
  qed
  have d: "remove_succeeds c \<longrightarrow> r = r0"
  proof
    assume rs: "remove_succeeds c"
    have "r1 = Inr ()"
    proof (cases "fin = []")
      case True
      with f(4) show ?thesis by simp
    next
      case False
      with f(2,5) have "os_remove c wav (world s) = (r1, world s1)" by simp
      moreover from rs have "fst (os_remove c wav (world s)) = Inr ()"
        by (simp add: remove_succeeds_def)
      ultimately show ?thesis by simp
    qed
    with ok show "r = r0" by simp
  qed
  from f(1,2,3) s' a b d show ?thesis by blast
qed

section \<open>The whole run\<close>

lemma process_conversation_unfold:
  "prelude c fp \<lparr>world = w, trace = []\<rparr> = (Inr (wav, audio, us), s0) \<Longrightarrow>
     process_conversation c fp cid dn mt aut w
       = run_finally c wav fp
           (except_Exception
              (try_body c fp (default_conversation_id c cid w) dn mt aut audio us s0))"
  by (simp add: process_conversation_def)

lemma process_conversation_raise:
  "prelude c fp \<lparr>world = w, trace = []\<rparr> = (Inl e, s0) \<Longrightarrow>
     process_conversation c fp cid dn mt aut w = (Inl e, s0)"
  by (simp add: process_conversation_def)

text \<open>The shape of the trace of a run that reaches the \<^verbatim>\<open>try\<close> statement.\<close>

lemma process_conversation_summary:
  assumes pre: "prelude c fp \<lparr>world = w, trace = []\<rparr> = (Inr (wav, audio, us), s0)"
    and run: "process_conversation c fp cid dn mt aut w = (out, s')"
  shows "\<exists>evs post fin.
           trace s' = [ConvertToWav fp, FromWav wav, Transcribe wav, AddConversation]
                        @ evs @ post @ fin \<and>
           (\<forall>e\<in>set evs. loop_event 0 us e) \<and> sorted_wrt before evs \<and>
           (post = [] \<or> post = [IdentifyUnknown]) \<and>
           (post = [IdentifyUnknown] \<longrightarrow>
              (\<forall>k<length us. survives (us ! k) \<longrightarrow> TestVoiceSegment k \<in> set evs)) \<and>
           (fin = [] \<or> fin = [OsRemove wav] \<and> wav \<noteq> fp) \<and>
           (\<forall>res. out = Inr (Some res) \<longrightarrow> post = [IdentifyUnknown] \<and>
              (\<exists>dbid meta w0 w1.
                 (\<forall>rec\<in>set meta. loop_record c dbid 0 us rec) \<and>
                 identify_unknown_speakers_by_combining c meta
                   [(''conversation_id'', JStr (default_conversation_id c cid w))] audio mt aut w0
                   = (Inr (r_utterances res), w1)))"
proof -
  let ?cid = "default_conversation_id c cid w"
  from prelude_trace [OF pre] have t0: "trace s0 = [ConvertToWav fp, FromWav wav, Transcribe wav]"
    by simp
  obtain r1 s1 where tb: "try_body c fp ?cid dn mt aut audio us s0 = (r1, s1)"
    by (cases "try_body c fp ?cid dn mt aut audio us s0")
  from try_body_trace [OF tb] obtain evs post where
    t1: "trace s1 = trace s0 @ AddConversation # evs @ post"
      "\<forall>e\<in>set evs. loop_event 0 us e" "sorted_wrt before evs"
      "post = [] \<or> post = [IdentifyUnknown]"
      "post = [IdentifyUnknown] \<longrightarrow>
              (\<forall>k<length us. survives (us ! k) \<longrightarrow> TestVoiceSegment k \<in> set evs)"
      "\<forall>res. r1 = Inr res \<longrightarrow> post = [IdentifyUnknown] \<and>
              (\<exists>dbid meta w0 w1.
                 (\<forall>rec\<in>set meta. loop_record c dbid 0 us rec) \<and>
                 identify_unknown_speakers_by_combining c meta
                   [(''conversation_id'', JStr ?cid)] audio mt aut w0
                   = (Inr (r_utterances res), w1))"
    by blast
  obtain r2 s2 where ex: "except_Exception (r1, s1) = (r2, s2)"
    by (cases "except_Exception (r1, s1)")
  note e = except_Exception_state [OF ex]
  from run pre tb ex have rf: "run_finally c wav fp (r2, s2) = (out, s')"
    by (simp add: process_conversation_unfold)
  from run_finally_trace [OF rf] obtain fin where
    f: "trace s' = trace s2 @ fin" "fin = [] \<or> fin = [OsRemove wav]"
      "(fin = [OsRemove wav]) = (wav \<noteq> fp \<and> path_exists c wav (world s2))"
      "\<forall>v. out = Inr v \<longrightarrow> r2 = Inr v"
    by blast
  have tr: "trace s' = [ConvertToWav fp, FromWav wav, Transcribe wav, AddConversation]
                        @ evs @ post @ fin"
    using f(1) e t1(1) t0 by simp
  have fin: "fin = [] \<or> fin = [OsRemove wav] \<and> wav \<noteq> fp"
    using f(2,3) by blast
  have res: "\<forall>res. out = Inr (Some res) \<longrightarrow> post = [IdentifyUnknown] \<and>
              (\<exists>dbid meta w0 w1.
                 (\<forall>rec\<in>set meta. loop_record c dbid 0 us rec) \<and>
                 identify_unknown_speakers_by_combining c meta
                   [(''conversation_id'', JStr ?cid)] audio mt aut w0
                   = (Inr (r_utterances res), w1))"
  proof (intro allI impI)
    fix res assume "out = Inr (Some res)"
    with f(4) have "r2 = Inr (Some res)" by simp
    with ex have "r1 = Inr res" by (simp add: except_Exception_Some)
    with t1(6) show "post = [IdentifyUnknown] \<and>
              (\<exists>dbid meta w0 w1.
                 (\<forall>rec\<in>set meta. loop_record c dbid 0 us rec) \<and>
                 identify_unknown_speakers_by_combining c meta
                   [(''conversation_id'', JStr ?cid)] audio mt aut w0
                   = (Inr (r_utterances res), w1))"
      by (elim allE impE) assumption
  qed
  show ?thesis
    by (intro exI [of _ evs] exI [of _ post] exI [of _ fin] conjI)
      (fact tr t1(2) t1(3) t1(4) t1(5) fin res)+
qed



lemma summary_index:
  assumes tr: "t = [ConvertToWav fp, FromWav wav, Transcribe wav, AddConversation]
                     @ evs @ post @ fin"
    and post: "post = [] \<or> post = [IdentifyUnknown]"
    and fin: "fin = [] \<or> fin = [OsRemove wav] \<and> wav \<noteq> fp"
    and e: "e \<in> set t" and ix: "ev_index e = Some i"
  shows "e \<in> set evs"
proof -
  from e tr have "e \<in> set [ConvertToWav fp, FromWav wav, Transcribe wav, AddConversation]
      \<or> e \<in> set evs \<or> e \<in> set post \<or> e \<in> set fin"
    by simp
  moreover have "e \<notin> set [ConvertToWav fp, FromWav wav, Transcribe wav, AddConversation]"
    using ix by auto
  moreover have "e \<notin> set post" using post ix by auto
  moreover have "e \<notin> set fin" using fin ix by auto
  ultimately show ?thesis by blast
qed

lemma run_events_survive:
  assumes pre: "prelude c fp \<lparr>world = w, trace = []\<rparr> = (Inr (wav, audio, us), s0)"
    and run: "process_conversation c fp cid dn mt aut w = (out, s')"
    and e: "e \<in> set (trace s')" and ix: "ev_index e = Some i"
  shows "i < length us \<and> survives (us ! i)"
proof -
  from process_conversation_summary [OF pre run] obtain evs post fin where
    s: "trace s' = [ConvertToWav fp, FromWav wav, Transcribe wav, AddConversation]
                        @ evs @ post @ fin"
      "\<forall>e\<in>set evs. loop_event 0 us e"
      "post = [] \<or> post = [IdentifyUnknown]" "fin = [] \<or> fin = [OsRemove wav] \<and> wav \<noteq> fp"
    by blast
  from summary_index [OF s(1,3,4) e ix] s(2) have "loop_event 0 us e" by blast
  then show ?thesis using ix by (rule loop_event_index)
qed

lemma returned_records:
  assumes pre: "prelude c fp \<lparr>world = w, trace = []\<rparr> = (Inr (wav, audio, us), s0)"
    and run: "process_conversation c fp cid dn mt aut w = (Inr (Some res), s')"
    and con: "consolidation_contract c"
    and mem: "r \<in> set (r_utterances res)"
  shows "\<exists>k dbid. k < length us \<and> survives (us ! k) \<and> record_of c dbid k (us ! k) r"
proof -
  from process_conversation_summary [OF pre run] obtain dbid meta w0 w1 where
    recs: "\<forall>rec\<in>set meta. loop_record c dbid 0 us rec"
    and idn: "identify_unknown_speakers_by_combining c meta
                [(''conversation_id'', JStr (default_conversation_id c cid w))] audio mt aut w0
                = (Inr (r_utterances res), w1)"
    by blast
  from con idn have la: "list_all2 same_but_identity meta (r_utterances res)"
    unfolding consolidation_contract_def by blast
  from mem obtain n where n: "n < length (r_utterances res)" "r = r_utterances res ! n"
    by (auto simp: in_set_conv_nth)
  from la n have sb: "same_but_identity (meta ! n) r"
    by (simp add: list_all2_conv_all_nth)
  from la n have "meta ! n \<in> set meta"
    by (simp add: list_all2_lengthD)
  with recs have "loop_record c dbid 0 us (meta ! n)" by blast
  then obtain k where k: "k < length us" "survives (us ! k)"
    "record_of c dbid k (us ! k) (meta ! n)"
    unfolding loop_record_def by auto
  from same_but_identity_record_of [OF k(3) sb] k(1,2) show ?thesis by blast
qed

lemma process_conversation_result:
  assumes pre: "prelude c fp \<lparr>world = w, trace = []\<rparr> = (Inr (wav, audio, us), s0)"
    and run: "process_conversation c fp cid dn mt aut w = (Inr (Some res), s')"
  shows "\<exists>s1. try_body c fp (default_conversation_id c cid w) dn mt aut audio us s0 = (Inr res, s1)"
proof -
  let ?cid = "default_conversation_id c cid w"
  obtain r1 s1 where t: "try_body c fp ?cid dn mt aut audio us s0 = (r1, s1)"
    by (cases "try_body c fp ?cid dn mt aut audio us s0")
  obtain r2 s2 where ex: "except_Exception (r1, s1) = (r2, s2)"
    by (cases "except_Exception (r1, s1)")
  from run pre t ex have rf: "run_finally c wav fp (r2, s2) = (Inr (Some res), s')"
    by (simp add: process_conversation_unfold)
  from run_finally_trace [OF rf] have "r2 = Inr (Some res)" by blast
  with ex have "r1 = Inr res" by (simp add: except_Exception_Some)
  with t show ?thesis by blast
qed

lemma returned_records_database:
  assumes pre: "prelude c fp \<lparr>world = w, trace = []\<rparr> = (Inr (wav, audio, us), s0)"
    and run: "process_conversation c fp cid dn mt aut w = (Inr (Some res), s')"
    and con: "consolidation_contract c"
    and mem: "r \<in> set (r_utterances res)"
  shows "\<exists>dbid w1 k.
           add_conversation c
             (conversation_info c (default_conversation_id c cid w) fp audio dn) (world s0)
             = (Inr dbid, w1) \<and>
           k < length us \<and> survives (us ! k) \<and> record_of c dbid k (us ! k) r"
proof -
  let ?cid = "default_conversation_id c cid w"
  from process_conversation_result [OF pre run] obtain s1 where
    tb: "try_body c fp ?cid dn mt aut audio us s0 = (Inr res, s1)"
    by blast
  from try_body_database_id [OF tb] obtain dbid w1 meta w2 w3 where
    ac: "add_conversation c (conversation_info c ?cid fp audio dn) (world s0) = (Inr dbid, w1)"
    and recs: "\<forall>rec\<in>set meta. loop_record c dbid 0 us rec"
    and idn: "identify_unknown_speakers_by_combining c meta
                [(''conversation_id'', JStr ?cid)] audio mt aut w2
                = (Inr (r_utterances res), w3)"
    by blast
  from con idn have la: "list_all2 same_but_identity meta (r_utterances res)"
    unfolding consolidation_contract_def by blast
  from mem obtain n where n: "n < length (r_utterances res)" "r = r_utterances res ! n"
    by (auto simp: in_set_conv_nth)
  from la n have sb: "same_but_identity (meta ! n) r"
    by (simp add: list_all2_conv_all_nth)
  from la n have "meta ! n \<in> set meta"
    by (simp add: list_all2_lengthD)
  with recs have "loop_record c dbid 0 us (meta ! n)" by blast
  then obtain k where k: "k < length us" "survives (us ! k)"
    "record_of c dbid k (us ! k) (meta ! n)"
    unfolding loop_record_def by auto
  from same_but_identity_record_of [OF k(3) sb] have ro: "record_of c dbid k (us ! k) r" .
  show ?thesis
    by (intro exI [of _ dbid] exI [of _ w1] exI [of _ k] conjI) (fact ac k(1) k(2) ro)+
qed


lemma process_conversation_not_Some:
  assumes pre: "prelude c fp \<lparr>world = w, trace = []\<rparr> = (Inr (wav, audio, us), s0)"
    and tb: "\<forall>res. fst (try_body c fp (default_conversation_id c cid w) dn mt aut audio us s0)
               \<noteq> Inr res"
  shows "fst (process_conversation c fp cid dn mt aut w) \<noteq> Inr (Some res)"
proof
  let ?cid = "default_conversation_id c cid w"
  assume out: "fst (process_conversation c fp cid dn mt aut w) = Inr (Some res)"
  obtain r1 s1 where t: "try_body c fp ?cid dn mt aut audio us s0 = (r1, s1)"
    by (cases "try_body c fp ?cid dn mt aut audio us s0")
  obtain r2 s2 where ex: "except_Exception (r1, s1) = (r2, s2)"
    by (cases "except_Exception (r1, s1)")
  obtain s' where rf: "run_finally c wav fp (r2, s2) = (Inr (Some res), s')"
    using out pre t ex
    by (cases "run_finally c wav fp (r2, s2)") (simp add: process_conversation_unfold)
  from run_finally_trace [OF rf] have "r2 = Inr (Some res)" by blast
  with ex have "r1 = Inr res" by (simp add: except_Exception_Some)
  with t tb show False by simp
qed

lemma process_conversation_outcome:
  assumes pre: "prelude c fp \<lparr>world = w, trace = []\<rparr> = (Inr (wav, audio, us), s0)"
    and tb: "try_body c fp (default_conversation_id c cid w) dn mt aut audio us s0 = (rt, s1)"
    and cl: "cleanup c wav fp s1 = (rc, s2)"
  shows "process_conversation c fp cid dn mt aut w =
           (case rc of
              Inl ex \<Rightarrow> Inl ex
            | Inr _ \<Rightarrow>
                (case rt of
                   Inl e \<Rightarrow> if is_Exception e then Inr None else Inl e
                 | Inr res \<Rightarrow> Inr (Some res)),
            s2)"
  using tb cl
  by (simp add: process_conversation_unfold [OF pre] except_Exception_def run_finally_def
        split: sum.splits)

lemma process_conversation_caught:
  assumes pre: "prelude c fp \<lparr>world = w, trace = []\<rparr> = (Inr (wav, audio, us), s0)"
    and roe: "raises_only_Exception c" and rs: "remove_succeeds c"
  shows "fst (process_conversation c fp cid dn mt aut w)
           = (case fst (try_body c fp (default_conversation_id c cid w) dn mt aut audio us s0) of
                Inl e \<Rightarrow> Inr None
              | Inr res \<Rightarrow> Inr (Some res))"
proof -
  let ?cid = "default_conversation_id c cid w"
  obtain r1 s1 where t: "try_body c fp ?cid dn mt aut audio us s0 = (r1, s1)"
    by (cases "try_body c fp ?cid dn mt aut audio us s0")
  obtain r2 s2 where ex: "except_Exception (r1, s1) = (r2, s2)"
    by (cases "except_Exception (r1, s1)")
  obtain out s' where rf: "run_finally c wav fp (r2, s2) = (out, s')"
    by (cases "run_finally c wav fp (r2, s2)")
  from run_finally_trace [OF rf] rs have o: "out = r2" by blast
  have "r2 = (case r1 of Inl e \<Rightarrow> Inr None | Inr res \<Rightarrow> Inr (Some res))"
  proof (cases r1)
    case (Inl e)
    with try_body_trace [OF t] roe have "is_Exception e" by blast
    with ex Inl show ?thesis by (simp add: except_Exception_Inl)
  next
    case (Inr res)
    with ex show ?thesis by (simp add: except_Exception_Inr)
  qed
  with o pre t ex rf show ?thesis by (simp add: process_conversation_unfold)
qed

lemma input_never_removed:
  assumes run: "process_conversation c fp cid dn mt aut w = (out, s')"
  shows "OsRemove fp \<notin> set (trace s')"
proof (cases "prelude c fp \<lparr>world = w, trace = []\<rparr>")
  case (Pair r0 s0)
  show ?thesis
  proof (cases r0)
    case (Inl e)
    with Pair run have "s' = s0" by (simp add: process_conversation_raise)
    moreover from prelude_trace [OF Pair] obtain evs where
      "trace s0 = evs" "\<forall>e\<in>set evs. ev_stage e = 0 \<and> ev_pos e < 3"
      by auto
    ultimately show ?thesis by force
  next
    case (Inr v)
    obtain wav audio us where v: "v = (wav, audio, us)" by (cases v)
    from Pair Inr v have pre: "prelude c fp \<lparr>world = w, trace = []\<rparr> = (Inr (wav, audio, us), s0)"
      by simp
    from process_conversation_summary [OF pre run] obtain evs post fin where
      s: "trace s' = [ConvertToWav fp, FromWav wav, Transcribe wav, AddConversation]
                        @ evs @ post @ fin"
        "\<forall>e\<in>set evs. loop_event 0 us e"
        "post = [] \<or> post = [IdentifyUnknown]" "fin = [] \<or> fin = [OsRemove wav] \<and> wav \<noteq> fp"
      by blast
    have "OsRemove fp \<notin> set evs"
    proof
      assume "OsRemove fp \<in> set evs"
      with s(2) have "loop_event 0 us (OsRemove fp)" by blast
      then show False by (simp add: loop_event_def)
    qed
    moreover have "OsRemove fp \<notin> set post" using s(3) by auto
    moreover have "OsRemove fp \<notin> set fin" using s(4) by auto
    ultimately show ?thesis using s(1) by simp
  qed
qed

lemma cleanup_on_return:
  assumes pre: "prelude c fp \<lparr>world = w, trace = []\<rparr> = (Inr (wav, audio, us), s0)"
    and run: "process_conversation c fp cid dn mt aut w = (Inr r, s')"
    and sb: "sb = snd (try_body c fp (default_conversation_id c cid w) dn mt aut audio us s0)"
  shows "if wav \<noteq> fp \<and> path_exists c wav (world sb)
         then trace s' = trace sb @ [OsRemove wav] \<and>
              os_remove c wav (world sb) = (Inr (), world s') \<and>
              (remove_deletes c \<longrightarrow> \<not> path_exists c wav (world s'))
         else s' = sb"
proof -
  let ?cid = "default_conversation_id c cid w"
  obtain r1 where t: "try_body c fp ?cid dn mt aut audio us s0 = (r1, sb)"
    using sb by (cases "try_body c fp ?cid dn mt aut audio us s0") simp
  obtain r2 s2 where ex: "except_Exception (r1, sb) = (r2, s2)"
    by (cases "except_Exception (r1, sb)")
  from except_Exception_state [OF ex] have s2: "s2 = sb" .
  from run pre t ex s2 have rf: "run_finally c wav fp (r2, sb) = (Inr r, s')"
    by (simp add: process_conversation_unfold)
  from run_finally_trace [OF rf] obtain fin where
    f: "trace s' = trace sb @ fin" "fin = [] \<or> fin = [OsRemove wav]"
      "(fin = [OsRemove wav]) = (wav \<noteq> fp \<and> path_exists c wav (world sb))"
      "fin = [] \<longrightarrow> s' = sb \<and> Inr r = r2"
      "fin = [OsRemove wav] \<longrightarrow> os_remove c wav (world sb) = (Inr (), world s')"
    by blast
  show ?thesis
  proof (cases "wav \<noteq> fp \<and> path_exists c wav (world sb)")
    case True
    with f(3) have fin: "fin = [OsRemove wav]" by simp
    with f(5) have rm: "os_remove c wav (world sb) = (Inr (), world s')" by simp
    then have "remove_deletes c \<longrightarrow> \<not> path_exists c wav (world s')"
      unfolding remove_deletes_def by blast
    with True fin f(1) rm show ?thesis by simp
  next
    case False
    with f(2,3) have "fin = []" by blast
    with f(4) False show ?thesis by simp
  qed
qed

section \<open>Evaluation on concrete inputs\<close>

lemmas body_defs =
  process_utterance_def process_segment_def record_utterance_def store_utterance_def
  auto_update_def fallback_label_def provider_label_def truthy_def call_def
  utterance_data_def utterance_info_def clip_path_def json_opt_str_def

lemmas run_defs =
  process_conversation_def prelude_def try_body_def except_Exception_def run_finally_def
  cleanup_def build_result_def default_conversation_id_def conversation_info_def basename_def

lemmas index_defs = body_defs after_gate_def index_demo_def

lemma fmt_03d_0: "fmt_03d 0 = ''000''" by code_simp

lemma fmt_03d_Suc_0: "fmt_03d (Suc 0) = ''001''" by code_simp

lemma same_but_identity_refl: "same_but_identity r r"
  by (simp add: same_but_identity_def)

lemma demo_contract: "consolidation_contract (demo tvs us)"
  unfolding consolidation_contract_def
  by (auto simp: demo_def list_all2_conv_all_nth same_but_identity_refl)

lemma demo_raises_only_Exception: "raises_only_Exception (demo tvs us)"
  by (simp add: raises_only_Exception_def demo_def)

lemma demo_remove_succeeds: "remove_succeeds (demo tvs us)"
  by (simp add: remove_succeeds_def demo_def)

lemma demo_remove_deletes: "remove_deletes (demo tvs us)"
  by (simp add: remove_deletes_def demo_def)

lemma demo_prelude_mp3:
  "prelude (demo tvs us) ''/tmp/a.mp3'' \<lparr>world = [], trace = []\<rparr>
     = (Inr (''/tmp/a.mp3.wav'', 60000, us),
        \<lparr>world = [''/tmp/a.mp3.wav''],
           trace = [ConvertToWav ''/tmp/a.mp3'', FromWav ''/tmp/a.mp3.wav'',
                    Transcribe ''/tmp/a.mp3.wav'']\<rparr>)"
  by (simp add: prelude_def call_def demo_def)

lemma demo_prelude_wav:
  "prelude (demo tvs us) ''/tmp/a.wav'' \<lparr>world = [], trace = []\<rparr>
     = (Inr (''/tmp/a.wav'', 60000, us),
        \<lparr>world = [],
           trace = [ConvertToWav ''/tmp/a.wav'', FromWav ''/tmp/a.wav'',
                    Transcribe ''/tmp/a.wav'']\<rparr>)"
  by (simp add: prelude_def call_def demo_def)

lemma demo_run_short_long:
  "process_conversation (demo unmatched_with_embedding [utt 0 650 ''A'' 0.5, utt 650 1550 ''A'' 0.8])
     ''/tmp/a.mp3'' (Some ''c1'') None 0.6 0.9 []
   = (Inr (Some \<lparr>r_conversation_id = ''c1'', r_original_file = ''a.mp3'',
                  r_s3_path = ''s3://bucket/c1/utterances/utterance_001.wav'',
                  r_utterances =
                    [[(''id'', JInt 1), (''start_ms'', JInt 650), (''end_ms'', JInt 1550),
                      (''start_time'', JStr ''650''), (''end_time'', JStr ''1550''),
                      (''text'', JStr ''hello''), (''confidence'', JFloat 0.8),
                      (''speaker'', JStr ''Speaker_A''), (''embedding_id'', JNull),
                      (''words'', JList []), (''conversation_id'', JStr ''db-1'')]],
                  r_timestamp = ''2024-01-01T12:00:00''\<rparr>),
      \<lparr>world = [],
         trace = [ConvertToWav ''/tmp/a.mp3'', FromWav ''/tmp/a.mp3.wav'',
                  Transcribe ''/tmp/a.mp3.wav'', AddConversation, TestVoiceSegment 1,
                  AddSpeaker 1 ''Speaker_A'', AddUtterance 1, IdentifyUnknown,
                  OsRemove ''/tmp/a.mp3.wav'']\<rparr>)"
  by (simp add: run_defs body_defs demo_def unmatched_with_embedding_def utt_def fmt_03d_Suc_0
        str_nat.simps digit_char_def)


lemma demo_run_no_start:
  "process_conversation (demo matched_alice [no_start, utt 900 1800 ''B'' 0.8])
     ''/tmp/a.wav'' (Some ''c1'') None 0.6 0.9 []
   = (Inr None,
      \<lparr>world = [],
         trace = [ConvertToWav ''/tmp/a.wav'', FromWav ''/tmp/a.wav'',
                  Transcribe ''/tmp/a.wav'', AddConversation]\<rparr>)"
  by (simp add: run_defs body_defs demo_def matched_alice_def utt_def no_start_def)

lemma demo_try_short_long:
  "snd (try_body (demo unmatched_with_embedding [utt 0 650 ''A'' 0.5, utt 650 1550 ''A'' 0.8])
          ''/tmp/a.mp3''
          (default_conversation_id
             (demo unmatched_with_embedding [utt 0 650 ''A'' 0.5, utt 650 1550 ''A'' 0.8])
             (Some ''c1'') [])
          None 0.6 0.9 60000 [utt 0 650 ''A'' 0.5, utt 650 1550 ''A'' 0.8]
          \<lparr>world = [''/tmp/a.mp3.wav''],
             trace = [ConvertToWav ''/tmp/a.mp3'', FromWav ''/tmp/a.mp3.wav'',
                      Transcribe ''/tmp/a.mp3.wav'']\<rparr>)
   = \<lparr>world = [''/tmp/a.mp3.wav''],
        trace = [ConvertToWav ''/tmp/a.mp3'', FromWav ''/tmp/a.mp3.wav'',
                 Transcribe ''/tmp/a.mp3.wav'', AddConversation, TestVoiceSegment 1,
                 AddSpeaker 1 ''Speaker_A'', AddUtterance 1, IdentifyUnknown]\<rparr>"
  by (simp add: run_defs body_defs demo_def unmatched_with_embedding_def utt_def fmt_03d_Suc_0)

lemma remove_fails_prelude:
  "prelude (remove_fails us) ''/tmp/a.mp3'' \<lparr>world = [], trace = []\<rparr>
     = (Inr (''/tmp/a.mp3.wav'', 60000, us),
        \<lparr>world = [''/tmp/a.mp3.wav''],
           trace = [ConvertToWav ''/tmp/a.mp3'', FromWav ''/tmp/a.mp3.wav'',
                    Transcribe ''/tmp/a.mp3.wav'']\<rparr>)"
  by (simp add: prelude_def call_def remove_fails_def demo_def)

lemma demo_try_no_start:
  "try_body (demo matched_alice [no_start, utt 900 1800 ''B'' 0.8]) ''/tmp/a.wav'' ''c1''
     None 0.6 0.9 60000 [no_start, utt 900 1800 ''B'' 0.8]
     \<lparr>world = [],
        trace = [ConvertToWav ''/tmp/a.wav'', FromWav ''/tmp/a.wav'', Transcribe ''/tmp/a.wav'']\<rparr>
   = (Inl (KeyError ''start''),
      \<lparr>world = [],
         trace = [ConvertToWav ''/tmp/a.wav'', FromWav ''/tmp/a.wav'', Transcribe ''/tmp/a.wav'',
                  AddConversation]\<rparr>)"
  by (simp add: run_defs body_defs demo_def matched_alice_def utt_def no_start_def)

lemma demo_try_no_embedding:
  "try_body (demo no_embedding [utt 0 900 ''A'' 0.8]) ''/tmp/a.wav'' ''c1''
     None 0.6 0.5 60000 [utt 0 900 ''A'' 0.8]
     \<lparr>world = [],
        trace = [ConvertToWav ''/tmp/a.wav'', FromWav ''/tmp/a.wav'', Transcribe ''/tmp/a.wav'']\<rparr>
   = (Inr \<lparr>r_conversation_id = ''c1'', r_original_file = ''a.wav'',
            r_s3_path = ''s3://bucket/c1/utterances/utterance_000.wav'',
            r_utterances =
              [[(''id'', JInt 0), (''start_ms'', JInt 0), (''end_ms'', JInt 900),
                (''start_time'', JStr ''0''), (''end_time'', JStr ''900''),
                (''text'', JStr ''hello''), (''confidence'', JFloat 0.8),
                (''speaker'', JStr ''Speaker_A''), (''embedding_id'', JNull),
                (''words'', JList []), (''conversation_id'', JStr ''db-1'')]],
            r_timestamp = ''2024-01-01T12:00:00''\<rparr>,
      \<lparr>world = [],
         trace = [ConvertToWav ''/tmp/a.wav'', FromWav ''/tmp/a.wav'', Transcribe ''/tmp/a.wav'',
                  AddConversation, TestVoiceSegment 0, AddSpeaker 0 ''Speaker_A'',
                  AddUtterance 0, IdentifyUnknown]\<rparr>)"
  by (simp add: run_defs body_defs demo_def no_embedding_def utt_def fmt_03d_0
        str_nat.simps digit_char_def)

lemma remove_fails_try:
  "try_body (remove_fails [utt 0 900 ''A'' 0.8]) ''/tmp/a.mp3'' ''c1''
     None 0.6 0.9 60000 [utt 0 900 ''A'' 0.8]
     \<lparr>world = [''/tmp/a.mp3.wav''],
        trace = [ConvertToWav ''/tmp/a.mp3'', FromWav ''/tmp/a.mp3.wav'',
                 Transcribe ''/tmp/a.mp3.wav'']\<rparr>
   = (Inr \<lparr>r_conversation_id = ''c1'', r_original_file = ''a.mp3'',
            r_s3_path = ''s3://bucket/c1/utterances/utterance_000.wav'',
            r_utterances =
              [[(''id'', JInt 0), (''start_ms'', JInt 0), (''end_ms'', JInt 900),
                (''start_time'', JStr ''0''), (''end_time'', JStr ''900''),
                (''text'', JStr ''hello''), (''confidence'', JFloat 0.95),
                (''speaker'', JStr ''alice''), (''embedding_id'', JStr ''emb_1''),
                (''words'', JList []), (''conversation_id'', JStr ''db-1'')]],
            r_timestamp = ''2024-01-01T12:00:00''\<rparr>,
      \<lparr>world = [''/tmp/a.mp3.wav''],
         trace = [ConvertToWav ''/tmp/a.mp3'', FromWav ''/tmp/a.mp3.wav'',
                  Transcribe ''/tmp/a.mp3.wav'', AddConversation, TestVoiceSegment 0,
                  AddSpeaker 0 ''alice'', AutoUpdateEmbedding 0 ''alice'' 0.95,
                  AddUtterance 0, IdentifyUnknown]\<rparr>)"
  by (simp add: run_defs body_defs remove_fails_def demo_def matched_alice_def utt_def fmt_03d_0
        str_nat.simps digit_char_def)

lemma query_fails_prelude:
  "prelude (query_fails us) ''/tmp/a.wav'' \<lparr>world = [], trace = []\<rparr>
     = (Inr (''/tmp/a.wav'', 60000, us),
        \<lparr>world = [],
           trace = [ConvertToWav ''/tmp/a.wav'', FromWav ''/tmp/a.wav'',
                    Transcribe ''/tmp/a.wav'']\<rparr>)"
  by (simp add: prelude_def call_def query_fails_def demo_def)

lemma upsert_fails_prelude:
  "prelude (upsert_fails us) ''/tmp/a.wav'' \<lparr>world = [], trace = []\<rparr>
     = (Inr (''/tmp/a.wav'', 60000, us),
        \<lparr>world = [],
           trace = [ConvertToWav ''/tmp/a.wav'', FromWav ''/tmp/a.wav'',
                    Transcribe ''/tmp/a.wav'']\<rparr>)"
  by (simp add: prelude_def call_def upsert_fails_def demo_def)

section \<open>The claims\<close>

text \<open>
  Claim C1. An utterance whose duration \<open>end_ms - start_ms\<close> is strictly less than 700 ms is
  skipped before matching: the run makes no call for it, in particular no call of
  \<^verbatim>\<open>test_voice_segment\<close>, and, the consolidation pass keeping the records it is given, the
  returned utterance list has no entry with its index.
\<close>

theorem short_utterance_skipped:
  assumes pre: "prelude c fp \<lparr>world = w, trace = []\<rparr> = (Inr (wav, audio, us), s0)"
    and i: "i < length us"
    and st: "u_start (us ! i) = Some a" and en: "u_end (us ! i) = Some b"
    and short: "b - a < 700"
    and run: "process_conversation c fp cid dn mt aut w = (out, s')"
  shows "TestVoiceSegment i \<notin> set (trace s') \<and>
         (\<forall>e\<in>set (trace s'). ev_index e \<noteq> Some i) \<and>
         (consolidation_contract c \<longrightarrow>
            (\<forall>res. out = Inr (Some res) \<longrightarrow>
               (\<forall>r\<in>set (r_utterances res). map_of r ''id'' \<noteq> Some (JInt (int i)))))"
proof -
  have ns: "\<not> survives (us ! i)" using st en short by (rule short_not_survives)
  have ev: "\<forall>e\<in>set (trace s'). ev_index e \<noteq> Some i"
    using run_events_survive [OF pre run] ns by blast
  then have tv: "TestVoiceSegment i \<notin> set (trace s')" by force
  have rec: "consolidation_contract c \<longrightarrow>
            (\<forall>res. out = Inr (Some res) \<longrightarrow>
               (\<forall>r\<in>set (r_utterances res). map_of r ''id'' \<noteq> Some (JInt (int i))))"
  proof (intro impI allI ballI notI)
    fix res r
    assume con: "consolidation_contract c" and out: "out = Inr (Some res)"
      and mem: "r \<in> set (r_utterances res)" and id: "map_of r ''id'' = Some (JInt (int i))"
    from run out have run': "process_conversation c fp cid dn mt aut w = (Inr (Some res), s')"
      by simp
    from returned_records [OF pre run' con mem] obtain k dbid where
      k: "survives (us ! k)" "record_of c dbid k (us ! k) r"
      by blast
    from k(2) id have "k = i" by (simp add: record_of_def)
    with k(1) ns show False by simp
  qed
  from tv ev rec show ?thesis by blast
qed

theorem short_utterance_skipped_witness:
  "prelude (demo unmatched_with_embedding [utt 0 650 ''A'' 0.5, utt 650 1550 ''A'' 0.8])
     ''/tmp/a.mp3'' \<lparr>world = [], trace = []\<rparr>
     = (Inr (''/tmp/a.mp3.wav'', 60000, [utt 0 650 ''A'' 0.5, utt 650 1550 ''A'' 0.8]),
        \<lparr>world = [''/tmp/a.mp3.wav''],
           trace = [ConvertToWav ''/tmp/a.mp3'', FromWav ''/tmp/a.mp3.wav'',
                    Transcribe ''/tmp/a.mp3.wav'']\<rparr>) \<and>
   u_start (utt 0 650 ''A'' 0.5) = Some 0 \<and> u_end (utt 0 650 ''A'' 0.5) = Some 650 \<and>
   (650::int) - 0 < 700 \<and>
   consolidation_contract
     (demo unmatched_with_embedding [utt 0 650 ''A'' 0.5, utt 650 1550 ''A'' 0.8]) \<and>
   TestVoiceSegment 0
     \<notin> set (trace (snd (process_conversation
                  (demo unmatched_with_embedding [utt 0 650 ''A'' 0.5, utt 650 1550 ''A'' 0.8])
                  ''/tmp/a.mp3'' (Some ''c1'') None 0.6 0.9 []))) \<and>
   returned_utterances (fst (process_conversation
        (demo unmatched_with_embedding [utt 0 650 ''A'' 0.5, utt 650 1550 ''A'' 0.8])
        ''/tmp/a.mp3'' (Some ''c1'') None 0.6 0.9 []))
     = [[(''id'', JInt 1), (''start_ms'', JInt 650), (''end_ms'', JInt 1550),
         (''start_time'', JStr ''650''), (''end_time'', JStr ''1550''),
         (''text'', JStr ''hello''), (''confidence'', JFloat 0.8),
         (''speaker'', JStr ''Speaker_A''), (''embedding_id'', JNull),
         (''words'', JList []), (''conversation_id'', JStr ''db-1'')]] \<and>
   map_of [(''id'', JInt 1), (''start_ms'', JInt 650), (''end_ms'', JInt 1550),
           (''start_time'', JStr ''650''), (''end_time'', JStr ''1550''),
           (''text'', JStr ''hello''), (''confidence'', JFloat 0.8),
           (''speaker'', JStr ''Speaker_A''), (''embedding_id'', JNull),
           (''words'', JList []), (''conversation_id'', JStr ''db-1'')] ''id''
     \<noteq> Some (JInt (int 0))"
proof -
  let ?us = "[utt 0 650 ''A'' 0.5, utt 650 1550 ''A'' 0.8]"
  let ?c = "demo unmatched_with_embedding ?us"
  let ?r = "[(''id'', JInt 1), (''start_ms'', JInt 650), (''end_ms'', JInt 1550),
             (''start_time'', JStr ''650''), (''end_time'', JStr ''1550''),
             (''text'', JStr ''hello''), (''confidence'', JFloat 0.8),
             (''speaker'', JStr ''Speaker_A''), (''embedding_id'', JNull),
             (''words'', JList []), (''conversation_id'', JStr ''db-1'')]"
  let ?res = "\<lparr>r_conversation_id = ''c1'', r_original_file = ''a.mp3'',
                r_s3_path = ''s3://bucket/c1/utterances/utterance_001.wav'',
                r_utterances = [?r], r_timestamp = ''2024-01-01T12:00:00''\<rparr>"
  note pre = demo_prelude_mp3 [of unmatched_with_embedding ?us]
  note run = demo_run_short_long
  note con = demo_contract [of unmatched_with_embedding ?us]
  have i: "0 < length ?us" by simp
  have st: "u_start (?us ! 0) = Some 0" and en: "u_end (?us ! 0) = Some 650"
    by (simp_all add: utt_def)
  have short: "(650::int) - 0 < 700" by simp
  note inst = short_utterance_skipped [OF pre i st en short run]
  from inst have tv: "TestVoiceSegment 0 \<notin> set (trace (snd (process_conversation ?c
                  ''/tmp/a.mp3'' (Some ''c1'') None 0.6 0.9 [])))"
    unfolding run by simp
  from inst con have "\<forall>r\<in>set (r_utterances ?res). map_of r ''id'' \<noteq> Some (JInt (int 0))"
    by blast
  then have id: "map_of ?r ''id'' \<noteq> Some (JInt (int 0))" by simp
  have ru: "returned_utterances (fst (process_conversation ?c
        ''/tmp/a.mp3'' (Some ''c1'') None 0.6 0.9 [])) = [?r]"
    unfolding run by (simp add: returned_utterances_def)
  from pre st en short con tv ru id show ?thesis by simp
qed

text \<open>
  Claim C2. For an utterance whose iteration reaches the enrollment gate (it passed the
  filters, \<^verbatim>\<open>test_voice_segment\<close> and \<^verbatim>\<open>add_speaker\<close> returned and the text is present),
  the enrollment is attempted if and only if the embedding is present and the utterance's
  confidence is strictly greater than \<^verbatim>\<open>auto_update_threshold\<close>. Attempted means that
  \<^verbatim>\<open>auto_update_embedding\<close> is applied, in the world that \<^verbatim>\<open>add_speaker\<close> left, to the
  embedding, the resolved name, the path of the clip, the confidence and the threshold, and
  that the iteration goes on with the outcome of that call: the exception it raises, or the
  world it returns. Otherwise, and so when the confidence equals the threshold, the
  iteration goes on from the world that \<^verbatim>\<open>add_speaker\<close> left, and it does the same
  whatever \<^verbatim>\<open>auto_update_embedding\<close> is. In the trace the call appears for this utterance
  only, with its resolved name and confidence.
\<close>

theorem enrollment_gate:
  assumes wd: "u_words u = Some words" and st: "u_start u = Some a" and en: "u_end u = Some b"
    and long: "\<not> b - a < 700"
    and tvs: "test_voice_segment c (audio_slice c audio a b) cid i mt (world s)
                = (Inr (sn, cf, eid, emb), w1)"
    and lab: "fallback_label u sn cf = Inr (name, conf)"
    and spk: "add_speaker c name w1 = (Inr sid, w2)"
    and utx: "u_text u = Some tx"
    and run: "process_utterance c cid dbid audio mt aut i u (meta, p) s = (r, s')"
  shows "(emb \<noteq> None \<and> aut < conf \<longrightarrow>
            (\<exists>e ra w3.
               emb = Some e \<and>
               auto_update_embedding c e name (clip_path c cid i) conf aut w2 = (ra, w3) \<and>
               (r, s') =
                 (case ra of
                    Inl ex \<Rightarrow>
                      (Inl ex,
                       \<lparr>world = w3,
                          trace = trace s @ [TestVoiceSegment i, AddSpeaker i name,
                                             AutoUpdateEmbedding i name conf]\<rparr>)
                  | Inr _ \<Rightarrow>
                      after_gate c cid dbid i a b tx conf eid sid name words meta
                        \<lparr>world = w3,
                           trace = trace s @ [TestVoiceSegment i, AddSpeaker i name,
                                              AutoUpdateEmbedding i name conf]\<rparr>))) \<and>
         (emb = None \<or> conf \<le> aut \<longrightarrow>
            (r, s') =
              after_gate c cid dbid i a b tx conf eid sid name words meta
                \<lparr>world = w2, trace = trace s @ [TestVoiceSegment i, AddSpeaker i name]\<rparr> \<and>
            (\<forall>f. process_utterance (c\<lparr>auto_update_embedding := f\<rparr>) cid dbid audio mt aut i u
                    (meta, p) s = (r, s'))) \<and>
         (\<exists>evs. trace s' = trace s @ evs \<and>
            ((AutoUpdateEmbedding i name conf \<in> set evs) = (emb \<noteq> None \<and> aut < conf)) \<and>
            (\<forall>j n x. AutoUpdateEmbedding j n x \<in> set evs \<longrightarrow> j = i \<and> n = name \<and> x = conf) \<and>
            (conf = aut \<longrightarrow> (\<forall>j n x. AutoUpdateEmbedding j n x \<notin> set evs)))"
proof -
  note outcome = enrollment_outcome [OF wd st en long tvs lab spk utx run]
  from enrollment_events [OF wd st en long tvs lab spk utx run] obtain evs where
    ev: "trace s' = trace s @ evs"
      "(AutoUpdateEmbedding i name conf \<in> set evs) = (emb \<noteq> None \<and> aut < conf)"
      "\<forall>j n x. AutoUpdateEmbedding j n x \<in> set evs \<longrightarrow> j = i \<and> n = name \<and> x = conf"
    by blast
  have eq: "conf = aut \<longrightarrow> (\<forall>j n x. AutoUpdateEmbedding j n x \<notin> set evs)"
  proof (intro impI allI notI)
    fix j n x
    assume ca: "conf = aut" and mem: "AutoUpdateEmbedding j n x \<in> set evs"
    from ev(3) mem have "j = i \<and> n = name \<and> x = conf" by (elim allE impE) assumption
    with mem ev(2) have "aut < conf" by simp
    with ca show False by simp
  qed
  have events: "\<exists>evs. trace s' = trace s @ evs \<and>
            ((AutoUpdateEmbedding i name conf \<in> set evs) = (emb \<noteq> None \<and> aut < conf)) \<and>
            (\<forall>j n x. AutoUpdateEmbedding j n x \<in> set evs \<longrightarrow> j = i \<and> n = name \<and> x = conf) \<and>
            (conf = aut \<longrightarrow> (\<forall>j n x. AutoUpdateEmbedding j n x \<notin> set evs))"
    by (intro exI [of _ evs] conjI) (fact ev(1) ev(2) ev(3) eq)+
  from outcome events show ?thesis by (intro conjI)
qed

theorem enrollment_gate_witness:
  "process_utterance (index_demo matched_alice []) ''c1'' (JStr ''db-1'') 60000 0.6 0.9 0
      (utt 0 900 ''A'' 0.8) ([], None) \<lparr>world = [], trace = []\<rparr>
     = (Inr ([utterance_data (index_demo matched_alice []) 0 0 900 ''hello'' 0.95 ''alice''
                (Some ''emb_1'') (JList []) (JStr ''db-1'')],
             Some ''s3://bucket/c1/utterances/utterance_000.wav''),
        \<lparr>world = [(7, ''alice'', ''s3://bucket/c1/utterances/utterance_000.wav'', 0.95, 0.9)],
           trace = [TestVoiceSegment 0, AddSpeaker 0 ''alice'',
                    AutoUpdateEmbedding 0 ''alice'' 0.95, AddUtterance 0]\<rparr>) \<and>
   fallback_label (utt 0 900 ''A'' 0.8) (Some ''alice'') 0.95 = Inr (''alice'', 0.95) \<and>
   (0.9::real) < 0.95 \<and>
   auto_update_embedding (index_demo matched_alice []) 7 ''alice''
       (clip_path (index_demo matched_alice []) ''c1'' 0) 0.95 0.9 []
     = (Inr (), [(7, ''alice'', ''s3://bucket/c1/utterances/utterance_000.wav'', 0.95, 0.9)]) \<and>
   process_utterance (index_demo matched_alice []) ''c1'' (JStr ''db-1'') 60000 0.6 0.95 0
      (utt 0 900 ''A'' 0.8) ([], None) \<lparr>world = [], trace = []\<rparr>
     = (Inr ([utterance_data (index_demo matched_alice []) 0 0 900 ''hello'' 0.95 ''alice''
                (Some ''emb_1'') (JList []) (JStr ''db-1'')],
             Some ''s3://bucket/c1/utterances/utterance_000.wav''),
        \<lparr>world = [],
           trace = [TestVoiceSegment 0, AddSpeaker 0 ''alice'', AddUtterance 0]\<rparr>) \<and>
   process_utterance
      ((index_demo matched_alice [])
         \<lparr>auto_update_embedding :=
            \<lambda>emb name src cf thr w. (Inl (RaisedException ''upsert failed''), w)\<rparr>)
      ''c1'' (JStr ''db-1'') 60000 0.6 0.95 0
      (utt 0 900 ''A'' 0.8) ([], None) \<lparr>world = [], trace = []\<rparr>
     = (Inr ([utterance_data (index_demo matched_alice []) 0 0 900 ''hello'' 0.95 ''alice''
                (Some ''emb_1'') (JList []) (JStr ''db-1'')],
             Some ''s3://bucket/c1/utterances/utterance_000.wav''),
        \<lparr>world = [],
           trace = [TestVoiceSegment 0, AddSpeaker 0 ''alice'', AddUtterance 0]\<rparr>)"
proof -
  let ?c = "index_demo matched_alice []"
  let ?u = "utt 0 900 ''A'' 0.8"
  let ?s = "\<lparr>world = [], trace = []\<rparr>
              :: (nat \<times> string \<times> string \<times> real \<times> real) list pstate"
  let ?rec = "utterance_data ?c 0 0 900 ''hello'' 0.95 ''alice'' (Some ''emb_1'') (JList [])
                (JStr ''db-1'')"
  let ?path = "''s3://bucket/c1/utterances/utterance_000.wav''"
  let ?w3 = "[(7::nat, ''alice'', ?path, 0.95::real, 0.9::real)]"
  let ?so = "\<lparr>world = ?w3,
               trace = [TestVoiceSegment 0, AddSpeaker 0 ''alice'',
                        AutoUpdateEmbedding 0 ''alice'' 0.95, AddUtterance 0]\<rparr>"
  let ?sc = "\<lparr>world = [], trace = [TestVoiceSegment 0, AddSpeaker 0 ''alice'', AddUtterance 0]\<rparr>
               :: (nat \<times> string \<times> string \<times> real \<times> real) list pstate"
  let ?f = "\<lambda>(emb::nat) (name::string) (src::string) (cf::real) (thr::real)
              (w::(nat \<times> string \<times> string \<times> real \<times> real) list).
              (Inl (RaisedException ''upsert failed'') :: py_exn + unit, w)"
  have wd: "u_words ?u = Some (JList [])" and st: "u_start ?u = Some 0"
    and en: "u_end ?u = Some 900" and long: "\<not> (900::int) - 0 < 700"
    and utx: "u_text ?u = Some ''hello''"
    by (simp_all add: utt_def)
  have tvs: "test_voice_segment ?c (audio_slice ?c 60000 0 900) ''c1'' 0 0.6 (world ?s)
               = (Inr (Some ''alice'', 0.95, Some ''emb_1'', Some 7), [])"
    by (simp add: index_demo_def matched_alice_def)
  have lab: "fallback_label ?u (Some ''alice'') 0.95 = Inr (''alice'', 0.95)"
    by (simp add: fallback_label_def truthy_def)
  have spk: "add_speaker ?c ''alice'' [] = (Inr (JStr ''alice''), [])"
    by (simp add: index_demo_def)
  have opened: "process_utterance ?c ''c1'' (JStr ''db-1'') 60000 0.6 0.9 0 ?u ([], None) ?s
      = (Inr ([?rec], Some ?path), ?so)"
    by (simp add: index_defs matched_alice_def utt_def fmt_03d_0)
  have closed: "process_utterance ?c ''c1'' (JStr ''db-1'') 60000 0.6 0.95 0 ?u ([], None) ?s
      = (Inr ([?rec], Some ?path), ?sc)"
    by (simp add: index_defs matched_alice_def utt_def fmt_03d_0)
  from enrollment_gate [OF wd st en long tvs lab spk utx opened]
  obtain e ra w3 where
    "Some (7::nat) = Some e"
    "auto_update_embedding ?c e ''alice'' (clip_path ?c ''c1'' 0) 0.95 0.9 [] = (ra, w3)"
    by auto
  then have call: "auto_update_embedding ?c 7 ''alice'' (clip_path ?c ''c1'' 0) 0.95 0.9 []
      = (Inr (), ?w3)"
    by (simp add: index_demo_def clip_path_def fmt_03d_0)
  from enrollment_gate [OF wd st en long tvs lab spk utx closed]
  have "\<forall>f. process_utterance (?c\<lparr>auto_update_embedding := f\<rparr>) ''c1'' (JStr ''db-1'') 60000
              0.6 0.95 0 ?u ([], None) ?s = (Inr ([?rec], Some ?path), ?sc)"
    by simp
  then have indep: "process_utterance (?c\<lparr>auto_update_embedding := ?f\<rparr>) ''c1'' (JStr ''db-1'')
      60000 0.6 0.95 0 ?u ([], None) ?s = (Inr ([?rec], Some ?path), ?sc)"
    by (rule spec)
  have lt: "(0.9::real) < 0.95" by simp
  from opened lab lt call closed indep show ?thesis by (intro conjI)
qed

text \<open>
  Claim C3, amended. An utterance left unmatched carries the fallback label \<^verbatim>\<open>Speaker_\<close>
  followed by the provider's tag, and the provider's confidence (0.0 when the provider gives
  none). When its iteration reaches the gate, \<^verbatim>\<open>auto_update_embedding\<close> is applied to the
  embedding that \<^verbatim>\<open>test_voice_segment\<close> returned, under the fallback label and with the
  provider's confidence, if and only if there is an embedding and the provider's confidence
  is strictly greater than \<^verbatim>\<open>auto_update_threshold\<close>; the iteration goes on with the
  outcome of that call. Otherwise no enrollment is attempted for the utterance: the
  iteration goes on from the world that \<^verbatim>\<open>add_speaker\<close> left, and it does the same
  whatever \<^verbatim>\<open>auto_update_embedding\<close> is. The counterexample below is a run after which
  the index holds the embedding of an utterance that was not matched.
\<close>

theorem unmatched_enrollment_gate:
  assumes wd: "u_words u = Some words" and st: "u_start u = Some a" and en: "u_end u = Some b"
    and long: "\<not> b - a < 700"
    and tvs: "test_voice_segment c (audio_slice c audio a b) cid i mt (world s)
                = (Inr (sn, cf, eid, emb), w1)"
    and unm: "\<not> truthy sn"
    and tag: "u_speaker u = Some tag"
    and name: "name = ''Speaker_'' @ tag"
    and conf: "conf = (case u_confidence u of None \<Rightarrow> 0.0 | Some x \<Rightarrow> x)"
    and spk: "add_speaker c name w1 = (Inr sid, w2)"
    and utx: "u_text u = Some tx"
    and run: "process_utterance c cid dbid audio mt aut i u (meta, p) s = (r, s')"
  shows "(emb \<noteq> None \<and> aut < conf \<longrightarrow>
            (\<exists>e ra w3.
               emb = Some e \<and>
               auto_update_embedding c e name (clip_path c cid i) conf aut w2 = (ra, w3) \<and>
               (r, s') =
                 (case ra of
                    Inl ex \<Rightarrow>
                      (Inl ex,
                       \<lparr>world = w3,
                          trace = trace s @ [TestVoiceSegment i, AddSpeaker i name,
                                             AutoUpdateEmbedding i name conf]\<rparr>)
                  | Inr _ \<Rightarrow>
                      after_gate c cid dbid i a b tx conf eid sid name words meta
                        \<lparr>world = w3,
                           trace = trace s @ [TestVoiceSegment i, AddSpeaker i name,
                                              AutoUpdateEmbedding i name conf]\<rparr>))) \<and>
         (emb = None \<or> conf \<le> aut \<longrightarrow>
            (r, s') =
              after_gate c cid dbid i a b tx conf eid sid name words meta
                \<lparr>world = w2, trace = trace s @ [TestVoiceSegment i, AddSpeaker i name]\<rparr> \<and>
            (\<forall>f. process_utterance (c\<lparr>auto_update_embedding := f\<rparr>) cid dbid audio mt aut i u
                    (meta, p) s = (r, s'))) \<and>
         (\<exists>evs. trace s' = trace s @ evs \<and>
            ((\<exists>j n x. AutoUpdateEmbedding j n x \<in> set evs) = (emb \<noteq> None \<and> aut < conf)) \<and>
            (\<forall>j n x. AutoUpdateEmbedding j n x \<in> set evs \<longrightarrow> j = i \<and> n = name \<and> x = conf))"
proof -
  have lab: "fallback_label u sn cf = Inr (name, conf)"
    using unm tag name conf by (simp add: fallback_label_def provider_label_def)
  from enrollment_events [OF wd st en long tvs lab spk utx run] obtain evs where
    ev: "trace s' = trace s @ evs"
      "(AutoUpdateEmbedding i name conf \<in> set evs) = (emb \<noteq> None \<and> aut < conf)"
      "\<forall>j n x. AutoUpdateEmbedding j n x \<in> set evs \<longrightarrow> j = i \<and> n = name \<and> x = conf"
    by blast
  have ex: "(\<exists>j n x. AutoUpdateEmbedding j n x \<in> set evs) = (emb \<noteq> None \<and> aut < conf)"
  proof
    assume "\<exists>j n x. AutoUpdateEmbedding j n x \<in> set evs"
    then obtain j n x where mem: "AutoUpdateEmbedding j n x \<in> set evs" by (elim exE)
    from ev(3) mem have "j = i \<and> n = name \<and> x = conf" by (elim allE impE) assumption
    with mem ev(2) show "emb \<noteq> None \<and> aut < conf" by simp
  next
    assume "emb \<noteq> None \<and> aut < conf"
    with ev(2) have "AutoUpdateEmbedding i name conf \<in> set evs" by simp
    then show "\<exists>j n x. AutoUpdateEmbedding j n x \<in> set evs" by (intro exI)
  qed
  have events: "\<exists>evs. trace s' = trace s @ evs \<and>
            ((\<exists>j n x. AutoUpdateEmbedding j n x \<in> set evs) = (emb \<noteq> None \<and> aut < conf)) \<and>
            (\<forall>j n x. AutoUpdateEmbedding j n x \<in> set evs \<longrightarrow> j = i \<and> n = name \<and> x = conf)"
    by (intro exI [of _ evs] conjI) (fact ev(1) ex ev(3))+
  show ?thesis
    by (intro conjI enrollment_outcome [OF wd st en long tvs lab spk utx run] events)
qed

theorem unmatched_enrollment_gate_witness:
  "\<not> truthy (fst (unmatched_with_embedding 0)) \<and>
   u_speaker (utt 0 900 ''A'' 0.95) = Some ''A'' \<and>
   (0.9::real) < (case u_confidence (utt 0 900 ''A'' 0.95) of None \<Rightarrow> 0.0 | Some x \<Rightarrow> x) \<and>
   process_utterance (index_demo unmatched_with_embedding []) ''c1'' (JStr ''db-1'') 60000 0.6
      0.9 0 (utt 0 900 ''A'' 0.95) ([], None) \<lparr>world = [], trace = []\<rparr>
     = (Inr ([utterance_data (index_demo unmatched_with_embedding []) 0 0 900 ''hello'' 0.95
                ''Speaker_A'' None (JList []) (JStr ''db-1'')],
             Some ''s3://bucket/c1/utterances/utterance_000.wav''),
        \<lparr>world = [(7, ''Speaker_A'', ''s3://bucket/c1/utterances/utterance_000.wav'', 0.95, 0.9)],
           trace = [TestVoiceSegment 0, AddSpeaker 0 ''Speaker_A'',
                    AutoUpdateEmbedding 0 ''Speaker_A'' 0.95, AddUtterance 0]\<rparr>) \<and>
   auto_update_embedding (index_demo unmatched_with_embedding []) 7 ''Speaker_A''
       (clip_path (index_demo unmatched_with_embedding []) ''c1'' 0) 0.95 0.9 []
     = (Inr (), [(7, ''Speaker_A'', ''s3://bucket/c1/utterances/utterance_000.wav'', 0.95, 0.9)]) \<and>
   process_utterance (index_demo unmatched_with_embedding []) ''c1'' (JStr ''db-1'') 60000 0.6
      0.9 0 (utt 0 900 ''A'' 0.8) ([], None) \<lparr>world = [], trace = []\<rparr>
     = (Inr ([utterance_data (index_demo unmatched_with_embedding []) 0 0 900 ''hello'' 0.8
                ''Speaker_A'' None (JList []) (JStr ''db-1'')],
             Some ''s3://bucket/c1/utterances/utterance_000.wav''),
        \<lparr>world = [],
           trace = [TestVoiceSegment 0, AddSpeaker 0 ''Speaker_A'', AddUtterance 0]\<rparr>) \<and>
   process_utterance
      ((index_demo unmatched_with_embedding [])
         \<lparr>auto_update_embedding :=
            \<lambda>emb name src cf thr w. (Inl (RaisedException ''upsert failed''), w)\<rparr>)
      ''c1'' (JStr ''db-1'') 60000 0.6 0.9 0
      (utt 0 900 ''A'' 0.8) ([], None) \<lparr>world = [], trace = []\<rparr>
     = (Inr ([utterance_data (index_demo unmatched_with_embedding []) 0 0 900 ''hello'' 0.8
                ''Speaker_A'' None (JList []) (JStr ''db-1'')],
             Some ''s3://bucket/c1/utterances/utterance_000.wav''),
        \<lparr>world = [],
           trace = [TestVoiceSegment 0, AddSpeaker 0 ''Speaker_A'', AddUtterance 0]\<rparr>)"
proof -
  let ?c = "index_demo unmatched_with_embedding []"
  let ?u = "utt 0 900 ''A'' 0.95"
  let ?v = "utt 0 900 ''A'' 0.8"
  let ?s = "\<lparr>world = [], trace = []\<rparr>
              :: (nat \<times> string \<times> string \<times> real \<times> real) list pstate"
  let ?path = "''s3://bucket/c1/utterances/utterance_000.wav''"
  let ?recu = "utterance_data ?c 0 0 900 ''hello'' 0.95 ''Speaker_A'' None (JList [])
                 (JStr ''db-1'')"
  let ?recv = "utterance_data ?c 0 0 900 ''hello'' 0.8 ''Speaker_A'' None (JList [])
                 (JStr ''db-1'')"
  let ?w3 = "[(7::nat, ''Speaker_A'', ?path, 0.95::real, 0.9::real)]"
  let ?so = "\<lparr>world = ?w3,
               trace = [TestVoiceSegment 0, AddSpeaker 0 ''Speaker_A'',
                        AutoUpdateEmbedding 0 ''Speaker_A'' 0.95, AddUtterance 0]\<rparr>"
  let ?sc = "\<lparr>world = [],
               trace = [TestVoiceSegment 0, AddSpeaker 0 ''Speaker_A'', AddUtterance 0]\<rparr>
               :: (nat \<times> string \<times> string \<times> real \<times> real) list pstate"
  let ?f = "\<lambda>(emb::nat) (name::string) (src::string) (cf::real) (thr::real)
              (w::(nat \<times> string \<times> string \<times> real \<times> real) list).
              (Inl (RaisedException ''upsert failed'') :: py_exn + unit, w)"
  have wd: "u_words ?u = Some (JList [])" and st: "u_start ?u = Some 0"
    and en: "u_end ?u = Some 900" and long: "\<not> (900::int) - 0 < 700"
    and utx: "u_text ?u = Some ''hello''" and tag: "u_speaker ?u = Some ''A''"
    and cfu: "(0.95::real) = (case u_confidence ?u of None \<Rightarrow> 0.0 | Some x \<Rightarrow> x)"
    by (simp_all add: utt_def)
  have wd': "u_words ?v = Some (JList [])" and st': "u_start ?v = Some 0"
    and en': "u_end ?v = Some 900"
    and utx': "u_text ?v = Some ''hello''" and tag': "u_speaker ?v = Some ''A''"
    and cfv: "(0.8::real) = (case u_confidence ?v of None \<Rightarrow> 0.0 | Some x \<Rightarrow> x)"
    by (simp_all add: utt_def)
  have name: "''Speaker_A'' = ''Speaker_'' @ ''A''" by simp
  have tvs: "test_voice_segment ?c (audio_slice ?c 60000 0 900) ''c1'' 0 0.6 (world ?s)
               = (Inr (None, 0.3, None, Some 7), [])"
    by (simp add: index_demo_def unmatched_with_embedding_def)
  have unm: "\<not> truthy None" by (simp add: truthy_def)
  have spk: "add_speaker ?c ''Speaker_A'' [] = (Inr (JStr ''Speaker_A''), [])"
    by (simp add: index_demo_def)
  have opened: "process_utterance ?c ''c1'' (JStr ''db-1'') 60000 0.6 0.9 0 ?u ([], None) ?s
      = (Inr ([?recu], Some ?path), ?so)"
    by (simp add: index_defs unmatched_with_embedding_def utt_def fmt_03d_0)
  have closed: "process_utterance ?c ''c1'' (JStr ''db-1'') 60000 0.6 0.9 0 ?v ([], None) ?s
      = (Inr ([?recv], Some ?path), ?sc)"
    by (simp add: index_defs unmatched_with_embedding_def utt_def fmt_03d_0)
  from unmatched_enrollment_gate [OF wd st en long tvs unm tag name cfu spk utx opened]
  obtain e ra w3 where
    "Some (7::nat) = Some e"
    "auto_update_embedding ?c e ''Speaker_A'' (clip_path ?c ''c1'' 0) 0.95 0.9 [] = (ra, w3)"
    by auto
  then have call: "auto_update_embedding ?c 7 ''Speaker_A'' (clip_path ?c ''c1'' 0) 0.95 0.9 []
      = (Inr (), ?w3)"
    by (simp add: index_demo_def clip_path_def fmt_03d_0)
  from unmatched_enrollment_gate [OF wd' st' en' long tvs unm tag' name cfv spk utx' closed]
  have "\<forall>f. process_utterance (?c\<lparr>auto_update_embedding := f\<rparr>) ''c1'' (JStr ''db-1'') 60000
              0.6 0.9 0 ?v ([], None) ?s = (Inr ([?recv], Some ?path), ?sc)"
    by simp
  then have indep: "process_utterance (?c\<lparr>auto_update_embedding := ?f\<rparr>) ''c1'' (JStr ''db-1'')
      60000 0.6 0.9 0 ?v ([], None) ?s = (Inr ([?recv], Some ?path), ?sc)"
    by (rule spec)
  have un: "\<not> truthy (fst (unmatched_with_embedding 0))"
    by (simp add: unmatched_with_embedding_def truthy_def)
  have lt: "(0.9::real) < (case u_confidence ?u of None \<Rightarrow> 0.0 | Some x \<Rightarrow> x)"
    by (simp add: utt_def)
  from un tag lt opened call closed indep show ?thesis by (intro conjI)
qed

theorem unmatched_enrolled_counterexample:
  "\<not> truthy (fst (unmatched_with_embedding 0)) \<and>
   process_conversation (index_demo unmatched_with_embedding [utt 0 900 ''A'' 0.95])
       ''/tmp/a.wav'' (Some ''c1'') None 0.6 0.9 []
     = (Inr (Some \<lparr>r_conversation_id = ''c1'', r_original_file = ''a.wav'',
                    r_s3_path = ''s3://bucket/c1/utterances/utterance_000.wav'',
                    r_utterances =
                      [[(''id'', JInt 0), (''start_ms'', JInt 0), (''end_ms'', JInt 900),
                        (''start_time'', JStr ''0''), (''end_time'', JStr ''900''),
                        (''text'', JStr ''hello''), (''confidence'', JFloat 0.95),
                        (''speaker'', JStr ''Speaker_A''), (''embedding_id'', JNull),
                        (''words'', JList []), (''conversation_id'', JStr ''db-1'')]],
                    r_timestamp = ''2024-01-01T12:00:00''\<rparr>),
        \<lparr>world = [(7, ''Speaker_A'', ''s3://bucket/c1/utterances/utterance_000.wav'', 0.95, 0.9)],
           trace = [ConvertToWav ''/tmp/a.wav'', FromWav ''/tmp/a.wav'',
                    Transcribe ''/tmp/a.wav'', AddConversation, TestVoiceSegment 0,
                    AddSpeaker 0 ''Speaker_A'', AutoUpdateEmbedding 0 ''Speaker_A'' 0.95,
                    AddUtterance 0, IdentifyUnknown]\<rparr>)"
  by (simp add: run_defs index_defs unmatched_with_embedding_def utt_def fmt_03d_0
        str_nat.simps digit_char_def)

text \<open>
  Claim C4. When matching yields no speaker for a processed utterance (the name returned
  by \<^verbatim>\<open>test_voice_segment\<close> is \<open>None\<close> or empty), the iteration stores the speaker under
  the name \<^verbatim>\<open>Speaker_\<close> followed by the provider's tag, and the record it appends carries
  that name and the provider's confidence, or 0.0 when the provider supplies none.
\<close>

theorem unmatched_gets_provider_label:
  assumes wd: "u_words u = Some words" and st: "u_start u = Some a" and en: "u_end u = Some b"
    and long: "\<not> b - a < 700"
    and tvs: "test_voice_segment c (audio_slice c audio a b) cid i mt (world s)
                = (Inr (sn, cf, eid, emb), w1)"
    and unm: "\<not> truthy sn"
    and run: "process_utterance c cid dbid audio mt aut i u (meta, p) s = (Inr (meta', p'), s')"
  shows "\<exists>tag. u_speaker u = Some tag \<and>
           AddSpeaker i (''Speaker_'' @ tag) \<in> set (trace s') \<and>
           (\<exists>r. meta' = meta @ [r] \<and>
              map_of r ''speaker'' = Some (JStr (''Speaker_'' @ tag)) \<and>
              map_of r ''confidence''
                = Some (JFloat (case u_confidence u of None \<Rightarrow> 0.0 | Some x \<Rightarrow> x)))"
proof -
  from wd st en long run have
    ps: "process_segment c cid dbid audio mt aut i u a b words meta s = (Inr (meta', p'), s')"
    by (simp add: process_utterance_def)
  let ?s1 = "\<lparr>world = w1, trace = trace s @ [TestVoiceSegment i]\<rparr>"
  have fl: "fallback_label u sn cf = provider_label u"
    using unm by (simp add: fallback_label_def)
  obtain tag where tag: "u_speaker u = Some tag"
    using ps tvs fl
    by (cases "u_speaker u") (auto simp: process_segment_def call_def provider_label_def)
  let ?name = "''Speaker_'' @ tag"
  let ?conf = "case u_confidence u of None \<Rightarrow> 0.0 | Some x \<Rightarrow> x"
  have lab: "fallback_label u sn cf = Inr (?name, ?conf)"
    using fl tag by (simp add: provider_label_def)
  obtain r2 w2 where as: "add_speaker c ?name w1 = (r2, w2)"
    by (cases "add_speaker c ?name w1")
  obtain sid where sid: "r2 = Inr sid"
    using ps tvs lab as by (cases r2) (auto simp: process_segment_def call_def)
  have spk: "fst (add_speaker c ?name w1) = Inr sid"
    using as sid by simp
  obtain tx where tx: "u_text u = Some tx"
    using ps tvs lab as sid
    by (cases "u_text u") (auto simp: process_segment_def call_def record_utterance_def)
  from process_segment_reached [OF tvs lab spk tx ps] obtain evs1 evs2 where
    tr: "trace s' = trace s @ [TestVoiceSegment i, AddSpeaker i ?name] @ evs1 @ evs2"
    and v: "(meta', p') = (meta @ [utterance_data c i a b tx ?conf ?name eid words dbid],
                   Some (clip_path c cid i))"
    by blast
  from v have m: "meta' = meta @ [utterance_data c i a b tx ?conf ?name eid words dbid]"
    by simp
  have "AddSpeaker i ?name \<in> set (trace s')" using tr by simp
  with tag m utterance_data_identity [of c i a b tx ?conf ?name eid words dbid]
  show ?thesis by blast
qed

theorem unmatched_gets_provider_label_witness:
  "\<exists>tag. u_speaker (utt 0 900 ''A'' 0.8) = Some tag \<and>
     AddSpeaker 0 (''Speaker_'' @ tag)
       \<in> set [TestVoiceSegment 0, AddSpeaker 0 ''Speaker_A'', AddUtterance 0] \<and>
     (\<exists>r. [utterance_data (demo unmatched_with_embedding []) 0 0 900 ''hello'' 0.8
              ''Speaker_A'' None (JList []) (JStr ''db-1'')] = [] @ [r] \<and>
        map_of r ''speaker'' = Some (JStr (''Speaker_'' @ tag)) \<and>
        map_of r ''confidence''
          = Some (JFloat (case u_confidence (utt 0 900 ''A'' 0.8) of None \<Rightarrow> 0.0 | Some x \<Rightarrow> x)))"
proof -
  let ?c = "demo unmatched_with_embedding []"
  let ?u = "utt 0 900 ''A'' 0.8"
  let ?s = "\<lparr>world = [], trace = []\<rparr> :: string list pstate"
  let ?s' = "\<lparr>world = [], trace = [TestVoiceSegment 0, AddSpeaker 0 ''Speaker_A'', AddUtterance 0]\<rparr>
               :: string list pstate"
  have wd: "u_words ?u = Some (JList [])" and st: "u_start ?u = Some 0"
    and en: "u_end ?u = Some 900" and long: "\<not> (900::int) - 0 < 700"
    by (simp_all add: utt_def)
  have tvs: "test_voice_segment ?c (audio_slice ?c 60000 0 900) ''c1'' 0 0.6 (world ?s)
               = (Inr (None, 0.3, None, Some 7), [])"
    by (simp add: demo_def unmatched_with_embedding_def)
  have unm: "\<not> truthy None" by (simp add: truthy_def)
  have run: "process_utterance ?c ''c1'' (JStr ''db-1'') 60000 0.6 0.9 0 ?u ([], None) ?s
      = (Inr ([utterance_data ?c 0 0 900 ''hello'' 0.8 ''Speaker_A'' None (JList [])
                 (JStr ''db-1'')],
              Some ''s3://bucket/c1/utterances/utterance_000.wav''), ?s')"
    by (simp add: body_defs demo_def unmatched_with_embedding_def utt_def fmt_03d_0)
  from unmatched_gets_provider_label [OF wd st en long tvs unm run]
  show ?thesis by simp
qed



text \<open>
  Claim C6, amended. No exception derived from \<^verbatim>\<open>Exception\<close> that is raised inside the
  \<^verbatim>\<open>try\<close> statement leaves the function: it is caught, and the function returns \<open>None\<close>
  once the cleanup has run without raising. An exception leaves the function only if
  \<^verbatim>\<open>os.remove\<close> raises it in the cleanup, or if it is not derived from \<^verbatim>\<open>Exception\<close>. A run
  whose \<^verbatim>\<open>try\<close> statement raises nothing returns the result object, the cleanup again
  not raising.

  On the degraded path that is reported by a return value the iteration completes: when
  \<^verbatim>\<open>test_voice_segment\<close> returns no embedding, the iteration attempts no enrollment, raises
  nothing of its own and, once \<^verbatim>\<open>add_utterance\<close> has stored the row, appends the record of
  the utterance. That record, and every record of a returned list (the consolidation pass
  keeping the records it is given), has the same eleven keys, so that no path changes the
  shape of the result list.

  A failure that is raised aborts the whole conversation. An exception that
  \<^verbatim>\<open>test_voice_segment\<close> raises on its query, or \<^verbatim>\<open>auto_update_embedding\<close> on its write, is
  the exception of the iteration; the exception of an iteration ends the loop and is the
  exception of the \<^verbatim>\<open>try\<close> statement, whatever utterances follow. A malformed utterance
  (word-level data present, but the start, the end or the text missing) makes the \<^verbatim>\<open>try\<close>
  statement raise as well, and no result object is returned. The counterexample below holds
  one run for each of the three.
\<close>

theorem degraded_paths:
  assumes pre: "prelude c fp \<lparr>world = w, trace = []\<rparr> = (Inr (wav, audio, us), s0)"
    and convo: "convo = default_conversation_id c cid w"
    and tb: "try_body c fp convo dn mt aut audio us s0 = (rt, s1)"
    and cl: "cleanup c wav fp s1 = (rc, s2)"
  shows "(\<forall>e. rt = Inl e \<and> is_Exception e \<and> rc = Inr () \<longrightarrow>
            process_conversation c fp cid dn mt aut w = (Inr None, s2)) \<and>
         (\<forall>res. rt = Inr res \<and> rc = Inr () \<longrightarrow>
            process_conversation c fp cid dn mt aut w = (Inr (Some res), s2)) \<and>
         (\<forall>ex. fst (process_conversation c fp cid dn mt aut w) = Inl ex \<longrightarrow>
            rc = Inl ex \<or> (rt = Inl ex \<and> \<not> is_Exception ex)) \<and>
         ((\<exists>u\<in>set us. malformed u) \<longrightarrow>
            (\<exists>e. rt = Inl e) \<and>
            (\<forall>res. fst (process_conversation c fp cid dn mt aut w) \<noteq> Inr (Some res))) \<and>
         (consolidation_contract c \<longrightarrow>
            (\<forall>res. fst (process_conversation c fp cid dn mt aut w) = Inr (Some res) \<longrightarrow>
               (\<forall>r\<in>set (r_utterances res). map fst r = record_keys))) \<and>
         (us = xs @ u # ys \<and>
          add_conversation c (conversation_info c convo fp audio dn) (world s0) = (Inr dbid, wa) \<and>
          process_utterances c convo dbid audio mt aut 0 xs ([], None)
              \<lparr>world = wa, trace = trace s0 @ [AddConversation]\<rparr> = (Inr (meta, p), s) \<and>
          i = length xs \<and>
          process_utterance c convo dbid audio mt aut i u (meta, p) s = (Inl ex, sx) \<longrightarrow>
            rt = Inl ex \<and> s1 = sx) \<and>
         (u_words u = Some words \<and> u_start u = Some a \<and> u_end u = Some b \<and>
          \<not> b - a < 700 \<longrightarrow>
            (test_voice_segment c (audio_slice c audio a b) convo i mt (world s) = (Inl ex, w1) \<longrightarrow>
               process_utterance c convo dbid audio mt aut i u (meta, p) s
                 = (Inl ex, \<lparr>world = w1, trace = trace s @ [TestVoiceSegment i]\<rparr>)) \<and>
            (test_voice_segment c (audio_slice c audio a b) convo i mt (world s)
               = (Inr (sn, cf, eid, emb), w1) \<and>
             fallback_label u sn cf = Inr (name, conf) \<and>
             add_speaker c name w1 = (Inr sid, w2) \<and>
             u_text u = Some tx \<longrightarrow>
               (emb = Some e \<and> aut < conf \<and>
                auto_update_embedding c e name (clip_path c convo i) conf aut w2 = (Inl ex, w3) \<longrightarrow>
                  process_utterance c convo dbid audio mt aut i u (meta, p) s
                    = (Inl ex,
                       \<lparr>world = w3,
                          trace = trace s @ [TestVoiceSegment i, AddSpeaker i name,
                                             AutoUpdateEmbedding i name conf]\<rparr>)) \<and>
               (emb = None \<longrightarrow>
                  process_utterance c convo dbid audio mt aut i u (meta, p) s
                    = after_gate c convo dbid i a b tx conf eid sid name words meta
                        \<lparr>world = w2, trace = trace s @ [TestVoiceSegment i, AddSpeaker i name]\<rparr> \<and>
                  trace (snd (process_utterance c convo dbid audio mt aut i u (meta, p) s))
                    = trace s @ [TestVoiceSegment i, AddSpeaker i name, AddUtterance i] \<and>
                  (\<forall>path s3.
                     store_utterance c convo dbid i a b tx conf eid sid name words
                         \<lparr>world = w2, trace = trace s @ [TestVoiceSegment i, AddSpeaker i name]\<rparr>
                       = (Inr path, s3) \<longrightarrow>
                     process_utterance c convo dbid audio mt aut i u (meta, p) s
                       = (Inr (meta @ [utterance_data c i a b tx conf name eid words dbid],
                               Some path), s3)) \<and>
                  map fst (utterance_data c i a b tx conf name eid words dbid) = record_keys)))"
proof -
  from tb convo have tb': "try_body c fp (default_conversation_id c cid w) dn mt aut audio us s0
      = (rt, s1)"
    by simp
  note out = process_conversation_outcome [OF pre tb' cl]
  have caught: "\<forall>e. rt = Inl e \<and> is_Exception e \<and> rc = Inr () \<longrightarrow>
            process_conversation c fp cid dn mt aut w = (Inr None, s2)"
    by (simp add: out)
  have result: "\<forall>res. rt = Inr res \<and> rc = Inr () \<longrightarrow>
            process_conversation c fp cid dn mt aut w = (Inr (Some res), s2)"
    by (simp add: out)
  have escapes: "\<forall>ex. fst (process_conversation c fp cid dn mt aut w) = Inl ex \<longrightarrow>
            rc = Inl ex \<or> (rt = Inl ex \<and> \<not> is_Exception ex)"
    by (auto simp: out split: sum.splits if_splits)
  have aborts: "(\<exists>u\<in>set us. malformed u) \<longrightarrow>
            (\<exists>e. rt = Inl e) \<and>
            (\<forall>res. fst (process_conversation c fp cid dn mt aut w) \<noteq> Inr (Some res))"
  proof (intro impI conjI allI)
    assume m: "\<exists>u\<in>set us. malformed u"
    have no: "\<forall>res. fst (try_body c fp (default_conversation_id c cid w) dn mt aut audio us s0)
                \<noteq> Inr res"
      by (intro allI try_body_malformed [OF m])
    with tb' show "\<exists>e. rt = Inl e" by (cases rt) auto
    fix res
    show "fst (process_conversation c fp cid dn mt aut w) \<noteq> Inr (Some res)"
      using pre no by (rule process_conversation_not_Some)
  qed
  have shape: "consolidation_contract c \<longrightarrow>
            (\<forall>res. fst (process_conversation c fp cid dn mt aut w) = Inr (Some res) \<longrightarrow>
               (\<forall>r\<in>set (r_utterances res). map fst r = record_keys))"
  proof (intro impI allI ballI)
    fix res r
    assume con: "consolidation_contract c"
      and o: "fst (process_conversation c fp cid dn mt aut w) = Inr (Some res)"
      and mem: "r \<in> set (r_utterances res)"
    from o obtain s' where run: "process_conversation c fp cid dn mt aut w = (Inr (Some res), s')"
      by (cases "process_conversation c fp cid dn mt aut w") simp
    from returned_records [OF pre run con mem] show "map fst r = record_keys"
      by (auto simp: record_of_def)
  qed
  have chain: "us = xs @ u # ys \<and>
          add_conversation c (conversation_info c convo fp audio dn) (world s0) = (Inr dbid, wa) \<and>
          process_utterances c convo dbid audio mt aut 0 xs ([], None)
              \<lparr>world = wa, trace = trace s0 @ [AddConversation]\<rparr> = (Inr (meta, p), s) \<and>
          i = length xs \<and>
          process_utterance c convo dbid audio mt aut i u (meta, p) s = (Inl ex, sx) \<longrightarrow>
            rt = Inl ex \<and> s1 = sx"
  proof (intro impI, elim conjE)
    assume us: "us = xs @ u # ys"
      and ac: "add_conversation c (conversation_info c convo fp audio dn) (world s0)
                 = (Inr dbid, wa)"
      and lp: "process_utterances c convo dbid audio mt aut 0 xs ([], None)
                 \<lparr>world = wa, trace = trace s0 @ [AddConversation]\<rparr> = (Inr (meta, p), s)"
      and i: "i = length xs"
      and it: "process_utterance c convo dbid audio mt aut i u (meta, p) s = (Inl ex, sx)"
    from it i have it': "process_utterance c convo dbid audio mt aut (0 + length xs) u (meta, p) s
        = (Inl ex, sx)"
      by simp
    from process_utterances_raise [OF lp it', of ys] us
    have "process_utterances c convo dbid audio mt aut 0 us ([], None)
            \<lparr>world = wa, trace = trace s0 @ [AddConversation]\<rparr> = (Inl ex, sx)"
      by simp
    from try_body_raise [OF ac this] tb show "rt = Inl ex \<and> s1 = sx" by simp
  qed
  have iteration: "u_words u = Some words \<and> u_start u = Some a \<and> u_end u = Some b \<and>
          \<not> b - a < 700 \<longrightarrow>
            (test_voice_segment c (audio_slice c audio a b) convo i mt (world s) = (Inl ex, w1) \<longrightarrow>
               process_utterance c convo dbid audio mt aut i u (meta, p) s
                 = (Inl ex, \<lparr>world = w1, trace = trace s @ [TestVoiceSegment i]\<rparr>)) \<and>
            (test_voice_segment c (audio_slice c audio a b) convo i mt (world s)
               = (Inr (sn, cf, eid, emb), w1) \<and>
             fallback_label u sn cf = Inr (name, conf) \<and>
             add_speaker c name w1 = (Inr sid, w2) \<and>
             u_text u = Some tx \<longrightarrow>
               (emb = Some e \<and> aut < conf \<and>
                auto_update_embedding c e name (clip_path c convo i) conf aut w2 = (Inl ex, w3) \<longrightarrow>
                  process_utterance c convo dbid audio mt aut i u (meta, p) s
                    = (Inl ex,
                       \<lparr>world = w3,
                          trace = trace s @ [TestVoiceSegment i, AddSpeaker i name,
                                             AutoUpdateEmbedding i name conf]\<rparr>)) \<and>
               (emb = None \<longrightarrow>
                  process_utterance c convo dbid audio mt aut i u (meta, p) s
                    = after_gate c convo dbid i a b tx conf eid sid name words meta
                        \<lparr>world = w2, trace = trace s @ [TestVoiceSegment i, AddSpeaker i name]\<rparr> \<and>
                  trace (snd (process_utterance c convo dbid audio mt aut i u (meta, p) s))
                    = trace s @ [TestVoiceSegment i, AddSpeaker i name, AddUtterance i] \<and>
                  (\<forall>path s3.
                     store_utterance c convo dbid i a b tx conf eid sid name words
                         \<lparr>world = w2, trace = trace s @ [TestVoiceSegment i, AddSpeaker i name]\<rparr>
                       = (Inr path, s3) \<longrightarrow>
                     process_utterance c convo dbid audio mt aut i u (meta, p) s
                       = (Inr (meta @ [utterance_data c i a b tx conf name eid words dbid],
                               Some path), s3)) \<and>
                  map fst (utterance_data c i a b tx conf name eid words dbid) = record_keys))"
  proof (intro impI, elim conjE, intro conjI impI)
    assume wd: "u_words u = Some words" and st: "u_start u = Some a" and en: "u_end u = Some b"
      and long: "\<not> b - a < 700"
    {
      assume "test_voice_segment c (audio_slice c audio a b) convo i mt (world s) = (Inl ex, w1)"
      with wd st en long
      show "process_utterance c convo dbid audio mt aut i u (meta, p) s
              = (Inl ex, \<lparr>world = w1, trace = trace s @ [TestVoiceSegment i]\<rparr>)"
        by (rule query_failure_iteration)
    }
    assume reach: "test_voice_segment c (audio_slice c audio a b) convo i mt (world s)
               = (Inr (sn, cf, eid, emb), w1) \<and>
             fallback_label u sn cf = Inr (name, conf) \<and>
             add_speaker c name w1 = (Inr sid, w2) \<and>
             u_text u = Some tx"
    then have tvs: "test_voice_segment c (audio_slice c audio a b) convo i mt (world s)
               = (Inr (sn, cf, eid, emb), w1)"
      and lab: "fallback_label u sn cf = Inr (name, conf)"
      and spk: "add_speaker c name w1 = (Inr sid, w2)"
      and utx: "u_text u = Some tx"
      by simp_all
    {
      assume "emb = Some e \<and> aut < conf \<and>
                auto_update_embedding c e name (clip_path c convo i) conf aut w2 = (Inl ex, w3)"
      then have e: "emb = Some e" and lt: "aut < conf"
        and au: "auto_update_embedding c e name (clip_path c convo i) conf aut w2 = (Inl ex, w3)"
        by simp_all
      from tvs e have tvs': "test_voice_segment c (audio_slice c audio a b) convo i mt (world s)
               = (Inr (sn, cf, eid, Some e), w1)"
        by simp
      show "process_utterance c convo dbid audio mt aut i u (meta, p) s
                    = (Inl ex,
                       \<lparr>world = w3,
                          trace = trace s @ [TestVoiceSegment i, AddSpeaker i name,
                                             AutoUpdateEmbedding i name conf]\<rparr>)"
        by (rule upsert_failure_iteration [OF wd st en long tvs' lab spk utx lt au])
    }
    assume none: "emb = None"
    from tvs none have tvs': "test_voice_segment c (audio_slice c audio a b) convo i mt (world s)
               = (Inr (sn, cf, eid, None), w1)"
      by simp
    note it = no_embedding_iteration [OF wd st en long tvs' lab spk utx, of dbid aut meta p]
    show "process_utterance c convo dbid audio mt aut i u (meta, p) s
                    = after_gate c convo dbid i a b tx conf eid sid name words meta
                        \<lparr>world = w2, trace = trace s @ [TestVoiceSegment i, AddSpeaker i name]\<rparr>"
      by (rule it(1))
    show "trace (snd (process_utterance c convo dbid audio mt aut i u (meta, p) s))
                    = trace s @ [TestVoiceSegment i, AddSpeaker i name, AddUtterance i]"
      by (rule it(2))
    show "\<forall>path s3.
                     store_utterance c convo dbid i a b tx conf eid sid name words
                         \<lparr>world = w2, trace = trace s @ [TestVoiceSegment i, AddSpeaker i name]\<rparr>
                       = (Inr path, s3) \<longrightarrow>
                     process_utterance c convo dbid audio mt aut i u (meta, p) s
                       = (Inr (meta @ [utterance_data c i a b tx conf name eid words dbid],
                               Some path), s3)"
      by (rule it(3))
    show "map fst (utterance_data c i a b tx conf name eid words dbid) = record_keys"
      by (rule utterance_data_keys)
  qed
  from caught result escapes aborts shape chain iteration show ?thesis by (intro conjI)
qed

theorem degraded_paths_witness:
  "malformed no_start \<and>
   is_Exception (KeyError ''start'') \<and>
   process_conversation (demo matched_alice [no_start, utt 900 1800 ''B'' 0.8])
       ''/tmp/a.wav'' (Some ''c1'') None 0.6 0.9 []
     = (Inr None,
        \<lparr>world = [],
           trace = [ConvertToWav ''/tmp/a.wav'', FromWav ''/tmp/a.wav'',
                    Transcribe ''/tmp/a.wav'', AddConversation]\<rparr>) \<and>
   no_embedding 0 = (None, 0.0, None, None) \<and>
   process_utterance (demo no_embedding [utt 0 900 ''A'' 0.8]) ''c1'' (JStr ''db-1'') 60000 0.6
       0.5 0 (utt 0 900 ''A'' 0.8) ([], None) \<lparr>world = [], trace = []\<rparr>
     = (Inr ([utterance_data (demo no_embedding [utt 0 900 ''A'' 0.8]) 0 0 900 ''hello'' 0.8
                ''Speaker_A'' None (JList []) (JStr ''db-1'')],
             Some ''s3://bucket/c1/utterances/utterance_000.wav''),
        \<lparr>world = [],
           trace = [TestVoiceSegment 0, AddSpeaker 0 ''Speaker_A'', AddUtterance 0]\<rparr>) \<and>
   map fst (utterance_data (demo no_embedding [utt 0 900 ''A'' 0.8]) 0 0 900 ''hello'' 0.8
              ''Speaker_A'' None (JList []) (JStr ''db-1''))
     = record_keys \<and>
   consolidation_contract (demo no_embedding [utt 0 900 ''A'' 0.8]) \<and>
   map (map fst)
     (returned_utterances (fst (process_conversation (demo no_embedding [utt 0 900 ''A'' 0.8])
        ''/tmp/a.wav'' (Some ''c1'') None 0.6 0.5 [])))
     = [record_keys] \<and>
   process_conversation (demo no_embedding [utt 0 900 ''A'' 0.8])
       ''/tmp/a.wav'' (Some ''c1'') None 0.6 0.5 []
     = (Inr (Some \<lparr>r_conversation_id = ''c1'', r_original_file = ''a.wav'',
                    r_s3_path = ''s3://bucket/c1/utterances/utterance_000.wav'',
                    r_utterances =
                      [[(''id'', JInt 0), (''start_ms'', JInt 0), (''end_ms'', JInt 900),
                        (''start_time'', JStr ''0''), (''end_time'', JStr ''900''),
                        (''text'', JStr ''hello''), (''confidence'', JFloat 0.8),
                        (''speaker'', JStr ''Speaker_A''), (''embedding_id'', JNull),
                        (''words'', JList []), (''conversation_id'', JStr ''db-1'')]],
                    r_timestamp = ''2024-01-01T12:00:00''\<rparr>),
        \<lparr>world = [],
           trace = [ConvertToWav ''/tmp/a.wav'', FromWav ''/tmp/a.wav'',
                    Transcribe ''/tmp/a.wav'', AddConversation, TestVoiceSegment 0,
                    AddSpeaker 0 ''Speaker_A'', AddUtterance 0, IdentifyUnknown]\<rparr>) \<and>
   cleanup (remove_fails [utt 0 900 ''A'' 0.8]) ''/tmp/a.mp3.wav'' ''/tmp/a.mp3''
       \<lparr>world = [''/tmp/a.mp3.wav''],
          trace = [ConvertToWav ''/tmp/a.mp3'', FromWav ''/tmp/a.mp3.wav'',
                   Transcribe ''/tmp/a.mp3.wav'', AddConversation, TestVoiceSegment 0,
                   AddSpeaker 0 ''alice'', AutoUpdateEmbedding 0 ''alice'' 0.95,
                   AddUtterance 0, IdentifyUnknown]\<rparr>
     = (Inl (RaisedException ''permission denied''),
        \<lparr>world = [''/tmp/a.mp3.wav''],
           trace = [ConvertToWav ''/tmp/a.mp3'', FromWav ''/tmp/a.mp3.wav'',
                    Transcribe ''/tmp/a.mp3.wav'', AddConversation, TestVoiceSegment 0,
                    AddSpeaker 0 ''alice'', AutoUpdateEmbedding 0 ''alice'' 0.95,
                    AddUtterance 0, IdentifyUnknown, OsRemove ''/tmp/a.mp3.wav'']\<rparr>) \<and>
   fst (process_conversation (remove_fails [utt 0 900 ''A'' 0.8]) ''/tmp/a.mp3'' (Some ''c1'')
          None 0.6 0.9 [])
     = Inl (RaisedException ''permission denied'') \<and>
   test_voice_segment (query_fails [utt 0 900 ''A'' 0.8]) 900 ''c1'' 0 0.6 []
     = (Inl (RaisedException ''index query failed''), []) \<and>
   process_conversation (query_fails [utt 0 900 ''A'' 0.8]) ''/tmp/a.wav'' (Some ''c1'') None
       0.6 0.9 []
     = (Inr None,
        \<lparr>world = [],
           trace = [ConvertToWav ''/tmp/a.wav'', FromWav ''/tmp/a.wav'',
                    Transcribe ''/tmp/a.wav'', AddConversation, TestVoiceSegment 0]\<rparr>) \<and>
   auto_update_embedding (upsert_fails [utt 0 900 ''A'' 0.8]) 7 ''alice''
       ''s3://bucket/c1/utterances/utterance_000.wav'' 0.95 0.9 []
     = (Inl (RaisedException ''index upsert failed''), []) \<and>
   process_conversation (upsert_fails [utt 0 900 ''A'' 0.8]) ''/tmp/a.wav'' (Some ''c1'') None
       0.6 0.9 []
     = (Inr None,
        \<lparr>world = [],
           trace = [ConvertToWav ''/tmp/a.wav'', FromWav ''/tmp/a.wav'',
                    Transcribe ''/tmp/a.wav'', AddConversation, TestVoiceSegment 0,
                    AddSpeaker 0 ''alice'', AutoUpdateEmbedding 0 ''alice'' 0.95]\<rparr>)"
proof -
  let ?us = "[no_start, utt 900 1800 ''B'' 0.8]"
  let ?c = "demo matched_alice ?us"
  let ?u = "utt 0 900 ''A'' 0.8"
  let ?vs = "[?u]"
  let ?d = "demo no_embedding ?vs"
  let ?s = "\<lparr>world = [], trace = []\<rparr> :: string list pstate"
  let ?s2 = "\<lparr>world = [], trace = trace ?s @ [TestVoiceSegment 0, AddSpeaker 0 ''Speaker_A'']\<rparr>
               :: string list pstate"
  let ?s3 = "\<lparr>world = [],
               trace = [TestVoiceSegment 0, AddSpeaker 0 ''Speaker_A'', AddUtterance 0]\<rparr>
               :: string list pstate"
  let ?path = "''s3://bucket/c1/utterances/utterance_000.wav''"
  let ?sa = "\<lparr>world = [],
               trace = [ConvertToWav ''/tmp/a.wav'', FromWav ''/tmp/a.wav'',
                        Transcribe ''/tmp/a.wav'']\<rparr> :: string list pstate"
  let ?s1 = "\<lparr>world = [],
               trace = [ConvertToWav ''/tmp/a.wav'', FromWav ''/tmp/a.wav'',
                        Transcribe ''/tmp/a.wav'', AddConversation]\<rparr> :: string list pstate"
  let ?t1 = "\<lparr>world = [],
               trace = [ConvertToWav ''/tmp/a.wav'', FromWav ''/tmp/a.wav'',
                        Transcribe ''/tmp/a.wav'', AddConversation, TestVoiceSegment 0,
                        AddSpeaker 0 ''Speaker_A'', AddUtterance 0, IdentifyUnknown]\<rparr>
               :: string list pstate"
  have wd: "u_words ?u = Some (JList [])" and st: "u_start ?u = Some 0"
    and en: "u_end ?u = Some 900" and long: "\<not> (900::int) - 0 < 700"
    and utx: "u_text ?u = Some ''hello''"
    by (simp_all add: utt_def)
  have filters: "u_words ?u = Some (JList []) \<and> u_start ?u = Some 0 \<and> u_end ?u = Some 900 \<and>
      \<not> (900::int) - 0 < 700"
    using wd st en long by (intro conjI)

  txt \<open>A malformed utterance.\<close>
  have m: "malformed no_start" by (simp add: malformed_def utt_def no_start_def)
  have ie: "is_Exception (KeyError ''start'')" by simp
  note pre = demo_prelude_wav [of matched_alice ?us]
  have convo: "''c1'' = default_conversation_id ?c (Some ''c1'') []"
    by (simp add: default_conversation_id_def)
  have cl: "cleanup ?c ''/tmp/a.wav'' ''/tmp/a.wav'' ?s1 = (Inr (), ?s1)"
    by (simp add: cleanup_def)
  from degraded_paths [OF pre convo demo_try_no_start cl, THEN conjunct1] ie
  have aborted: "process_conversation ?c ''/tmp/a.wav'' (Some ''c1'') None 0.6 0.9 []
      = (Inr None, ?s1)"
    by simp

  txt \<open>No embedding.\<close>
  note pre' = demo_prelude_wav [of no_embedding ?vs]
  have convo': "''c1'' = default_conversation_id ?d (Some ''c1'') []"
    by (simp add: default_conversation_id_def)
  have cl': "cleanup ?d ''/tmp/a.wav'' ''/tmp/a.wav'' ?t1 = (Inr (), ?t1)"
    by (simp add: cleanup_def)
  have ne: "no_embedding 0 = (None, 0.0, None, None)" by (simp add: no_embedding_def)
  have reached: "test_voice_segment ?d (audio_slice ?d 60000 0 900) ''c1'' 0 0.6 (world ?s)
        = (Inr (None, 0.0, None, None), []) \<and>
      fallback_label ?u None 0.0 = Inr (''Speaker_A'', 0.8) \<and>
      add_speaker ?d ''Speaker_A'' [] = (Inr (JStr ''Speaker_A''), []) \<and>
      u_text ?u = Some ''hello''"
    using utx
    by (simp add: demo_def no_embedding_def fallback_label_def provider_label_def truthy_def
          utt_def)
  have sto: "store_utterance ?d ''c1'' (JStr ''db-1'') 0 0
      900 ''hello'' 0.8 None (JStr ''Speaker_A'') ''Speaker_A'' (JList []) ?s2 = (Inr ?path, ?s3)"
    by (simp add: store_utterance_def call_def utterance_info_def clip_path_def demo_def fmt_03d_0)
  note inst = degraded_paths [OF pre' convo' demo_try_no_embedding cl', where u = ?u and i = 0
      and words = "JList []" and a = 0 and b = 900 and s = ?s and sn = None and cf = "0.0"
      and eid = None and emb = None and ?w1.0 = "[]" and name = "''Speaker_A''" and conf = "0.8"
      and sid = "JStr ''Speaker_A''" and ?w2.0 = "[]" and tx = "''hello''"
      and dbid = "JStr ''db-1''" and meta = "[]" and p = None]
  from inst [THEN conjunct2, THEN conjunct1]
  have returned: "process_conversation ?d ''/tmp/a.wav'' (Some ''c1'') None 0.6 0.5 []
      = (Inr (Some \<lparr>r_conversation_id = ''c1'', r_original_file = ''a.wav'',
                    r_s3_path = ''s3://bucket/c1/utterances/utterance_000.wav'',
                    r_utterances =
                      [[(''id'', JInt 0), (''start_ms'', JInt 0), (''end_ms'', JInt 900),
                        (''start_time'', JStr ''0''), (''end_time'', JStr ''900''),
                        (''text'', JStr ''hello''), (''confidence'', JFloat 0.8),
                        (''speaker'', JStr ''Speaker_A''), (''embedding_id'', JNull),
                        (''words'', JList []), (''conversation_id'', JStr ''db-1'')]],
                    r_timestamp = ''2024-01-01T12:00:00''\<rparr>), ?t1)"
    by simp
  note unavailable = inst [THEN conjunct2, THEN conjunct2, THEN conjunct2, THEN conjunct2,
      THEN conjunct2, THEN conjunct2, THEN mp, OF filters, THEN conjunct2, THEN mp, OF reached,
      THEN conjunct2, THEN mp, OF refl]
  note it = unavailable [THEN conjunct2, THEN conjunct2, THEN conjunct1]
  note keys = unavailable [THEN conjunct2, THEN conjunct2, THEN conjunct2]
  from it sto have iter: "process_utterance ?d ''c1'' (JStr ''db-1'') 60000 0.6 0.5 0 ?u
      ([], None) ?s
      = (Inr ([utterance_data ?d 0 0 900 ''hello'' 0.8 ''Speaker_A'' None (JList [])
                 (JStr ''db-1'')], Some ?path), ?s3)"
    by simp
  note con = demo_contract [of no_embedding ?vs]
  note shape = inst [THEN conjunct2, THEN conjunct2, THEN conjunct2, THEN conjunct2,
      THEN conjunct1, THEN mp, OF con]
  from shape have sh: "map (map fst)
      (returned_utterances (fst (process_conversation ?d ''/tmp/a.wav'' (Some ''c1'') None
         0.6 0.5 []))) = [record_keys]"
    unfolding returned by (simp add: returned_utterances_def)

  txt \<open>A cleanup that raises.\<close>
  let ?f = "remove_fails ?vs"
  let ?f1 = "\<lparr>world = [''/tmp/a.mp3.wav''],
               trace = [ConvertToWav ''/tmp/a.mp3'', FromWav ''/tmp/a.mp3.wav'',
                        Transcribe ''/tmp/a.mp3.wav'', AddConversation, TestVoiceSegment 0,
                        AddSpeaker 0 ''alice'', AutoUpdateEmbedding 0 ''alice'' 0.95,
                        AddUtterance 0, IdentifyUnknown]\<rparr> :: string list pstate"
  let ?f2 = "\<lparr>world = [''/tmp/a.mp3.wav''],
               trace = [ConvertToWav ''/tmp/a.mp3'', FromWav ''/tmp/a.mp3.wav'',
                        Transcribe ''/tmp/a.mp3.wav'', AddConversation, TestVoiceSegment 0,
                        AddSpeaker 0 ''alice'', AutoUpdateEmbedding 0 ''alice'' 0.95,
                        AddUtterance 0, IdentifyUnknown, OsRemove ''/tmp/a.mp3.wav'']\<rparr>
               :: string list pstate"
  have convof: "''c1'' = default_conversation_id ?f (Some ''c1'') []"
    by (simp add: default_conversation_id_def)
  have clf: "cleanup ?f ''/tmp/a.mp3.wav'' ''/tmp/a.mp3'' ?f1
      = (Inl (RaisedException ''permission denied''), ?f2)"
    by (simp add: cleanup_def call_def remove_fails_def demo_def)
  have runf: "process_conversation ?f ''/tmp/a.mp3'' (Some ''c1'') None 0.6 0.9 []
      = (Inl (RaisedException ''permission denied''), ?f2)"
    by (simp add: run_defs body_defs remove_fails_def demo_def matched_alice_def utt_def
          fmt_03d_0 str_nat.simps digit_char_def)
  from degraded_paths [OF remove_fails_prelude convof remove_fails_try clf, THEN conjunct2,
      THEN conjunct2, THEN conjunct1] runf
  have escaped: "fst (process_conversation ?f ''/tmp/a.mp3'' (Some ''c1'') None 0.6 0.9 [])
      = Inl (RaisedException ''permission denied'')"
    by simp

  txt \<open>An index query that raises.\<close>
  let ?q = "query_fails ?vs"
  let ?sq = "\<lparr>world = [], trace = trace ?s1 @ [TestVoiceSegment 0]\<rparr> :: string list pstate"
  have convoq: "''c1'' = default_conversation_id ?q (Some ''c1'') []"
    by (simp add: default_conversation_id_def)
  obtain rt s1 where
    tbq: "try_body ?q ''/tmp/a.wav'' ''c1'' None 0.6 0.9 60000 ?vs ?sa = (rt, s1)"
    by (cases "try_body ?q ''/tmp/a.wav'' ''c1'' None 0.6 0.9 60000 ?vs ?sa")
  obtain rc s2 where clq: "cleanup ?q ''/tmp/a.wav'' ''/tmp/a.wav'' s1 = (rc, s2)"
    by (cases "cleanup ?q ''/tmp/a.wav'' ''/tmp/a.wav'' s1")
  then have rcq: "rc = Inr ()" "s2 = s1" by (simp_all add: cleanup_def)
  have tvq: "test_voice_segment ?q (audio_slice ?q 60000 0 900) ''c1'' 0 0.6 (world ?s1)
      = (Inl (RaisedException ''index query failed''), [])"
    by (simp add: query_fails_def demo_def)
  note instq = degraded_paths [OF query_fails_prelude convoq tbq clq, where u = ?u
      and words = "JList []" and a = 0 and b = 900 and i = 0 and s = ?s1
      and ex = "RaisedException ''index query failed''" and ?w1.0 = "[]" and xs = "[]"
      and ys = "[]" and dbid = "JStr ''db-1''" and wa = "[]" and meta = "[]" and p = None
      and sx = ?sq]
  note itq = instq [THEN conjunct2, THEN conjunct2, THEN conjunct2, THEN conjunct2,
      THEN conjunct2, THEN conjunct2, THEN mp, OF filters, THEN conjunct1, THEN mp, OF tvq]
  from instq [THEN conjunct2, THEN conjunct2, THEN conjunct2, THEN conjunct2, THEN conjunct2,
      THEN conjunct1] itq
  have rtq: "rt = Inl (RaisedException ''index query failed'')" "s1 = ?sq"
    by (simp_all add: query_fails_def demo_def)
  from instq [THEN conjunct1] rtq rcq
  have query: "process_conversation ?q ''/tmp/a.wav'' (Some ''c1'') None 0.6 0.9 []
      = (Inr None,
         \<lparr>world = [],
            trace = [ConvertToWav ''/tmp/a.wav'', FromWav ''/tmp/a.wav'',
                     Transcribe ''/tmp/a.wav'', AddConversation, TestVoiceSegment 0]\<rparr>)"
    by simp
  have tvq': "test_voice_segment ?q 900 ''c1'' 0 0.6 []
      = (Inl (RaisedException ''index query failed''), [])"
    by (simp add: query_fails_def demo_def)

  txt \<open>An index write that raises.\<close>
  let ?p = "upsert_fails ?vs"
  let ?sp = "\<lparr>world = [],
               trace = trace ?s1 @ [TestVoiceSegment 0, AddSpeaker 0 ''alice'',
                                    AutoUpdateEmbedding 0 ''alice'' 0.95]\<rparr>
               :: string list pstate"
  have convop: "''c1'' = default_conversation_id ?p (Some ''c1'') []"
    by (simp add: default_conversation_id_def)
  obtain rt' s1' where
    tbp: "try_body ?p ''/tmp/a.wav'' ''c1'' None 0.6 0.9 60000 ?vs ?sa = (rt', s1')"
    by (cases "try_body ?p ''/tmp/a.wav'' ''c1'' None 0.6 0.9 60000 ?vs ?sa")
  obtain rc' s2' where clp: "cleanup ?p ''/tmp/a.wav'' ''/tmp/a.wav'' s1' = (rc', s2')"
    by (cases "cleanup ?p ''/tmp/a.wav'' ''/tmp/a.wav'' s1'")
  then have rcp: "rc' = Inr ()" "s2' = s1'" by (simp_all add: cleanup_def)
  have reachp: "test_voice_segment ?p (audio_slice ?p 60000 0 900) ''c1'' 0 0.6 (world ?s1)
        = (Inr (Some ''alice'', 0.95, Some ''emb_1'', Some 7), []) \<and>
      fallback_label ?u (Some ''alice'') 0.95 = Inr (''alice'', 0.95) \<and>
      add_speaker ?p ''alice'' [] = (Inr (JStr ''alice''), []) \<and>
      u_text ?u = Some ''hello''"
    using utx
    by (simp add: upsert_fails_def demo_def matched_alice_def fallback_label_def truthy_def)
  have failp: "Some (7::nat) = Some 7 \<and> (0.9::real) < 0.95 \<and>
      auto_update_embedding ?p 7 ''alice'' (clip_path ?p ''c1'' 0) 0.95 0.9 []
        = (Inl (RaisedException ''index upsert failed''), [])"
    by (simp add: upsert_fails_def)
  note instp = degraded_paths [OF upsert_fails_prelude convop tbp clp, where u = ?u
      and words = "JList []" and a = 0 and b = 900 and i = 0 and s = ?s1
      and sn = "Some ''alice''" and cf = "0.95" and eid = "Some ''emb_1''" and emb = "Some 7"
      and e = 7 and ?w1.0 = "[]" and name = "''alice''" and conf = "0.95"
      and sid = "JStr ''alice''" and ?w2.0 = "[]" and tx = "''hello''"
      and ex = "RaisedException ''index upsert failed''" and ?w3.0 = "[]" and xs = "[]"
      and ys = "[]" and dbid = "JStr ''db-1''" and wa = "[]" and meta = "[]" and p = None
      and sx = ?sp]
  note itp = instp [THEN conjunct2, THEN conjunct2, THEN conjunct2, THEN conjunct2,
      THEN conjunct2, THEN conjunct2, THEN mp, OF filters, THEN conjunct2, THEN mp, OF reachp,
      THEN conjunct1, THEN mp, OF failp]
  from instp [THEN conjunct2, THEN conjunct2, THEN conjunct2, THEN conjunct2, THEN conjunct2,
      THEN conjunct1] itp
  have rtp: "rt' = Inl (RaisedException ''index upsert failed'')" "s1' = ?sp"
    by (simp_all add: upsert_fails_def demo_def)
  from instp [THEN conjunct1] rtp rcp
  have upsert: "process_conversation ?p ''/tmp/a.wav'' (Some ''c1'') None 0.6 0.9 []
      = (Inr None,
         \<lparr>world = [],
            trace = [ConvertToWav ''/tmp/a.wav'', FromWav ''/tmp/a.wav'',
                     Transcribe ''/tmp/a.wav'', AddConversation, TestVoiceSegment 0,
                     AddSpeaker 0 ''alice'', AutoUpdateEmbedding 0 ''alice'' 0.95]\<rparr>)"
    by simp
  have aup: "auto_update_embedding ?p 7 ''alice'' ''s3://bucket/c1/utterances/utterance_000.wav''
      0.95 0.9 [] = (Inl (RaisedException ''index upsert failed''), [])"
    by (simp add: upsert_fails_def)
  from m ie aborted ne iter keys con sh returned clf escaped tvq' query aup upsert
  show ?thesis by (intro conjI)
qed

theorem failure_aborts_counterexample:
  "u_words no_start = Some (JList []) \<and> u_start no_start = None \<and>
   fst (process_conversation (demo matched_alice [no_start, utt 900 1800 ''B'' 0.8])
          ''/tmp/a.wav'' (Some ''c1'') None 0.6 0.9 []) = Inr None \<and>
   process_conversation (query_fails [utt 0 900 ''A'' 0.8]) ''/tmp/a.wav'' (Some ''c1'') None
       0.6 0.9 []
     = (Inr None,
        \<lparr>world = [],
           trace = [ConvertToWav ''/tmp/a.wav'', FromWav ''/tmp/a.wav'',
                    Transcribe ''/tmp/a.wav'', AddConversation, TestVoiceSegment 0]\<rparr>) \<and>
   process_conversation (upsert_fails [utt 0 900 ''A'' 0.8]) ''/tmp/a.wav'' (Some ''c1'') None
       0.6 0.9 []
     = (Inr None,
        \<lparr>world = [],
           trace = [ConvertToWav ''/tmp/a.wav'', FromWav ''/tmp/a.wav'',
                    Transcribe ''/tmp/a.wav'', AddConversation, TestVoiceSegment 0,
                    AddSpeaker 0 ''alice'', AutoUpdateEmbedding 0 ''alice'' 0.95]\<rparr>)"
proof -
  have a: "u_words no_start = Some (JList []) \<and> u_start no_start = None"
    by (simp add: no_start_def utt_def)
  have b: "fst (process_conversation (demo matched_alice [no_start, utt 900 1800 ''B'' 0.8])
          ''/tmp/a.wav'' (Some ''c1'') None 0.6 0.9 []) = Inr None"
    unfolding demo_run_no_start by simp
  have q: "process_conversation (query_fails [utt 0 900 ''A'' 0.8]) ''/tmp/a.wav'' (Some ''c1'')
       None 0.6 0.9 []
     = (Inr None,
        \<lparr>world = [],
           trace = [ConvertToWav ''/tmp/a.wav'', FromWav ''/tmp/a.wav'',
                    Transcribe ''/tmp/a.wav'', AddConversation, TestVoiceSegment 0]\<rparr>)"
    by (simp add: run_defs body_defs query_fails_def demo_def matched_alice_def utt_def)
  have p: "process_conversation (upsert_fails [utt 0 900 ''A'' 0.8]) ''/tmp/a.wav'' (Some ''c1'')
       None 0.6 0.9 []
     = (Inr None,
        \<lparr>world = [],
           trace = [ConvertToWav ''/tmp/a.wav'', FromWav ''/tmp/a.wav'',
                    Transcribe ''/tmp/a.wav'', AddConversation, TestVoiceSegment 0,
                    AddSpeaker 0 ''alice'', AutoUpdateEmbedding 0 ''alice'' 0.95]\<rparr>)"
    by (simp add: run_defs body_defs upsert_fails_def demo_def matched_alice_def utt_def fmt_03d_0)
  from a b q p show ?thesis by (intro conjI) simp_all
qed

text \<open>
  Claim C7, amended. An utterance that lacks its word-level data (the key \<^verbatim>\<open>words\<close>) is
  skipped, and the loop goes on with the remaining utterances: the loop over a list that
  holds such an utterance does what it does on the utterances before it, then on the
  utterances after it with their own indices, with no call, no record and no exception for
  the utterance itself.
\<close>

theorem missing_words_skipped:
  assumes "u_words u = None"
  shows "process_utterances c cid dbid audio mt aut i (xs @ u # ys) vars s =
           (case process_utterances c cid dbid audio mt aut i xs vars s of
              (Inl e, s1) \<Rightarrow> (Inl e, s1)
            | (Inr vars1, s1) \<Rightarrow>
                process_utterances c cid dbid audio mt aut (Suc (i + length xs)) ys vars1 s1)"
proof -
  have f: "filtered u" using assms by (simp add: filtered_def)
  show ?thesis
    by (simp add: process_utterances_append process_utterance_filtered [OF f]
          split: prod.splits sum.splits)
qed

theorem missing_words_skipped_witness:
  "u_words no_words = None \<and>
   process_utterances (demo matched_alice []) ''c1'' (JStr ''db-1'') 60000 0.6 0.9 0
       [no_words, utt 900 1800 ''B'' 0.8] ([], None) \<lparr>world = [], trace = []\<rparr>
     = process_utterances (demo matched_alice []) ''c1'' (JStr ''db-1'') 60000 0.6 0.9 1
         [utt 900 1800 ''B'' 0.8] ([], None) \<lparr>world = [], trace = []\<rparr> \<and>
   trace (snd (process_utterances (demo matched_alice []) ''c1'' (JStr ''db-1'') 60000 0.6 0.9 0
       [no_words, utt 900 1800 ''B'' 0.8] ([], None) \<lparr>world = [], trace = []\<rparr>))
     = [TestVoiceSegment 1, AddSpeaker 1 ''alice'', AutoUpdateEmbedding 1 ''alice'' 0.95,
        AddUtterance 1]"
proof -
  let ?c = "demo matched_alice []"
  let ?s = "\<lparr>world = [], trace = []\<rparr> :: string list pstate"
  have nw: "u_words no_words = None" by (simp add: no_words_def)
  from missing_words_skipped [OF nw, of ?c "''c1''" "JStr ''db-1''" 60000 "0.6" "0.9" 0 "[]"
      "[utt 900 1800 ''B'' 0.8]" "([], None)" ?s]
  have eq: "process_utterances ?c ''c1'' (JStr ''db-1'') 60000 0.6 0.9 0
       [no_words, utt 900 1800 ''B'' 0.8] ([], None) ?s
     = process_utterances ?c ''c1'' (JStr ''db-1'') 60000 0.6 0.9 1
         [utt 900 1800 ''B'' 0.8] ([], None) ?s"
    by simp
  have "trace (snd (process_utterances ?c ''c1'' (JStr ''db-1'') 60000 0.6 0.9 1
         [utt 900 1800 ''B'' 0.8] ([], None) ?s))
     = [TestVoiceSegment 1, AddSpeaker 1 ''alice'', AutoUpdateEmbedding 1 ''alice'' 0.95,
        AddUtterance 1]"
    by (simp add: body_defs demo_def matched_alice_def utt_def)
  with nw eq show ?thesis by simp
qed

theorem missing_start_not_skipped_counterexample:
  "u_words no_start = Some (JList []) \<and> u_start no_start = None \<and>
   process_utterances (demo matched_alice [no_start, utt 900 1800 ''B'' 0.8]) ''c1''
       (JStr ''db-1'') 60000 0.6 0.9 0 [no_start, utt 900 1800 ''B'' 0.8] ([], None)
       \<lparr>world = [], trace = []\<rparr>
     = (Inl (KeyError ''start''), \<lparr>world = [], trace = []\<rparr>) \<and>
   trace (snd (process_conversation (demo matched_alice [no_start, utt 900 1800 ''B'' 0.8])
                 ''/tmp/a.wav'' (Some ''c1'') None 0.6 0.9 []))
     = [ConvertToWav ''/tmp/a.wav'', FromWav ''/tmp/a.wav'', Transcribe ''/tmp/a.wav'',
        AddConversation]"
  unfolding demo_run_no_start
  by (simp add: no_start_def utt_def process_utterance_def)

text \<open>
  Claim C8, amended. Every record of the returned utterance list has exactly the keys
  \<^verbatim>\<open>id\<close>, \<^verbatim>\<open>start_ms\<close>, \<^verbatim>\<open>end_ms\<close>, \<^verbatim>\<open>start_time\<close>, \<^verbatim>\<open>end_time\<close>, \<^verbatim>\<open>text\<close>, \<^verbatim>\<open>confidence\<close>,
  \<^verbatim>\<open>speaker\<close>, \<^verbatim>\<open>embedding_id\<close>, \<^verbatim>\<open>words\<close> and \<^verbatim>\<open>conversation_id\<close>, and belongs to a
  surviving utterance whose index, time span, text and word-level data it carries. Under
  \<^verbatim>\<open>conversation_id\<close> it holds the database id that \<^verbatim>\<open>add_conversation\<close> returned in this
  run. It has no audio-clip reference: the counterexample below is a returned record that
  does not hold the path of its clip.
\<close>

theorem returned_record_fields:
  assumes pre: "prelude c fp \<lparr>world = w, trace = []\<rparr> = (Inr (wav, audio, us), s0)"
    and con: "consolidation_contract c"
    and run: "process_conversation c fp cid dn mt aut w = (Inr (Some res), s')"
    and mem: "r \<in> set (r_utterances res)"
  shows "map fst r = [''id'', ''start_ms'', ''end_ms'', ''start_time'', ''end_time'', ''text'',
                      ''confidence'', ''speaker'', ''embedding_id'', ''words'',
                      ''conversation_id''] \<and>
         (\<exists>dbid w1 k.
            add_conversation c
              (conversation_info c (default_conversation_id c cid w) fp audio dn) (world s0)
              = (Inr dbid, w1) \<and>
            map_of r ''conversation_id'' = Some dbid \<and>
            k < length us \<and> survives (us ! k) \<and> record_of c dbid k (us ! k) r)"
proof -
  from returned_records_database [OF pre run con mem] obtain dbid w1 k where
    k: "add_conversation c
          (conversation_info c (default_conversation_id c cid w) fp audio dn) (world s0)
          = (Inr dbid, w1)"
      "k < length us" "survives (us ! k)" "record_of c dbid k (us ! k) r"
    by blast
  from k(4) have keys: "map fst r = record_keys" and db: "map_of r ''conversation_id'' = Some dbid"
    by (simp_all add: record_of_def)
  from keys have ks: "map fst r = [''id'', ''start_ms'', ''end_ms'', ''start_time'', ''end_time'',
                      ''text'', ''confidence'', ''speaker'', ''embedding_id'', ''words'',
                      ''conversation_id'']"
    by (simp add: record_keys_def)
  have "\<exists>dbid w1 k.
            add_conversation c
              (conversation_info c (default_conversation_id c cid w) fp audio dn) (world s0)
              = (Inr dbid, w1) \<and>
            map_of r ''conversation_id'' = Some dbid \<and>
            k < length us \<and> survives (us ! k) \<and> record_of c dbid k (us ! k) r"
    by (intro exI [of _ dbid] exI [of _ w1] exI [of _ k] conjI) (fact k(1) db k(2) k(3) k(4))+
  with ks show ?thesis by (intro conjI)
qed

theorem returned_record_fields_witness:
  "consolidation_contract
     (demo unmatched_with_embedding [utt 0 650 ''A'' 0.5, utt 650 1550 ''A'' 0.8]) \<and>
   add_conversation
     (demo unmatched_with_embedding [utt 0 650 ''A'' 0.5, utt 650 1550 ''A'' 0.8])
     (conversation_info
        (demo unmatched_with_embedding [utt 0 650 ''A'' 0.5, utt 650 1550 ''A'' 0.8])
        ''c1'' ''/tmp/a.mp3'' 60000 None)
     [''/tmp/a.mp3.wav'']
     = (Inr (JStr ''db-1''), [''/tmp/a.mp3.wav'']) \<and>
   map (map fst)
     (returned_utterances (fst (process_conversation
        (demo unmatched_with_embedding [utt 0 650 ''A'' 0.5, utt 650 1550 ''A'' 0.8])
        ''/tmp/a.mp3'' (Some ''c1'') None 0.6 0.9 [])))
     = [[''id'', ''start_ms'', ''end_ms'', ''start_time'', ''end_time'', ''text'',
         ''confidence'', ''speaker'', ''embedding_id'', ''words'', ''conversation_id'']] \<and>
   map (\<lambda>r. map_of r ''conversation_id'')
     (returned_utterances (fst (process_conversation
        (demo unmatched_with_embedding [utt 0 650 ''A'' 0.5, utt 650 1550 ''A'' 0.8])
        ''/tmp/a.mp3'' (Some ''c1'') None 0.6 0.9 [])))
     = [Some (JStr ''db-1'')]"
proof -
  let ?us = "[utt 0 650 ''A'' 0.5, utt 650 1550 ''A'' 0.8]"
  let ?c = "demo unmatched_with_embedding ?us"
  let ?r = "[(''id'', JInt 1), (''start_ms'', JInt 650), (''end_ms'', JInt 1550),
             (''start_time'', JStr ''650''), (''end_time'', JStr ''1550''),
             (''text'', JStr ''hello''), (''confidence'', JFloat 0.8),
             (''speaker'', JStr ''Speaker_A''), (''embedding_id'', JNull),
             (''words'', JList []), (''conversation_id'', JStr ''db-1'')]"
  note pre = demo_prelude_mp3 [of unmatched_with_embedding ?us]
  note run = demo_run_short_long
  note con = demo_contract [of unmatched_with_embedding ?us]
  have mem: "?r \<in> set (r_utterances
      \<lparr>r_conversation_id = ''c1'', r_original_file = ''a.mp3'',
         r_s3_path = ''s3://bucket/c1/utterances/utterance_001.wav'',
         r_utterances = [?r], r_timestamp = ''2024-01-01T12:00:00''\<rparr>)"
    by simp
  have ac: "add_conversation ?c (conversation_info ?c ''c1'' ''/tmp/a.mp3'' 60000 None)
              [''/tmp/a.mp3.wav''] = (Inr (JStr ''db-1''), [''/tmp/a.mp3.wav''])"
    by (simp add: demo_def)
  from returned_record_fields [OF pre con run mem] obtain dbid w1 where
    keys: "map fst ?r = [''id'', ''start_ms'', ''end_ms'', ''start_time'', ''end_time'', ''text'',
         ''confidence'', ''speaker'', ''embedding_id'', ''words'', ''conversation_id'']"
    and a: "add_conversation ?c
              (conversation_info ?c (default_conversation_id ?c (Some ''c1'') []) ''/tmp/a.mp3''
                 60000 None)
              (world \<lparr>world = [''/tmp/a.mp3.wav''],
                       trace = [ConvertToWav ''/tmp/a.mp3'', FromWav ''/tmp/a.mp3.wav'',
                                Transcribe ''/tmp/a.mp3.wav'']\<rparr>)
              = (Inr dbid, w1)"
    and d: "map_of ?r ''conversation_id'' = Some dbid"
    by (elim exE conjE) (rule that, assumption+)
  from a have "dbid = JStr ''db-1''" by (simp add: demo_def)
  with d have db: "map_of ?r ''conversation_id'' = Some (JStr ''db-1'')" by simp
  from keys db con ac show ?thesis unfolding run by (simp add: returned_utterances_def)
qed

theorem record_without_clip_counterexample:
  "returned_utterances (fst (process_conversation
      (demo unmatched_with_embedding [utt 0 650 ''A'' 0.5, utt 650 1550 ''A'' 0.8])
      ''/tmp/a.mp3'' (Some ''c1'') None 0.6 0.9 []))
     = [[(''id'', JInt 1), (''start_ms'', JInt 650), (''end_ms'', JInt 1550),
         (''start_time'', JStr ''650''), (''end_time'', JStr ''1550''),
         (''text'', JStr ''hello''), (''confidence'', JFloat 0.8),
         (''speaker'', JStr ''Speaker_A''), (''embedding_id'', JNull),
         (''words'', JList []), (''conversation_id'', JStr ''db-1'')]] \<and>
   clip_path (demo unmatched_with_embedding [utt 0 650 ''A'' 0.5, utt 650 1550 ''A'' 0.8])
     ''c1'' 1 = ''s3://bucket/c1/utterances/utterance_001.wav'' \<and>
   \<not> has_clip_reference
       (demo unmatched_with_embedding [utt 0 650 ''A'' 0.5, utt 650 1550 ''A'' 0.8]) ''c1'' 1
       [(''id'', JInt 1), (''start_ms'', JInt 650), (''end_ms'', JInt 1550),
        (''start_time'', JStr ''650''), (''end_time'', JStr ''1550''),
        (''text'', JStr ''hello''), (''confidence'', JFloat 0.8),
        (''speaker'', JStr ''Speaker_A''), (''embedding_id'', JNull),
        (''words'', JList []), (''conversation_id'', JStr ''db-1'')]"
  unfolding demo_run_short_long
  by (simp add: returned_utterances_def has_clip_reference_def clip_path_def demo_def
        fmt_03d_Suc_0)

text \<open>
  Claim C9. When no utterance survives the filters (each one lacks its word-level data or
  is shorter than 700 ms, or there is none), the function never returns a result object:
  the loop leaves \<^verbatim>\<open>utterance_metadata\<close> empty and \<^verbatim>\<open>s3_path\<close> unbound, reading \<^verbatim>\<open>s3_path\<close>
  for the result raises \<^verbatim>\<open>UnboundLocalError\<close>, and the function returns \<open>None\<close> (given that
  the collaborators inside the \<^verbatim>\<open>try\<close> statement raise only exceptions derived from
  \<^verbatim>\<open>Exception\<close> and that \<^verbatim>\<open>os.remove\<close> does not raise).
\<close>

theorem no_survivor_returns_None:
  assumes pre: "prelude c fp \<lparr>world = w, trace = []\<rparr> = (Inr (wav, audio, us), s0)"
    and filt: "\<forall>u\<in>set us. filtered u"
  shows "(\<forall>res. fst (process_conversation c fp cid dn mt aut w) \<noteq> Inr (Some res)) \<and>
         (\<forall>dbid s. process_utterances c (default_conversation_id c cid w) dbid audio mt aut 0 us
                      ([], None) s = (Inr ([], None), s)) \<and>
         (\<forall>meta w1. build_result c (default_conversation_id c cid w) fp None meta w1
                       = Inl (UnboundLocalError ''s3_path'')) \<and>
         (raises_only_Exception c \<and> remove_succeeds c \<longrightarrow>
            fst (process_conversation c fp cid dn mt aut w) = Inr None)"
proof -
  let ?cid = "default_conversation_id c cid w"
  have tb: "\<forall>res. fst (try_body c fp ?cid dn mt aut audio us s0) \<noteq> Inr res"
    by (intro allI try_body_no_survivor [OF filt])
  have a: "\<forall>res. fst (process_conversation c fp cid dn mt aut w) \<noteq> Inr (Some res)"
    by (intro allI process_conversation_not_Some [OF pre tb])
  have b: "\<forall>dbid s. process_utterances c ?cid dbid audio mt aut 0 us ([], None) s
                      = (Inr ([], None), s)"
    by (intro allI process_utterances_filtered [OF filt])
  have d: "\<forall>meta w1. build_result c ?cid fp None meta w1 = Inl (UnboundLocalError ''s3_path'')"
    by (simp add: build_result_unbound)
  have e: "raises_only_Exception c \<and> remove_succeeds c \<longrightarrow>
            fst (process_conversation c fp cid dn mt aut w) = Inr None"
  proof
    assume h: "raises_only_Exception c \<and> remove_succeeds c"
    then have roe: "raises_only_Exception c" and rs: "remove_succeeds c" by simp_all
    from tb obtain e where "fst (try_body c fp ?cid dn mt aut audio us s0) = Inl e"
      by (cases "fst (try_body c fp ?cid dn mt aut audio us s0)") auto
    with process_conversation_caught [OF pre roe rs, of cid dn mt aut]
    show "fst (process_conversation c fp cid dn mt aut w) = Inr None" by simp
  qed
  from a b d e show ?thesis by (intro conjI)
qed

theorem no_survivor_returns_None_witness:
  "prelude (demo matched_alice [utt 0 650 ''A'' 0.5, no_words]) ''/tmp/a.mp3''
     \<lparr>world = [], trace = []\<rparr>
     = (Inr (''/tmp/a.mp3.wav'', 60000, [utt 0 650 ''A'' 0.5, no_words]),
        \<lparr>world = [''/tmp/a.mp3.wav''],
           trace = [ConvertToWav ''/tmp/a.mp3'', FromWav ''/tmp/a.mp3.wav'',
                    Transcribe ''/tmp/a.mp3.wav'']\<rparr>) \<and>
   filtered (utt 0 650 ''A'' 0.5) \<and> filtered no_words \<and>
   fst (process_conversation (demo matched_alice [utt 0 650 ''A'' 0.5, no_words])
          ''/tmp/a.mp3'' (Some ''c1'') None 0.6 0.9 []) = Inr None"
proof -
  let ?us = "[utt 0 650 ''A'' 0.5, no_words]"
  let ?c = "demo matched_alice ?us"
  note pre = demo_prelude_mp3 [of matched_alice ?us]
  have f1: "filtered (utt 0 650 ''A'' 0.5)" and f2: "filtered no_words"
    by (simp_all add: filtered_def utt_def no_words_def)
  then have filt: "\<forall>u\<in>set ?us. filtered u" by simp
  from no_survivor_returns_None [OF pre filt, of "Some ''c1''" None "0.6" "0.9"]
    demo_raises_only_Exception [of matched_alice ?us] demo_remove_succeeds [of matched_alice ?us]
  have "fst (process_conversation ?c ''/tmp/a.mp3'' (Some ''c1'') None 0.6 0.9 []) = Inr None"
    by blast
  with pre f1 f2 show ?thesis by (intro conjI)
qed

text \<open>
  Claim C10. The function never calls \<^verbatim>\<open>os.remove\<close> on the input file. On every path that
  returns (a result object or \<open>None\<close>), when the converted file has another path than
  the input file and exists after the \<^verbatim>\<open>try\<close> statement, the last call of the run is
  \<^verbatim>\<open>os.remove\<close> on it, which succeeded, so that the file no longer exists when the
  function returns (\<^verbatim>\<open>os.remove\<close> deleting what it removes); otherwise the \<^verbatim>\<open>finally\<close>
  block changes nothing.
\<close>

theorem temporary_wav_removed:
  assumes run: "process_conversation c fp cid dn mt aut w = (out, s')"
  shows "OsRemove fp \<notin> set (trace s') \<and>
         (\<forall>wav audio us s0 r sb.
            prelude c fp \<lparr>world = w, trace = []\<rparr> = (Inr (wav, audio, us), s0) \<and>
            out = Inr r \<and>
            sb = snd (try_body c fp (default_conversation_id c cid w) dn mt aut audio us s0)
            \<longrightarrow> (if wav \<noteq> fp \<and> path_exists c wav (world sb)
                 then trace s' = trace sb @ [OsRemove wav] \<and>
                      os_remove c wav (world sb) = (Inr (), world s') \<and>
                      (remove_deletes c \<longrightarrow> \<not> path_exists c wav (world s'))
                 else s' = sb))"
proof (intro conjI allI impI)
  show "OsRemove fp \<notin> set (trace s')" using run by (rule input_never_removed)
next
  fix wav audio us s0 r sb
  assume h: "prelude c fp \<lparr>world = w, trace = []\<rparr> = (Inr (wav, audio, us), s0) \<and>
            out = Inr r \<and>
            sb = snd (try_body c fp (default_conversation_id c cid w) dn mt aut audio us s0)"
  then have pre: "prelude c fp \<lparr>world = w, trace = []\<rparr> = (Inr (wav, audio, us), s0)"
    and sb: "sb = snd (try_body c fp (default_conversation_id c cid w) dn mt aut audio us s0)"
    and run': "process_conversation c fp cid dn mt aut w = (Inr r, s')"
    using run by simp_all
  from cleanup_on_return [OF pre run' sb]
  show "if wav \<noteq> fp \<and> path_exists c wav (world sb)
        then trace s' = trace sb @ [OsRemove wav] \<and>
             os_remove c wav (world sb) = (Inr (), world s') \<and>
             (remove_deletes c \<longrightarrow> \<not> path_exists c wav (world s'))
        else s' = sb" .
qed

theorem temporary_wav_removed_witness:
  "process_conversation
     (demo unmatched_with_embedding [utt 0 650 ''A'' 0.5, utt 650 1550 ''A'' 0.8])
     ''/tmp/a.mp3'' (Some ''c1'') None 0.6 0.9 []
   = (Inr (Some \<lparr>r_conversation_id = ''c1'', r_original_file = ''a.mp3'',
                  r_s3_path = ''s3://bucket/c1/utterances/utterance_001.wav'',
                  r_utterances =
                    [[(''id'', JInt 1), (''start_ms'', JInt 650), (''end_ms'', JInt 1550),
                      (''start_time'', JStr ''650''), (''end_time'', JStr ''1550''),
                      (''text'', JStr ''hello''), (''confidence'', JFloat 0.8),
                      (''speaker'', JStr ''Speaker_A''), (''embedding_id'', JNull),
                      (''words'', JList []), (''conversation_id'', JStr ''db-1'')]],
                  r_timestamp = ''2024-01-01T12:00:00''\<rparr>),
      \<lparr>world = [],
         trace = [ConvertToWav ''/tmp/a.mp3'', FromWav ''/tmp/a.mp3.wav'',
                  Transcribe ''/tmp/a.mp3.wav'', AddConversation, TestVoiceSegment 1,
                  AddSpeaker 1 ''Speaker_A'', AddUtterance 1, IdentifyUnknown,
                  OsRemove ''/tmp/a.mp3.wav'']\<rparr>) \<and>
   remove_deletes (demo unmatched_with_embedding [utt 0 650 ''A'' 0.5, utt 650 1550 ''A'' 0.8]) \<and>
   path_exists (demo unmatched_with_embedding [utt 0 650 ''A'' 0.5, utt 650 1550 ''A'' 0.8])
     ''/tmp/a.mp3.wav'' [''/tmp/a.mp3.wav''] \<and>
   \<not> path_exists (demo unmatched_with_embedding [utt 0 650 ''A'' 0.5, utt 650 1550 ''A'' 0.8])
       ''/tmp/a.mp3.wav'' []"
proof -
  let ?us = "[utt 0 650 ''A'' 0.5, utt 650 1550 ''A'' 0.8]"
  let ?c = "demo unmatched_with_embedding ?us"
  let ?s0 = "\<lparr>world = [''/tmp/a.mp3.wav''],
               trace = [ConvertToWav ''/tmp/a.mp3'', FromWav ''/tmp/a.mp3.wav'',
                        Transcribe ''/tmp/a.mp3.wav'']\<rparr>"
  let ?sb = "snd (try_body ?c ''/tmp/a.mp3'' (default_conversation_id ?c (Some ''c1'') [])
                    None 0.6 0.9 60000 ?us ?s0)"
  note pre = demo_prelude_mp3 [of unmatched_with_embedding ?us]
  note run = demo_run_short_long
  note rd = demo_remove_deletes [of unmatched_with_embedding ?us]
  have ex: "path_exists ?c ''/tmp/a.mp3.wav'' [''/tmp/a.mp3.wav'']"
    by (simp add: demo_def)
  have cond: "''/tmp/a.mp3.wav'' \<noteq> ''/tmp/a.mp3'' \<and> path_exists ?c ''/tmp/a.mp3.wav'' (world ?sb)"
    unfolding demo_try_short_long using ex by simp
  from temporary_wav_removed [OF run] pre have
    "if ''/tmp/a.mp3.wav'' \<noteq> ''/tmp/a.mp3'' \<and> path_exists ?c ''/tmp/a.mp3.wav'' (world ?sb)
     then trace \<lparr>world = ([]::string list),
                  trace = [ConvertToWav ''/tmp/a.mp3'', FromWav ''/tmp/a.mp3.wav'',
                    Transcribe ''/tmp/a.mp3.wav'', AddConversation, TestVoiceSegment 1,
                    AddSpeaker 1 ''Speaker_A'', AddUtterance 1, IdentifyUnknown,
                    OsRemove ''/tmp/a.mp3.wav'']\<rparr> = trace ?sb @ [OsRemove ''/tmp/a.mp3.wav''] \<and>
          os_remove ?c ''/tmp/a.mp3.wav'' (world ?sb)
            = (Inr (), world \<lparr>world = ([]::string list),
                  trace = [ConvertToWav ''/tmp/a.mp3'', FromWav ''/tmp/a.mp3.wav'',
                    Transcribe ''/tmp/a.mp3.wav'', AddConversation, TestVoiceSegment 1,
                    AddSpeaker 1 ''Speaker_A'', AddUtterance 1, IdentifyUnknown,
                    OsRemove ''/tmp/a.mp3.wav'']\<rparr>) \<and>
          (remove_deletes ?c \<longrightarrow> \<not> path_exists ?c ''/tmp/a.mp3.wav''
             (world \<lparr>world = ([]::string list),
                  trace = [ConvertToWav ''/tmp/a.mp3'', FromWav ''/tmp/a.mp3.wav'',
                    Transcribe ''/tmp/a.mp3.wav'', AddConversation, TestVoiceSegment 1,
                    AddSpeaker 1 ''Speaker_A'', AddUtterance 1, IdentifyUnknown,
                    OsRemove ''/tmp/a.mp3.wav'']\<rparr>))
     else \<lparr>world = ([]::string list),
                  trace = [ConvertToWav ''/tmp/a.mp3'', FromWav ''/tmp/a.mp3.wav'',
                    Transcribe ''/tmp/a.mp3.wav'', AddConversation, TestVoiceSegment 1,
                    AddSpeaker 1 ''Speaker_A'', AddUtterance 1, IdentifyUnknown,
                    OsRemove ''/tmp/a.mp3.wav'']\<rparr> = ?sb"
    by blast
  with cond rd have "\<not> path_exists ?c ''/tmp/a.mp3.wav'' []" by simp
  with run rd ex show ?thesis by (intro conjI)
qed

end
